theory Spec2Isabelle
  imports Complex_Main "HOL-Library.AList" "HOL-Library.Sublist"
begin

section \<open>Python values, dictionaries and failures\<close>

text \<open>
  The module \<^verbatim>\<open>hnn_core/pyramidal.py\<close> is embedded method by method. A raised exception
  is the \<open>Inl\<close> branch of a sum. Numeric parameters (Python floats) are read as real
  numbers, so rounding of floating-point arithmetic is not part of the model.
\<close>

datatype error = KeyError string | IndexError | TypeError | UnboundLocalError string

definition bind_e :: "error + 'a \<Rightarrow> ('a \<Rightarrow> error + 'b) \<Rightarrow> error + 'b" where
  "bind_e m f = (case m of Inl e \<Rightarrow> Inl e | Inr x \<Rightarrow> f x)"

text \<open>
  A dictionary that the code iterates over keeps its insertion order: an association list
  with \<open>map_of\<close> as lookup and \<open>AList.update\<close> as item assignment (an existing key keeps
  its place, a new key goes to the end). A dictionary that is only looked up is a map.
\<close>

type_synonym ('k, 'v) dict = "('k \<times> 'v) list"

definition getitem :: "(string, 'v) dict \<Rightarrow> string \<Rightarrow> error + 'v" where
  "getitem d k = (case map_of d k of None \<Rightarrow> Inl (KeyError k) | Some v \<Rightarrow> Inr v)"

definition lookup :: "(string \<rightharpoonup> 'v) \<Rightarrow> string \<Rightarrow> error + 'v" where
  "lookup m k = (case m k of None \<Rightarrow> Inl (KeyError k) | Some v \<Rightarrow> Inr v)"

text \<open>Sequence indexing \<^verbatim>\<open>xs[i]\<close>: a negative index counts from the end.\<close>

definition py_index :: "'a list \<Rightarrow> int \<Rightarrow> error + 'a" where
  "py_index xs i =
     (if 0 \<le> i \<and> i < int (length xs) then Inr (xs ! nat i)
      else if i < 0 \<and> - int (length xs) \<le> i then Inr (xs ! nat (int (length xs) + i))
      else Inl IndexError)"

text \<open>\<^verbatim>\<open>int(x)\<close> on a float truncates towards zero.\<close>

definition py_int :: "real \<Rightarrow> int" where
  "py_int x = (if 0 \<le> x then \<lfloor>x\<rfloor> else \<lceil>x\<rceil>)"

text \<open>\<^verbatim>\<open>sub in s\<close> on strings: \<open>sub\<close> occurs in \<open>s\<close> as a contiguous block.\<close>

fun str_in :: "string \<Rightarrow> string \<Rightarrow> bool" where
  "str_in sub [] = (sub = [])"
| "str_in sub (c # cs) = (prefix sub (c # cs) \<or> str_in sub cs)"

section \<open>Sections (compartments) and cells\<close>

text \<open>
  A reference to a section of the cell: the soma, or the dendrite stored under a key of
  \<^verbatim>\<open>self.dends\<close>. The Python objects are shared between \<^verbatim>\<open>self.dends\<close> and
  \<^verbatim>\<open>self.list_dend\<close>; here \<open>dends\<close> is the store and \<open>list_dend\<close> holds keys into it.
\<close>

datatype secref = Soma | Dend string

text \<open>
  The fields of a NEURON \<^verbatim>\<open>h.Section\<close> that this module reads or writes. \<open>parent\<close> is
  what \<^verbatim>\<open>child.connect(parent, parent_end, child_start)\<close> records; \<open>rangevar\<close> holds
  the mechanism parameters assigned uniformly to the section; \<open>gbar_ar\<close> holds the values
  assigned segment by segment.
\<close>

record Section =
  sec_name :: string
  L :: real
  diam :: real
  Ra :: real
  cm :: real
  nseg :: int
  parent :: "(secref \<times> real \<times> real) option"
  inserted :: "string list"
  rangevar :: "string \<rightharpoonup> real"
  gbar_ar :: "real list"

text \<open>A new \<^verbatim>\<open>h.Section(name=...)\<close> with the simulator's defaults: one segment, no
  parent, no mechanism.\<close>

definition h_Section :: "string \<Rightarrow> Section" where
  "h_Section nm = \<lparr>sec_name = nm, L = 100, diam = 500, Ra = 35.4, cm = 1, nseg = 1,
     parent = None, inserted = [], rangevar = Map.empty, gbar_ar = []\<rparr>"

record dend_props =
  p_L :: real
  p_diam :: real
  p_cm :: real
  p_Ra :: real

record syn_props =
  p_e :: real
  p_tau1 :: real
  p_tau2 :: real

record synapse =
  syn_sec :: secref
  syn_x :: real
  syn_e :: real
  syn_tau1 :: real
  syn_tau2 :: real

text \<open>Values found in the parameter tables of external drives: numbers, strings, and tuples
  of numbers (weights and delay of one cell type).\<close>

datatype pval = PNum real | PStr string | PTuple "real list"

type_synonym pos = "real list"

text \<open>The dictionary \<^verbatim>\<open>nc_dict\<close> always has the same six keys.\<close>

record nc_dict =
  pos_src :: pos
  A_weight :: pval
  A_delay :: pval
  lamtha :: pval
  threshold :: pval
  type_src :: string

record connection =
  feed_loc :: pval
  receptor :: string
  gid_src :: int
  nc :: nc_dict

record cell =
  gid :: int
  name :: string
  celltype :: string
  p_all :: "string \<rightharpoonup> real"
  soma :: Section
  dends :: "(string, Section) dict"
  list_dend :: "string list"
  synapses :: "string \<rightharpoonup> synapse"
  sect_loc :: "string \<rightharpoonup> string list"
  yscale :: "(string, real) dict"
  ncfrom_common :: "connection list"
  ncfrom_extgauss :: "connection list"
  ncfrom_extpois :: "connection list"
  stdout :: "string list"

section \<open>Class Pyr\<close>

text \<open>Assignments to one section, the soma or a dendrite looked up in \<^verbatim>\<open>self.dends\<close>
  (a missing key raises \<^verbatim>\<open>KeyError\<close>).\<close>

fun upd_sec :: "secref \<Rightarrow> (Section \<Rightarrow> Section) \<Rightarrow> cell \<Rightarrow> error + cell" where
  "upd_sec Soma f c = Inr (c\<lparr>soma := f (soma c)\<rparr>)"
| "upd_sec (Dend key) f c =
     (case getitem (dends c) key of
        Inl e \<Rightarrow> Inl e
      | Inr s \<Rightarrow> Inr (c\<lparr>dends := AList.update key (f s) (dends c)\<rparr>))"

text \<open>Statements run one after the other; the first exception ends the run.\<close>

fun seq_e :: "('s \<Rightarrow> error + 's) list \<Rightarrow> 's \<Rightarrow> error + 's" where
  "seq_e [] s = Inr s"
| "seq_e (f # fs) s = (case f s of Inl e \<Rightarrow> Inl e | Inr s' \<Rightarrow> seq_e fs s')"

record soma_props =
  sp_pos :: pos
  sp_L :: real
  sp_diam :: real
  sp_cm :: real
  sp_Ra :: real
  sp_name :: string

text \<open>
  Modelled from the spec: \<^verbatim>\<open>_Cell.__init__\<close> and \<^verbatim>\<open>create_soma\<close> belong to
  \<^verbatim>\<open>cell.py\<close>, which is not among the sources. Per the spec the soma is the single
  root compartment, built from the somatic properties, and the cell starts with no
  connection. The table \<^verbatim>\<open>self.p_all\<close> is set by the subclass before this call.
\<close>

definition Cell_init :: "int \<Rightarrow> soma_props \<Rightarrow> (string \<rightharpoonup> real) \<Rightarrow> cell" where
  "Cell_init g sp p =
     \<lparr>gid = g, name = [], celltype = [], p_all = p,
      soma = (h_Section (sp_name sp @ ''_soma''))
               \<lparr>L := sp_L sp, diam := sp_diam sp, cm := sp_cm sp, Ra := sp_Ra sp\<rparr>,
      dends = [], list_dend = [], synapses = Map.empty, sect_loc = Map.empty, yscale = [],
      ncfrom_common = [], ncfrom_extgauss = [], ncfrom_extpois = [], stdout = []\<rparr>"

text \<open>\<^verbatim>\<open>Pyr.__init__\<close>\<close>

definition Pyr_init :: "int \<Rightarrow> soma_props \<Rightarrow> (string \<rightharpoonup> real) \<Rightarrow> cell" where
  "Pyr_init g sp p =
     (Cell_init g sp p)\<lparr>name := sp_name sp, dends := [], synapses := Map.empty,
        sect_loc := Map.empty, list_dend := [], celltype := ''Pyramidal''\<rparr>"

text \<open>\<^verbatim>\<open>Pyr.get_sectnames\<close>. \<^verbatim>\<open>seclist.wholetree(sec=self.soma)\<close> is the soma and
  every section whose chain of parents ends at the soma. The simulator lists them in the
  order of its walk through the tree; \<open>wholetree\<close> lists the soma first and the dendrites
  in the order of \<^verbatim>\<open>self.dends\<close>, so the order of the keys of the dictionary that
  \<^verbatim>\<open>get_sectnames\<close> returns is not the simulator's. The value stored under a key does
  not depend on that order, and what is claimed of \<open>yscale\<close> below, the value under each
  key and the set of the keys, does not either.\<close>

fun in_tree :: "nat \<Rightarrow> (string, Section) dict \<Rightarrow> secref \<Rightarrow> bool" where
  "in_tree n ds Soma = True"
| "in_tree 0 ds (Dend key) = False"
| "in_tree (Suc n) ds (Dend key) =
     (case map_of ds key of
        None \<Rightarrow> False
      | Some s \<Rightarrow> (case parent s of None \<Rightarrow> False | Some (p, _, _) \<Rightarrow> in_tree n ds p))"

definition wholetree :: "cell \<Rightarrow> Section list" where
  "wholetree c =
     soma c # map snd (filter (\<lambda>(key, s). in_tree (length (dends c)) (dends c) (Dend key))
                         (dends c))"

definition scale_key :: "string \<Rightarrow> (string, real) dict \<Rightarrow> (string, real) dict" where
  "scale_key key d =
     (let d1 = (if str_in ''basal_2'' key then AList.update key (sqrt 2 / 2) d
                else if str_in ''basal_3'' key then AList.update key (sqrt 2 / 2) d
                else if str_in ''apical_oblique'' key then AList.update key 0 d
                else d)
      in if str_in ''basal'' key
         then (case map_of d1 key of None \<Rightarrow> d1 | Some v \<Rightarrow> AList.update key (- v) d1)
         else d1)"

definition get_sectnames :: "cell \<Rightarrow> (string, real) dict" where
  "get_sectnames c =
     (let d = fold (\<lambda>sect d. AList.update (sec_name sect) 1 d) (wholetree c) []
      in fold scale_key (map fst d) d)"

text \<open>\<^verbatim>\<open>Pyr.create_dends\<close>: one new section per key of \<^verbatim>\<open>p_dend_props\<close>, then the
  list of dendrites in the fixed order apical 0--4, basal 5--7.\<close>

definition create_dends :: "cell \<Rightarrow> (string, dend_props) dict \<Rightarrow> cell" where
  "create_dends c p_dend_props =
     (let ds = fold (\<lambda>(key, _) d. AList.update key (h_Section (name c @ ''_'' @ key)) d)
                 p_dend_props (dends c)
      in c\<lparr>dends := ds,
           list_dend := filter (\<lambda>key. map_of ds key \<noteq> None)
             [''apical_trunk'', ''apical_oblique'', ''apical_1'', ''apical_2'',
              ''apical_tuft'', ''basal_1'', ''basal_2'', ''basal_3''],
           sect_loc := (sect_loc c)(''proximal'' \<mapsto> [''apicaloblique'', ''basal2'', ''basal3''],
                                    ''distal'' \<mapsto> [''apicaltuft''])\<rparr>)"

text \<open>The body of the loop of \<^verbatim>\<open>Pyr.set_dend_props\<close> for one section: the four
  properties, then the number of segments.\<close>

definition set_props :: "dend_props \<Rightarrow> Section \<Rightarrow> Section" where
  "set_props p s =
     (let s1 = s\<lparr>L := p_L p, diam := p_diam p, Ra := p_Ra p, cm := p_cm p\<rparr>
      in if p_L p > 100 then
           (let s2 = s1\<lparr>nseg := py_int (p_L p / 50)\<rparr>
            in if nseg s2 mod 2 = 0 then s2\<lparr>nseg := nseg s2 + 1\<rparr> else s2)
         else s1)"

definition set_dend_props :: "(string, dend_props) dict \<Rightarrow> cell \<Rightarrow> error + cell" where
  "set_dend_props p_dend_props =
     seq_e (map (\<lambda>(key, p). upd_sec (Dend key) (set_props p)) p_dend_props)"

text \<open>\<^verbatim>\<open>Pyr._get_dend_props\<close>: one entry of the dictionary, then the dictionary. The keys
  of \<^verbatim>\<open>p_all\<close> are read in the order of the source.\<close>

definition dend_entry :: "(string \<rightharpoonup> real) \<Rightarrow> string \<Rightarrow> string \<Rightarrow> error + dend_props" where
  "dend_entry p nm part =
     bind_e (lookup p (nm @ ''_'' @ part @ ''_L'')) (\<lambda>l.
     bind_e (lookup p (nm @ ''_'' @ part @ ''_diam'')) (\<lambda>d.
     bind_e (lookup p (nm @ ''_dend_cm'')) (\<lambda>c.
     bind_e (lookup p (nm @ ''_dend_Ra'')) (\<lambda>r.
       Inr \<lparr>p_L = l, p_diam = d, p_cm = c, p_Ra = r\<rparr>))))"

definition get_dend_props :: "cell \<Rightarrow> error + (string, dend_props) dict" where
  "get_dend_props c =
     bind_e (dend_entry (p_all c) (name c) ''apicaltrunk'') (\<lambda>trunk.
     bind_e (dend_entry (p_all c) (name c) ''apical1'') (\<lambda>ap1.
     bind_e (dend_entry (p_all c) (name c) ''apicaltuft'') (\<lambda>tuft.
     bind_e (dend_entry (p_all c) (name c) ''apicaloblique'') (\<lambda>obl.
     bind_e (dend_entry (p_all c) (name c) ''basal1'') (\<lambda>b1.
     bind_e (dend_entry (p_all c) (name c) ''basal2'') (\<lambda>b2.
     bind_e (dend_entry (p_all c) (name c) ''basal3'') (\<lambda>b3.
       (let props = [(''apical_trunk'', trunk), (''apical_1'', ap1), (''apical_tuft'', tuft),
                     (''apical_oblique'', obl), (''basal_1'', b1), (''basal_2'', b2),
                     (''basal_3'', b3)]
        in if name c = ''L5Pyr''
           then bind_e (dend_entry (p_all c) ''L5Pyr'' ''apical2'') (\<lambda>ap2.
                  Inr (AList.update ''apical_2'' ap2 props))
           else Inr props))))))))"

text \<open>\<^verbatim>\<open>Pyr._get_syn_props\<close>\<close>

definition syn_entry :: "(string \<rightharpoonup> real) \<Rightarrow> string \<Rightarrow> string \<Rightarrow> error + syn_props" where
  "syn_entry p nm rec =
     bind_e (lookup p (nm @ ''_'' @ rec @ ''_e'')) (\<lambda>e.
     bind_e (lookup p (nm @ ''_'' @ rec @ ''_tau1'')) (\<lambda>t1.
     bind_e (lookup p (nm @ ''_'' @ rec @ ''_tau2'')) (\<lambda>t2.
       Inr \<lparr>p_e = e, p_tau1 = t1, p_tau2 = t2\<rparr>)))"

definition get_syn_props :: "cell \<Rightarrow> error + (string \<rightharpoonup> syn_props)" where
  "get_syn_props c =
     bind_e (syn_entry (p_all c) (name c) ''ampa'') (\<lambda>a.
     bind_e (syn_entry (p_all c) (name c) ''nmda'') (\<lambda>n.
     bind_e (syn_entry (p_all c) (name c) ''gabaa'') (\<lambda>ga.
     bind_e (syn_entry (p_all c) (name c) ''gabab'') (\<lambda>gb.
       Inr [''ampa'' \<mapsto> a, ''nmda'' \<mapsto> n, ''gabaa'' \<mapsto> ga, ''gabab'' \<mapsto> gb]))))"

text \<open>
  Modelled from the spec: \<^verbatim>\<open>syn_create\<close> belongs to \<^verbatim>\<open>cell.py\<close>, which is not among
  the sources. Per the spec a synapse is attached at a location of a compartment and holds
  a reversal potential and the rise and decay time constants.
\<close>

definition syn_create :: "secref \<Rightarrow> real \<Rightarrow> syn_props \<Rightarrow> synapse" where
  "syn_create sec x p =
     \<lparr>syn_sec = sec, syn_x = x, syn_e = p_e p, syn_tau1 = p_tau1 p, syn_tau2 = p_tau2 p\<rparr>"

text \<open>One assignment \<^verbatim>\<open>self.synapses[key] = self.syn_create(sec(0.5), **p_syn[rec])\<close> of
  \<^verbatim>\<open>Pyr._synapse_create\<close>: the section is looked up first, then the properties.\<close>

definition add_synapse ::
  "string \<Rightarrow> secref \<Rightarrow> string \<Rightarrow> (string \<rightharpoonup> syn_props) \<Rightarrow> cell \<Rightarrow> error + cell" where
  "add_synapse key sec rec p_syn c =
     bind_e (case sec of Soma \<Rightarrow> Inr (soma c) | Dend k \<Rightarrow> getitem (dends c) k) (\<lambda>_.
     bind_e (lookup p_syn rec) (\<lambda>p.
       Inr (c\<lparr>synapses := (synapses c)(key \<mapsto> syn_create sec 0.5 p)\<rparr>)))"

definition synapse_create :: "(string \<rightharpoonup> syn_props) \<Rightarrow> cell \<Rightarrow> error + cell" where
  "synapse_create p_syn c =
     seq_e ([add_synapse ''soma_gabaa'' Soma ''gabaa'' p_syn,
             add_synapse ''soma_gabab'' Soma ''gabab'' p_syn,
             add_synapse ''apicaloblique_ampa'' (Dend ''apical_oblique'') ''ampa'' p_syn,
             add_synapse ''apicaloblique_nmda'' (Dend ''apical_oblique'') ''nmda'' p_syn,
             add_synapse ''basal2_ampa'' (Dend ''basal_2'') ''ampa'' p_syn,
             add_synapse ''basal2_nmda'' (Dend ''basal_2'') ''nmda'' p_syn,
             add_synapse ''basal3_ampa'' (Dend ''basal_3'') ''ampa'' p_syn,
             add_synapse ''basal3_nmda'' (Dend ''basal_3'') ''nmda'' p_syn,
             add_synapse ''apicaltuft_ampa'' (Dend ''apical_tuft'') ''ampa'' p_syn,
             add_synapse ''apicaltuft_nmda'' (Dend ''apical_tuft'') ''nmda'' p_syn]
            @ (if name c = ''L5Pyr''
               then [add_synapse ''apicaltuft_gabaa'' (Dend ''apical_tuft'') ''gabaa'' p_syn]
               else [])) c"

subsection \<open>External drives\<close>

text \<open>The three connection lists of the cell that \<^verbatim>\<open>nc_list\<close> can refer to.\<close>

datatype nc_list_ref = Ncfrom_common | Ncfrom_extgauss | Ncfrom_extpois

text \<open>
  Modelled from the spec: \<^verbatim>\<open>_connect_feed_at_loc\<close> belongs to \<^verbatim>\<open>cell.py\<close>, which is
  not among the sources. Per the spec a call connects the source to the given receptor at
  the given location: it is recorded as one connection, with the values that \<^verbatim>\<open>nc_dict\<close>
  has at the time of the call, at the end of the list \<^verbatim>\<open>nc_list\<close>.
\<close>

definition connect_feed_at_loc ::
  "pval \<Rightarrow> string \<Rightarrow> int \<Rightarrow> nc_dict \<Rightarrow> nc_list_ref \<Rightarrow> cell \<Rightarrow> cell" where
  "connect_feed_at_loc loc rec g d nc_list c =
     (let con = \<lparr>feed_loc = loc, receptor = rec, gid_src = g, nc = d\<rparr>
      in case nc_list of
           Ncfrom_common \<Rightarrow> c\<lparr>ncfrom_common := ncfrom_common c @ [con]\<rparr>
         | Ncfrom_extgauss \<Rightarrow> c\<lparr>ncfrom_extgauss := ncfrom_extgauss c @ [con]\<rparr>
         | Ncfrom_extpois \<Rightarrow> c\<lparr>ncfrom_extpois := ncfrom_extpois c @ [con]\<rparr>)"

text \<open>Indexing a value of a parameter table, and comparing it with \<^verbatim>\<open>0.0\<close>.\<close>

fun item :: "pval \<Rightarrow> int \<Rightarrow> error + pval" where
  "item (PTuple xs) i = bind_e (py_index xs i) (\<lambda>x. Inr (PNum x))"
| "item (PStr s) i = bind_e (py_index s i) (\<lambda>ch. Inr (PStr [ch]))"
| "item (PNum x) i = Inl TypeError"

fun gt_zero :: "pval \<Rightarrow> error + bool" where
  "gt_zero (PNum x) = Inr (x > 0)"
| "gt_zero (PStr s) = Inl TypeError"
| "gt_zero (PTuple xs) = Inl TypeError"

text \<open>The dictionary built in each branch of \<^verbatim>\<open>Pyr.parreceive_ext\<close>: position of the
  source, weight at index \<open>w\<close> and delay at index 2 of the entry of the cell type, decay
  constant under the key \<open>lam\<close>, threshold.\<close>

definition ext_nc_dict ::
  "string \<Rightarrow> int \<Rightarrow> (string \<rightharpoonup> pos list) \<Rightarrow> (string \<rightharpoonup> pval) \<Rightarrow> string \<Rightarrow> int \<Rightarrow> string
     \<Rightarrow> error + nc_dict" where
  "ext_nc_dict type g pos_dict p_ext ctype w lam =
     bind_e (lookup pos_dict type) (\<lambda>ps.
     bind_e (py_index ps g) (\<lambda>pos.
     bind_e (lookup p_ext ctype) (\<lambda>e0.
     bind_e (item e0 w) (\<lambda>weight.
     bind_e (lookup p_ext ctype) (\<lambda>e2.
     bind_e (item e2 2) (\<lambda>delay.
     bind_e (lookup p_ext lam) (\<lambda>l.
     bind_e (lookup p_ext ''threshold'') (\<lambda>th.
       Inr \<lparr>pos_src = pos, A_weight = weight, A_delay = delay, lamtha = l,
            threshold = th, type_src = type\<rparr>))))))))"

text \<open>\<^verbatim>\<open>gid + gid_dict[type][0]\<close>\<close>

definition src_gid :: "int \<Rightarrow> (string \<rightharpoonup> int list) \<Rightarrow> string \<Rightarrow> error + int" where
  "src_gid g gid_dict type =
     bind_e (lookup gid_dict type) (\<lambda>gs. bind_e (py_index gs 0) (\<lambda>g0. Inr (g + g0)))"

text \<open>\<^verbatim>\<open>Pyr.parreceive_ext\<close>\<close>

definition parreceive_ext ::
  "string \<Rightarrow> int \<Rightarrow> (string \<rightharpoonup> int list) \<Rightarrow> (string \<rightharpoonup> pos list) \<Rightarrow> (string \<rightharpoonup> pval)
     \<Rightarrow> cell \<Rightarrow> error + cell" where
  "parreceive_ext type g gid_dict pos_dict p_ext c =
     (if prefix ''evprox'' type \<or> prefix ''evdist'' type then
        (if p_ext (celltype c) \<noteq> None then
           bind_e (src_gid g gid_dict type) (\<lambda>gid_ev.
           bind_e (ext_nc_dict type g pos_dict p_ext (celltype c) 0 ''lamtha_space'') (\<lambda>ampa.
           bind_e (ext_nc_dict type g pos_dict p_ext (celltype c) 1 ''lamtha_space'') (\<lambda>nmda.
           bind_e (lookup p_ext ''loc'') (\<lambda>loc1.
           (let c1 = connect_feed_at_loc loc1 ''ampa'' gid_ev ampa Ncfrom_common c
            in bind_e (lookup p_ext ''loc'') (\<lambda>loc2.
                 Inr (connect_feed_at_loc loc2 ''nmda'' gid_ev nmda Ncfrom_common c1)))))))
         else Inr c)
      else if type = ''extgauss'' then
        (if p_ext (celltype c) \<noteq> None then
           bind_e (src_gid g gid_dict ''extgauss'') (\<lambda>gid_extgauss.
           bind_e (ext_nc_dict ''extgauss'' g pos_dict p_ext (celltype c) 0 ''lamtha'') (\<lambda>d.
             Inr (connect_feed_at_loc (PStr ''proximal'') ''ampa'' gid_extgauss d
                    Ncfrom_extgauss c)))
         else Inr c)
      else if type = ''extpois'' then
        (if p_ext (celltype c) \<noteq> None then
           bind_e (src_gid g gid_dict ''extpois'') (\<lambda>gid_extpois.
           bind_e (ext_nc_dict ''extpois'' g pos_dict p_ext (celltype c) 0 ''lamtha_space'') (\<lambda>d.
           (let c1 = connect_feed_at_loc (PStr ''proximal'') ''ampa'' gid_extpois d
                       Ncfrom_extpois c
            in bind_e (lookup p_ext (celltype c)) (\<lambda>e1.
               bind_e (item e1 1) (\<lambda>w1.
               bind_e (gt_zero w1) (\<lambda>pos_weight.
                 if pos_weight then
                   bind_e (lookup p_ext (celltype c)) (\<lambda>e1'.
                   bind_e (item e1' 1) (\<lambda>w1'.
                     Inr (connect_feed_at_loc (PStr ''proximal'') ''nmda'' gid_extpois
                            (d\<lparr>A_weight := w1'\<rparr>) Ncfrom_extpois c1)))
                 else Inr c1))))))
         else Inr c)
      else Inr (c\<lparr>stdout := stdout c @ [''Warning, ext type def does not exist in L2Pyr'']\<rparr>))"

text \<open>
  \<^verbatim>\<open>Pyr.parreceive\<close>. The local variable \<^verbatim>\<open>nc_dict\<close> is bound only once a source has the
  key of a receptor; it is read by every call of \<^verbatim>\<open>_connect_feed_at_loc\<close>, after the
  argument \<^verbatim>\<open>p_src['loc']\<close>.
\<close>

definition common_nc_dict :: "string \<Rightarrow> (string \<rightharpoonup> pval) \<Rightarrow> pos \<Rightarrow> error + nc_dict" where
  "common_nc_dict key p_src pos =
     bind_e (lookup p_src key) (\<lambda>e0.
     bind_e (item e0 0) (\<lambda>weight.
     bind_e (lookup p_src key) (\<lambda>e1.
     bind_e (item e1 1) (\<lambda>delay.
     bind_e (lookup p_src ''lamtha'') (\<lambda>l.
     bind_e (lookup p_src ''threshold'') (\<lambda>th.
       Inr \<lparr>pos_src = pos, A_weight = weight, A_delay = delay, lamtha = l,
            threshold = th, type_src = ''ext''\<rparr>))))))"

definition parreceive_receptor ::
  "int \<Rightarrow> (string \<rightharpoonup> pval) \<Rightarrow> pos \<Rightarrow> string \<Rightarrow> nc_dict option \<times> cell
     \<Rightarrow> error + nc_dict option \<times> cell" where
  "parreceive_receptor g p_src pos rec st =
     (case st of (nc_dict, c) \<Rightarrow>
        bind_e (if p_src (name c @ ''_'' @ rec) \<noteq> None
                then bind_e (common_nc_dict (name c @ ''_'' @ rec) p_src pos) (\<lambda>d. Inr (Some d))
                else Inr nc_dict) (\<lambda>nc_dict'.
        bind_e (lookup p_src ''loc'') (\<lambda>loc.
          case nc_dict' of
            None \<Rightarrow> Inl (UnboundLocalError ''nc_dict'')
          | Some d \<Rightarrow> Inr (nc_dict', connect_feed_at_loc loc rec g d Ncfrom_common c))))"

definition parreceive_source ::
  "int \<times> (string \<rightharpoonup> pval) \<times> pos \<Rightarrow> nc_dict option \<times> cell \<Rightarrow> error + nc_dict option \<times> cell"
  where
  "parreceive_source src =
     (case src of (g, p_src, pos) \<Rightarrow>
        seq_e [parreceive_receptor g p_src pos ''ampa'', parreceive_receptor g p_src pos ''nmda''])"

definition parreceive ::
  "int \<Rightarrow> (string \<rightharpoonup> int list) \<Rightarrow> (string \<rightharpoonup> pos list) \<Rightarrow> (string \<rightharpoonup> pval) list
     \<Rightarrow> cell \<Rightarrow> error + cell" where
  "parreceive g gid_dict pos_dict p_ext c =
     bind_e (lookup gid_dict ''common'') (\<lambda>gids.
     bind_e (lookup pos_dict ''common'') (\<lambda>poss.
     bind_e (seq_e (map parreceive_source (zip gids (zip p_ext poss))) (None, c)) (\<lambda>st.
       Inr (snd st))))"

section \<open>Statements shared by the two subclasses\<close>

text \<open>\<^verbatim>\<open>child.connect(parent, parent_end, child_start)\<close> with the child a dendrite: the
  child is looked up first, then the parent.\<close>

definition connect :: "string \<Rightarrow> secref \<Rightarrow> real \<Rightarrow> real \<Rightarrow> cell \<Rightarrow> error + cell" where
  "connect child par parent_end child_start c =
     bind_e (getitem (dends c) child) (\<lambda>_.
     bind_e (case par of Soma \<Rightarrow> Inr (soma c) | Dend k \<Rightarrow> getitem (dends c) k) (\<lambda>_.
       upd_sec (Dend child) (\<lambda>s. s\<lparr>parent := Some (par, parent_end, child_start)\<rparr>) c))"

text \<open>An assignment to \<^verbatim>\<open>dend[i]\<close>, where \<^verbatim>\<open>dend = self.list_dend\<close>.\<close>

definition dend_upd :: "int \<Rightarrow> (Section \<Rightarrow> Section) \<Rightarrow> cell \<Rightarrow> error + cell" where
  "dend_upd i f c = bind_e (py_index (list_dend c) i) (\<lambda>key. upd_sec (Dend key) f c)"

text \<open>\<^verbatim>\<open>basic_shape\<close> gives three-dimensional points to the soma and to \<^verbatim>\<open>dend[0]\<close>,
  ..., \<^verbatim>\<open>dend[n-1]\<close>. The points are not part of the state; reading \<^verbatim>\<open>dend[i]\<close> can
  fail.\<close>

definition basic_shape :: "int list \<Rightarrow> cell \<Rightarrow> error + cell" where
  "basic_shape idx = seq_e (map (\<lambda>i c. bind_e (py_index (list_dend c) i) (\<lambda>_. Inr c)) idx)"

text \<open>\<^verbatim>\<open>sec.insert(mech)\<close> and \<^verbatim>\<open>sec.var = self.p_all[key]\<close> (the right-hand side is
  evaluated first).\<close>

definition insert_mech :: "secref \<Rightarrow> string \<Rightarrow> cell \<Rightarrow> error + cell" where
  "insert_mech sec mech = upd_sec sec (\<lambda>s. s\<lparr>inserted := inserted s @ [mech]\<rparr>)"

definition set_var :: "secref \<Rightarrow> string \<Rightarrow> string \<Rightarrow> cell \<Rightarrow> error + cell" where
  "set_var sec var key c =
     bind_e (lookup (p_all c) key) (\<lambda>v. upd_sec sec (\<lambda>s. s\<lparr>rangevar := (rangevar s)(var \<mapsto> v)\<rparr>) c)"

text \<open>\<^verbatim>\<open>self.yscale = self.get_sectnames()\<close>. The calls \<^verbatim>\<open>dipole_insert\<close> and
  \<^verbatim>\<open>record_current_soma\<close> that follow in the constructors belong to \<^verbatim>\<open>cell.py\<close> and
  act on simulator objects outside this state.\<close>

definition set_yscale :: "cell \<Rightarrow> error + cell" where
  "set_yscale c = Inr (c\<lparr>yscale := get_sectnames c\<rparr>)"

section \<open>Class L2Pyr\<close>

definition L2_get_soma_props :: "pos \<Rightarrow> (string \<rightharpoonup> real) \<Rightarrow> error + soma_props" where
  "L2_get_soma_props ps p =
     bind_e (lookup p ''L2Pyr_soma_L'') (\<lambda>l.
     bind_e (lookup p ''L2Pyr_soma_diam'') (\<lambda>d.
     bind_e (lookup p ''L2Pyr_soma_cm'') (\<lambda>c.
     bind_e (lookup p ''L2Pyr_soma_Ra'') (\<lambda>r.
       Inr \<lparr>sp_pos = ps, sp_L = l, sp_diam = d, sp_cm = c, sp_Ra = r, sp_name = ''L2Pyr''\<rparr>))))"

definition L2_topol :: "cell \<Rightarrow> error + cell" where
  "L2_topol =
     seq_e [connect ''apical_trunk'' Soma 1 0,
            connect ''apical_1'' (Dend ''apical_trunk'') 1 0,
            connect ''apical_tuft'' (Dend ''apical_1'') 1 0,
            connect ''apical_oblique'' (Dend ''apical_trunk'') 1 0,
            connect ''basal_1'' Soma 0 0,
            connect ''basal_2'' (Dend ''basal_1'') 1 0,
            connect ''basal_3'' (Dend ''basal_1'') 1 0,
            basic_shape [0, 1, 2, 3, 4, 5, 6]]"

text \<open>\<^verbatim>\<open>L2Pyr.geom\<close>: the lengths and diameters written in the source, then
  \<^verbatim>\<open>set_dend_props\<close>, which resets them from the parameters.\<close>

definition L2_geom_defaults :: "(cell \<Rightarrow> error + cell) list" where
  "L2_geom_defaults =
     [upd_sec Soma (\<lambda>s. s\<lparr>L := 22.1\<rparr>),
      dend_upd 0 (\<lambda>s. s\<lparr>L := 59.5\<rparr>),
      dend_upd 1 (\<lambda>s. s\<lparr>L := 340\<rparr>),
      dend_upd 2 (\<lambda>s. s\<lparr>L := 306\<rparr>),
      dend_upd 3 (\<lambda>s. s\<lparr>L := 238\<rparr>),
      dend_upd 4 (\<lambda>s. s\<lparr>L := 85\<rparr>),
      dend_upd 5 (\<lambda>s. s\<lparr>L := 255\<rparr>),
      dend_upd 6 (\<lambda>s. s\<lparr>L := 255\<rparr>),
      upd_sec Soma (\<lambda>s. s\<lparr>diam := 23.4\<rparr>),
      dend_upd 0 (\<lambda>s. s\<lparr>diam := 4.25\<rparr>),
      dend_upd 1 (\<lambda>s. s\<lparr>diam := 3.91\<rparr>),
      dend_upd 2 (\<lambda>s. s\<lparr>diam := 4.08\<rparr>),
      dend_upd 3 (\<lambda>s. s\<lparr>diam := 3.4\<rparr>),
      dend_upd 4 (\<lambda>s. s\<lparr>diam := 4.25\<rparr>),
      dend_upd 5 (\<lambda>s. s\<lparr>diam := 2.72\<rparr>),
      dend_upd 6 (\<lambda>s. s\<lparr>diam := 2.72\<rparr>)]"

definition L2_geom :: "(string, dend_props) dict \<Rightarrow> cell \<Rightarrow> error + cell" where
  "L2_geom p_dend = seq_e (L2_geom_defaults @ [set_dend_props p_dend])"

definition L2_biophys_soma :: "cell \<Rightarrow> error + cell" where
  "L2_biophys_soma =
     seq_e [insert_mech Soma ''hh2'',
            set_var Soma ''gkbar_hh2'' ''L2Pyr_soma_gkbar_hh2'',
            set_var Soma ''gl_hh2'' ''L2Pyr_soma_gl_hh2'',
            set_var Soma ''el_hh2'' ''L2Pyr_soma_el_hh2'',
            set_var Soma ''gnabar_hh2'' ''L2Pyr_soma_gnabar_hh2'',
            insert_mech Soma ''km'',
            set_var Soma ''gbar_km'' ''L2Pyr_soma_gbar_km'']"

definition L2_dend_biophys :: "string \<Rightarrow> (cell \<Rightarrow> error + cell) list" where
  "L2_dend_biophys key =
     [insert_mech (Dend key) ''hh2'',
      set_var (Dend key) ''gkbar_hh2'' ''L2Pyr_dend_gkbar_hh2'',
      set_var (Dend key) ''gl_hh2'' ''L2Pyr_dend_gl_hh2'',
      set_var (Dend key) ''gnabar_hh2'' ''L2Pyr_dend_gnabar_hh2'',
      set_var (Dend key) ''el_hh2'' ''L2Pyr_dend_el_hh2'',
      insert_mech (Dend key) ''km'',
      set_var (Dend key) ''gbar_km'' ''L2Pyr_dend_gbar_km'']"

definition L2_biophys_dends :: "cell \<Rightarrow> error + cell" where
  "L2_biophys_dends c = seq_e (concat (map L2_dend_biophys (map fst (dends c)))) c"

text \<open>\<^verbatim>\<open>L2Pyr.__init__\<close>. The argument \<open>p\<close> is the table \<^verbatim>\<open>self.p_all\<close>, the defaults
  merged with the caller's parameters (\<^verbatim>\<open>params.py\<close> and \<^verbatim>\<open>params_default.py\<close> are
  not among the sources).\<close>

definition L2Pyr_init :: "int \<Rightarrow> pos \<Rightarrow> (string \<rightharpoonup> real) \<Rightarrow> error + cell" where
  "L2Pyr_init g ps p =
     bind_e (L2_get_soma_props ps p) (\<lambda>p_soma.
     (let c = Pyr_init g p_soma p
      in bind_e (get_dend_props c) (\<lambda>p_dend.
         bind_e (get_syn_props c) (\<lambda>p_syn.
           seq_e [L2_topol, L2_geom p_dend, L2_biophys_soma, L2_biophys_dends, set_yscale,
                  synapse_create p_syn]
             (create_dends (c\<lparr>celltype := ''L2_pyramidal''\<rparr>) p_dend)))))"

section \<open>Class L5Pyr\<close>

definition L5_get_soma_props :: "pos \<Rightarrow> (string \<rightharpoonup> real) \<Rightarrow> error + soma_props" where
  "L5_get_soma_props ps p =
     bind_e (lookup p ''L5Pyr_soma_L'') (\<lambda>l.
     bind_e (lookup p ''L5Pyr_soma_diam'') (\<lambda>d.
     bind_e (lookup p ''L5Pyr_soma_cm'') (\<lambda>c.
     bind_e (lookup p ''L5Pyr_soma_Ra'') (\<lambda>r.
       Inr \<lparr>sp_pos = ps, sp_L = l, sp_diam = d, sp_cm = c, sp_Ra = r, sp_name = ''L5Pyr''\<rparr>))))"

definition L5_topol :: "cell \<Rightarrow> error + cell" where
  "L5_topol =
     seq_e [connect ''apical_trunk'' Soma 1 0,
            connect ''apical_1'' (Dend ''apical_trunk'') 1 0,
            connect ''apical_2'' (Dend ''apical_1'') 1 0,
            connect ''apical_tuft'' (Dend ''apical_2'') 1 0,
            connect ''apical_oblique'' (Dend ''apical_trunk'') 1 0,
            connect ''basal_1'' Soma 0 0,
            connect ''basal_2'' (Dend ''basal_1'') 1 0,
            connect ''basal_3'' (Dend ''basal_1'') 1 0,
            basic_shape [0, 1, 2, 3, 4, 5, 6, 7]]"

text \<open>\<^verbatim>\<open>L5Pyr.geom\<close>: the lengths and diameters written in the source, then
  \<^verbatim>\<open>set_dend_props\<close>, which resets them from the parameters.\<close>

definition L5_geom_defaults :: "(cell \<Rightarrow> error + cell) list" where
  "L5_geom_defaults =
     [upd_sec Soma (\<lambda>s. s\<lparr>L := 39\<rparr>),
      dend_upd 0 (\<lambda>s. s\<lparr>L := 102\<rparr>),
      dend_upd 1 (\<lambda>s. s\<lparr>L := 255\<rparr>),
      dend_upd 2 (\<lambda>s. s\<lparr>L := 680\<rparr>),
      dend_upd 3 (\<lambda>s. s\<lparr>L := 680\<rparr>),
      dend_upd 4 (\<lambda>s. s\<lparr>L := 425\<rparr>),
      dend_upd 5 (\<lambda>s. s\<lparr>L := 85\<rparr>),
      dend_upd 6 (\<lambda>s. s\<lparr>L := 255\<rparr>),
      dend_upd 7 (\<lambda>s. s\<lparr>L := 255\<rparr>),
      upd_sec Soma (\<lambda>s. s\<lparr>diam := 28.9\<rparr>),
      dend_upd 0 (\<lambda>s. s\<lparr>diam := 10.2\<rparr>),
      dend_upd 1 (\<lambda>s. s\<lparr>diam := 5.1\<rparr>),
      dend_upd 2 (\<lambda>s. s\<lparr>diam := 7.48\<rparr>),
      dend_upd 3 (\<lambda>s. s\<lparr>diam := 4.93\<rparr>),
      dend_upd 4 (\<lambda>s. s\<lparr>diam := 3.4\<rparr>),
      dend_upd 5 (\<lambda>s. s\<lparr>diam := 6.8\<rparr>),
      dend_upd 6 (\<lambda>s. s\<lparr>diam := 8.5\<rparr>),
      dend_upd 7 (\<lambda>s. s\<lparr>diam := 8.5\<rparr>)]"

definition L5_geom :: "(string, dend_props) dict \<Rightarrow> cell \<Rightarrow> error + cell" where
  "L5_geom p_dend = seq_e (L5_geom_defaults @ [set_dend_props p_dend])"

definition L5_biophys_soma :: "cell \<Rightarrow> error + cell" where
  "L5_biophys_soma =
     seq_e [insert_mech Soma ''hh2'',
            set_var Soma ''gkbar_hh2'' ''L5Pyr_soma_gkbar_hh2'',
            set_var Soma ''gnabar_hh2'' ''L5Pyr_soma_gnabar_hh2'',
            set_var Soma ''gl_hh2'' ''L5Pyr_soma_gl_hh2'',
            set_var Soma ''el_hh2'' ''L5Pyr_soma_el_hh2'',
            insert_mech Soma ''ca'',
            set_var Soma ''gbar_ca'' ''L5Pyr_soma_gbar_ca'',
            insert_mech Soma ''cad'',
            set_var Soma ''taur_cad'' ''L5Pyr_soma_taur_cad'',
            insert_mech Soma ''kca'',
            set_var Soma ''gbar_kca'' ''L5Pyr_soma_gbar_kca'',
            insert_mech Soma ''km'',
            set_var Soma ''gbar_km'' ''L5Pyr_soma_gbar_km'',
            insert_mech Soma ''cat'',
            set_var Soma ''gbar_cat'' ''L5Pyr_soma_gbar_cat'',
            insert_mech Soma ''ar'',
            set_var Soma ''gbar_ar'' ''L5Pyr_soma_gbar_ar'']"

definition L5_dend_biophys :: "string \<Rightarrow> (cell \<Rightarrow> error + cell) list" where
  "L5_dend_biophys key =
     [insert_mech (Dend key) ''hh2'',
      set_var (Dend key) ''gkbar_hh2'' ''L5Pyr_dend_gkbar_hh2'',
      set_var (Dend key) ''gl_hh2'' ''L5Pyr_dend_gl_hh2'',
      set_var (Dend key) ''gnabar_hh2'' ''L5Pyr_dend_gnabar_hh2'',
      set_var (Dend key) ''el_hh2'' ''L5Pyr_dend_el_hh2'',
      insert_mech (Dend key) ''ca'',
      set_var (Dend key) ''gbar_ca'' ''L5Pyr_dend_gbar_ca'',
      insert_mech (Dend key) ''cad'',
      set_var (Dend key) ''taur_cad'' ''L5Pyr_dend_taur_cad'',
      insert_mech (Dend key) ''kca'',
      set_var (Dend key) ''gbar_kca'' ''L5Pyr_dend_gbar_kca'',
      insert_mech (Dend key) ''km'',
      set_var (Dend key) ''gbar_km'' ''L5Pyr_dend_gbar_km'',
      insert_mech (Dend key) ''cat'',
      set_var (Dend key) ''gbar_cat'' ''L5Pyr_dend_gbar_cat'',
      insert_mech (Dend key) ''ar'']"

text \<open>The segments of a section with \<open>n\<close> segments lie at the fractions \<open>(2 i + 1) / (2 n)\<close>
  of its length.\<close>

definition seg_x :: "int \<Rightarrow> real list" where
  "seg_x n = map (\<lambda>i. (2 * real i + 1) / (2 * real_of_int n)) [0..<nat n]"

text \<open>The right-hand side \<^verbatim>\<open>1e-6 * np.exp(3e-3 * h.distance(seg.x))\<close>, as a function of
  the distance.\<close>

definition gbar_ar_at :: "real \<Rightarrow> real" where
  "gbar_ar_at d = 1 / 10 ^ 6 * exp (3 / 10 ^ 3 * d)"

text \<open>The second loop of \<^verbatim>\<open>L5Pyr.__biophys_dends\<close> for one dendrite. The simulator's
  \<^verbatim>\<open>h.distance\<close>, with the soma as origin, is the parameter \<open>distance\<close>: it gives the
  path distance from the soma to the fraction \<open>x\<close> of the dendrite under a key.\<close>

definition set_gbar_ar :: "(string \<Rightarrow> real \<Rightarrow> real) \<Rightarrow> string \<Rightarrow> cell \<Rightarrow> error + cell" where
  "set_gbar_ar distance key =
     upd_sec (Dend key) (\<lambda>s. s\<lparr>gbar_ar := map (\<lambda>x. gbar_ar_at (distance key x)) (seg_x (nseg s))\<rparr>)"

definition L5_biophys_dends :: "(string \<Rightarrow> real \<Rightarrow> real) \<Rightarrow> cell \<Rightarrow> error + cell" where
  "L5_biophys_dends distance c =
     seq_e (concat (map L5_dend_biophys (map fst (dends c)))
            @ map (set_gbar_ar distance) (map fst (dends c))) c"

text \<open>\<^verbatim>\<open>L5Pyr.__init__\<close>, with the table \<^verbatim>\<open>self.p_all\<close> as the argument \<open>p\<close>.\<close>

definition L5Pyr_init ::
  "(string \<Rightarrow> real \<Rightarrow> real) \<Rightarrow> int \<Rightarrow> pos \<Rightarrow> (string \<rightharpoonup> real) \<Rightarrow> error + cell" where
  "L5Pyr_init distance g ps p =
     bind_e (L5_get_soma_props ps p) (\<lambda>p_soma.
     (let c = Pyr_init g p_soma p
      in bind_e (get_dend_props c) (\<lambda>p_dend.
         bind_e (get_syn_props c) (\<lambda>p_syn.
           seq_e [L5_topol, L5_geom p_dend, L5_biophys_soma, L5_biophys_dends distance,
                  set_yscale, synapse_create p_syn]
             (create_dends (c\<lparr>celltype := ''L5Pyr''\<rparr>) p_dend)))))"

section \<open>Views of a cell\<close>

text \<open>
  Most statements of the constructors change one field of one section. \<open>view \<pi> c\<close> is
  what is left of the cell \<open>c\<close> when only \<open>\<pi> s\<close> is kept of every section \<open>s\<close>; a
  statement preserves the view (\<open>pres\<close>) when it can change nothing else. \<open>runs K LD p\<close>
  says that a statement returns on every cell with dendrite keys \<open>K\<close>, list of dendrites
  \<open>LD\<close> and parameter table \<open>p\<close>, and leaves these three as they are.
\<close>

definition frame :: "cell \<Rightarrow> cell" where
  "frame c = c\<lparr>soma := h_Section [], dends := []\<rparr>"

definition view :: "(Section \<Rightarrow> 'a) \<Rightarrow> cell \<Rightarrow> cell \<times> 'a \<times> (string \<times> 'a) list" where
  "view \<pi> c = (frame c, \<pi> (soma c), map (\<lambda>(k, s). (k, \<pi> s)) (dends c))"

definition pres :: "(Section \<Rightarrow> 'a) \<Rightarrow> (cell \<Rightarrow> error + cell) \<Rightarrow> bool" where
  "pres \<pi> op = (\<forall>c c'. op c = Inr c' \<longrightarrow> view \<pi> c' = view \<pi> c)"

definition shaped :: "string list \<Rightarrow> string list \<Rightarrow> (string \<rightharpoonup> real) \<Rightarrow> cell \<Rightarrow> bool" where
  "shaped K LD p c = (map fst (dends c) = K \<and> list_dend c = LD \<and> p_all c = p)"

definition runs ::
  "string list \<Rightarrow> string list \<Rightarrow> (string \<rightharpoonup> real) \<Rightarrow> (cell \<Rightarrow> error + cell) \<Rightarrow> bool" where
  "runs K LD p op = (\<forall>c. shaped K LD p c \<longrightarrow> (\<exists>c'. op c = Inr c' \<and> shaped K LD p c'))"

text \<open>The keys of the dictionary of \<^verbatim>\<open>_get_dend_props\<close>, in its order, for the two
  names of a cell, and the list \<^verbatim>\<open>list_dend\<close> that \<^verbatim>\<open>create_dends\<close> makes of them.\<close>

definition L2_keys :: "string list" where
  "L2_keys = [''apical_trunk'', ''apical_1'', ''apical_tuft'', ''apical_oblique'', ''basal_1'',
              ''basal_2'', ''basal_3'']"

definition L5_keys :: "string list" where
  "L5_keys = [''apical_trunk'', ''apical_1'', ''apical_tuft'', ''apical_oblique'', ''basal_1'',
              ''basal_2'', ''basal_3'', ''apical_2'']"

definition L2_list_dend :: "string list" where
  "L2_list_dend = [''apical_trunk'', ''apical_oblique'', ''apical_1'', ''apical_tuft'',
                   ''basal_1'', ''basal_2'', ''basal_3'']"

definition L5_list_dend :: "string list" where
  "L5_list_dend = [''apical_trunk'', ''apical_oblique'', ''apical_1'', ''apical_2'',
                   ''apical_tuft'', ''basal_1'', ''basal_2'', ''basal_3'']"

text \<open>The keys of \<^verbatim>\<open>self.p_all\<close> that the constructors read, and a table that gives
  every one of them the same value.\<close>

definition L2_param_names :: "string list" where
  "L2_param_names =
    [''L2Pyr_soma_L'', ''L2Pyr_soma_diam'', ''L2Pyr_soma_cm'', ''L2Pyr_soma_Ra'',
     ''L2Pyr_apicaltrunk_L'', ''L2Pyr_apicaltrunk_diam'', ''L2Pyr_apical1_L'',
     ''L2Pyr_apical1_diam'', ''L2Pyr_apicaltuft_L'', ''L2Pyr_apicaltuft_diam'',
     ''L2Pyr_apicaloblique_L'', ''L2Pyr_apicaloblique_diam'', ''L2Pyr_basal1_L'',
     ''L2Pyr_basal1_diam'', ''L2Pyr_basal2_L'', ''L2Pyr_basal2_diam'', ''L2Pyr_basal3_L'',
     ''L2Pyr_basal3_diam'', ''L2Pyr_dend_cm'', ''L2Pyr_dend_Ra'', ''L2Pyr_ampa_e'',
     ''L2Pyr_ampa_tau1'', ''L2Pyr_ampa_tau2'', ''L2Pyr_nmda_e'', ''L2Pyr_nmda_tau1'',
     ''L2Pyr_nmda_tau2'', ''L2Pyr_gabaa_e'', ''L2Pyr_gabaa_tau1'', ''L2Pyr_gabaa_tau2'',
     ''L2Pyr_gabab_e'', ''L2Pyr_gabab_tau1'', ''L2Pyr_gabab_tau2'', ''L2Pyr_soma_gkbar_hh2'',
     ''L2Pyr_soma_gl_hh2'', ''L2Pyr_soma_el_hh2'', ''L2Pyr_soma_gnabar_hh2'',
     ''L2Pyr_soma_gbar_km'', ''L2Pyr_dend_gkbar_hh2'', ''L2Pyr_dend_gl_hh2'',
     ''L2Pyr_dend_gnabar_hh2'', ''L2Pyr_dend_el_hh2'', ''L2Pyr_dend_gbar_km'']"

definition L5_param_names :: "string list" where
  "L5_param_names =
    [''L5Pyr_soma_L'', ''L5Pyr_soma_diam'', ''L5Pyr_soma_cm'', ''L5Pyr_soma_Ra'',
     ''L5Pyr_apicaltrunk_L'', ''L5Pyr_apicaltrunk_diam'', ''L5Pyr_apical1_L'',
     ''L5Pyr_apical1_diam'', ''L5Pyr_apicaltuft_L'', ''L5Pyr_apicaltuft_diam'',
     ''L5Pyr_apicaloblique_L'', ''L5Pyr_apicaloblique_diam'', ''L5Pyr_basal1_L'',
     ''L5Pyr_basal1_diam'', ''L5Pyr_basal2_L'', ''L5Pyr_basal2_diam'', ''L5Pyr_basal3_L'',
     ''L5Pyr_basal3_diam'', ''L5Pyr_apical2_L'', ''L5Pyr_apical2_diam'', ''L5Pyr_dend_cm'',
     ''L5Pyr_dend_Ra'', ''L5Pyr_ampa_e'', ''L5Pyr_ampa_tau1'', ''L5Pyr_ampa_tau2'',
     ''L5Pyr_nmda_e'', ''L5Pyr_nmda_tau1'', ''L5Pyr_nmda_tau2'', ''L5Pyr_gabaa_e'',
     ''L5Pyr_gabaa_tau1'', ''L5Pyr_gabaa_tau2'', ''L5Pyr_gabab_e'', ''L5Pyr_gabab_tau1'',
     ''L5Pyr_gabab_tau2'', ''L5Pyr_soma_gkbar_hh2'', ''L5Pyr_soma_gnabar_hh2'',
     ''L5Pyr_soma_gl_hh2'', ''L5Pyr_soma_el_hh2'', ''L5Pyr_soma_gbar_ca'',
     ''L5Pyr_soma_taur_cad'', ''L5Pyr_soma_gbar_kca'', ''L5Pyr_soma_gbar_km'',
     ''L5Pyr_soma_gbar_cat'', ''L5Pyr_soma_gbar_ar'', ''L5Pyr_dend_gkbar_hh2'',
     ''L5Pyr_dend_gl_hh2'', ''L5Pyr_dend_gnabar_hh2'', ''L5Pyr_dend_el_hh2'',
     ''L5Pyr_dend_gbar_ca'', ''L5Pyr_dend_taur_cad'', ''L5Pyr_dend_gbar_kca'',
     ''L5Pyr_dend_gbar_km'', ''L5Pyr_dend_gbar_cat'']"

definition const_table :: "string list \<Rightarrow> real \<Rightarrow> string \<rightharpoonup> real" where
  "const_table names v = map_of (map (\<lambda>k. (k, v)) names)"

section \<open>Concrete inputs\<close>

text \<open>A layer-2 cell before its dendrites are created, and small tables of one Poisson,
  one Gaussian and one common source, at which the theorems below are instantiated.\<close>

definition ex_cell :: cell where
  "ex_cell =
     (Pyr_init 0 \<lparr>sp_pos = [0, 0], sp_L = 22.1, sp_diam = 23.4, sp_cm = 0.6195, sp_Ra = 200,
                  sp_name = ''L2Pyr''\<rparr> Map.empty)\<lparr>celltype := ''L2_pyramidal''\<rparr>"

definition ex_gid_dict :: "string \<rightharpoonup> int list" where
  "ex_gid_dict = [''extpois'' \<mapsto> [100, 101], ''extgauss'' \<mapsto> [200, 201], ''common'' \<mapsto> [300]]"

definition ex_pos_dict :: "string \<rightharpoonup> pos list" where
  "ex_pos_dict = [''extpois'' \<mapsto> [[0, 0], [1, 0]], ''extgauss'' \<mapsto> [[0, 0], [1, 0]],
                  ''common'' \<mapsto> [[5, 5]]]"

definition ex_p_ext :: "real \<Rightarrow> string \<rightharpoonup> pval" where
  "ex_p_ext w = [''L2_pyramidal'' \<mapsto> PTuple [4 / 10, w, 1], ''lamtha_space'' \<mapsto> PNum 100,
                 ''lamtha'' \<mapsto> PNum 100, ''threshold'' \<mapsto> PNum 0]"

definition ex_p_src :: "string \<rightharpoonup> pval" where
  "ex_p_src = [''L2Pyr_ampa'' \<mapsto> PTuple [5 / 10, 1 / 10], ''lamtha'' \<mapsto> PNum 100,
               ''threshold'' \<mapsto> PNum 0, ''loc'' \<mapsto> PStr ''proximal'']"

definition ex_q_src :: "string \<rightharpoonup> pval" where
  "ex_q_src = [''lamtha'' \<mapsto> PNum 100, ''threshold'' \<mapsto> PNum 0, ''loc'' \<mapsto> PStr ''distal'']"

text \<open>A path distance that grows along every dendrite, and synapse properties.\<close>

definition ex_distance :: "string \<Rightarrow> real \<Rightarrow> real" where
  "ex_distance key x = 20 + 100 * x"





section \<open>Basic facts\<close>

lemma bind_e_Inr [simp]: "bind_e (Inr x) f = f x"
  by (simp add: bind_e_def)

lemma bind_e_Inl [simp]: "bind_e (Inl e) f = Inl e"
  by (simp add: bind_e_def)

lemma bind_e_eq_Inr: "bind_e m f = Inr y \<longleftrightarrow> (\<exists>x. m = Inr x \<and> f x = Inr y)"
  by (cases m) simp_all

lemma lookup_Some: "m k = Some v \<Longrightarrow> lookup m k = Inr v"
  by (simp add: lookup_def)

lemma lookup_None: "m k = None \<Longrightarrow> lookup m k = Inl (KeyError k)"
  by (simp add: lookup_def)

lemma py_index_0: "xs \<noteq> [] \<Longrightarrow> py_index xs 0 = Inr (hd xs)"
  by (cases xs) (simp_all add: py_index_def Let_def)

lemma seq_e_eq_Inr:
  "seq_e (f # fs) s = Inr s' \<longleftrightarrow> (\<exists>s1. f s = Inr s1 \<and> seq_e fs s1 = Inr s')"
  by (cases "f s") simp_all

lemma ex_cell_fields:
  "name ex_cell = ''L2Pyr''" "celltype ex_cell = ''L2_pyramidal''"
  "ncfrom_common ex_cell = []" "ncfrom_extgauss ex_cell = []" "ncfrom_extpois ex_cell = []"
  "stdout ex_cell = []"
  by (simp_all add: ex_cell_def Pyr_init_def Cell_init_def)

section \<open>External drives\<close>

text \<open>
  Claim C5. A drive type that does not start with \<^verbatim>\<open>evprox\<close> or \<^verbatim>\<open>evdist\<close> and is neither
  \<^verbatim>\<open>extgauss\<close> nor \<^verbatim>\<open>extpois\<close> raises nothing and creates no connection:
  \<^verbatim>\<open>parreceive_ext\<close> returns the cell with one diagnostic line printed and nothing else
  changed.
\<close>

theorem parreceive_ext_unrecognized:
  assumes "\<not> prefix ''evprox'' type" and "\<not> prefix ''evdist'' type"
    and "type \<noteq> ''extgauss''" and "type \<noteq> ''extpois''"
  shows "\<exists>c'. parreceive_ext type g gid_dict pos_dict p_ext c = Inr c'
           \<and> stdout c' = stdout c @ [''Warning, ext type def does not exist in L2Pyr'']
           \<and> c'\<lparr>stdout := stdout c\<rparr> = c
           \<and> ncfrom_common c' = ncfrom_common c
           \<and> ncfrom_extgauss c' = ncfrom_extgauss c
           \<and> ncfrom_extpois c' = ncfrom_extpois c"
  using assms by (simp add: parreceive_ext_def)

theorem parreceive_ext_unrecognized_witness:
  "\<not> prefix ''evprox'' ''extfoo'' \<and> \<not> prefix ''evdist'' ''extfoo''
   \<and> ''extfoo'' \<noteq> ''extgauss'' \<and> ''extfoo'' \<noteq> ''extpois''
   \<and> (\<exists>c'. parreceive_ext ''extfoo'' 0 ex_gid_dict ex_pos_dict (ex_p_ext 0) ex_cell = Inr c'
         \<and> stdout c' = [''Warning, ext type def does not exist in L2Pyr'']
         \<and> ncfrom_common c' = [] \<and> ncfrom_extgauss c' = [] \<and> ncfrom_extpois c' = [])"
  using parreceive_ext_unrecognized [of "''extfoo''" 0 ex_gid_dict ex_pos_dict "ex_p_ext 0" ex_cell]
  by (auto simp: ex_cell_fields)

text \<open>
  Claim C3. For a Poisson source (\<^verbatim>\<open>extpois\<close>) and a cell whose type is a key of the
  parameter table, \<^verbatim>\<open>parreceive_ext\<close> always connects the source to the \<^verbatim>\<open>ampa\<close> receptor
  at the proximal location, and connects it to the \<^verbatim>\<open>nmda\<close> receptor at the proximal
  location exactly when the weight at index 1 of the entry of the cell type is strictly
  positive. The tables are well formed: the entry is a tuple of at least three numbers, and
  the other keys and indices that the branch reads exist.
\<close>

theorem parreceive_ext_extpois:
  assumes ct: "p_ext (celltype c) = Some (PTuple ws)" and len: "3 \<le> length ws"
    and gd: "gid_dict ''extpois'' = Some gs" and gs: "gs \<noteq> []"
    and pd: "pos_dict ''extpois'' = Some ps" and g: "py_index ps g = Inr p"
    and lam: "p_ext ''lamtha_space'' = Some lam" and th: "p_ext ''threshold'' = Some th"
  shows "parreceive_ext ''extpois'' g gid_dict pos_dict p_ext c =
     (let d = \<lparr>pos_src = p, A_weight = PNum (ws ! 0), A_delay = PNum (ws ! 2),
               lamtha = lam, threshold = th, type_src = ''extpois''\<rparr>;
          ampa = \<lparr>feed_loc = PStr ''proximal'', receptor = ''ampa'', gid_src = g + hd gs, nc = d\<rparr>;
          nmda = \<lparr>feed_loc = PStr ''proximal'', receptor = ''nmda'', gid_src = g + hd gs,
                  nc = d\<lparr>A_weight := PNum (ws ! 1)\<rparr>\<rparr>
      in Inr (c\<lparr>ncfrom_extpois :=
                 ncfrom_extpois c @ (if ws ! 1 > 0 then [ampa, nmda] else [ampa])\<rparr>))"
proof -
  have i0: "item (PTuple ws) 0 = Inr (PNum (ws ! 0))"
    and i1: "item (PTuple ws) 1 = Inr (PNum (ws ! 1))"
    and i2: "item (PTuple ws) 2 = Inr (PNum (ws ! 2))"
    using len by (auto simp: py_index_def Let_def)
  have sg: "src_gid g gid_dict ''extpois'' = Inr (g + hd gs)"
    using gd gs by (simp add: src_gid_def lookup_Some py_index_0)
  have nd: "ext_nc_dict ''extpois'' g pos_dict p_ext (celltype c) 0 ''lamtha_space'' =
      Inr \<lparr>pos_src = p, A_weight = PNum (ws ! 0), A_delay = PNum (ws ! 2),
               lamtha = lam, threshold = th, type_src = ''extpois''\<rparr>"
    using ct pd g lam th i0 i2 by (simp add: ext_nc_dict_def lookup_Some)
  show ?thesis
    using ct sg nd i1 by (simp add: parreceive_ext_def lookup_Some connect_feed_at_loc_def Let_def)
qed

theorem parreceive_ext_extpois_witness:
  "ex_p_ext (3 / 10) (celltype ex_cell) = Some (PTuple [4 / 10, 3 / 10, 1])
   \<and> 3 \<le> length [4 / 10, 3 / 10, 1 :: real]
   \<and> ex_gid_dict ''extpois'' = Some [100, 101] \<and> [100, 101 :: int] \<noteq> []
   \<and> ex_pos_dict ''extpois'' = Some [[0, 0], [1, 0]]
   \<and> py_index [[0, 0], [1, 0 :: real]] 1 = Inr [1, 0]
   \<and> ex_p_ext (3 / 10) ''lamtha_space'' = Some (PNum 100)
   \<and> ex_p_ext (3 / 10) ''threshold'' = Some (PNum 0)
   \<and> (\<exists>c'. parreceive_ext ''extpois'' 1 ex_gid_dict ex_pos_dict (ex_p_ext (3 / 10)) ex_cell
              = Inr c'
         \<and> map receptor (ncfrom_extpois c') = [''ampa'', ''nmda'']
         \<and> map (A_weight \<circ> nc) (ncfrom_extpois c') = [PNum (4 / 10), PNum (3 / 10)]
         \<and> map gid_src (ncfrom_extpois c') = [101, 101])"
  using parreceive_ext_extpois [of "ex_p_ext (3 / 10)" ex_cell "[4 / 10, 3 / 10, 1]" ex_gid_dict
      "[100, 101]" ex_pos_dict "[[0, 0], [1, 0]]" 1 "[1, 0]" "PNum 100" "PNum 0"]
  by (simp add: ex_cell_fields ex_p_ext_def ex_gid_dict_def ex_pos_dict_def py_index_def Let_def)

text \<open>
  Claim C4. For a Gaussian source (\<^verbatim>\<open>extgauss\<close>) and a cell whose type is a key of the
  parameter table, \<^verbatim>\<open>parreceive_ext\<close> creates exactly one connection, to the \<^verbatim>\<open>ampa\<close>
  receptor at the proximal location, and the result is the same whatever number stands at
  index 1 (the \<^verbatim>\<open>nmda\<close> weight) of the entry of the cell type. The tables are well formed as
  for the Poisson source, with the decay constant under the key \<^verbatim>\<open>lamtha\<close>.
\<close>

theorem parreceive_ext_extgauss:
  assumes ct: "p_ext (celltype c) = Some (PTuple ws)" and len: "3 \<le> length ws"
    and gd: "gid_dict ''extgauss'' = Some gs" and gs: "gs \<noteq> []"
    and pd: "pos_dict ''extgauss'' = Some ps" and g: "py_index ps g = Inr p"
    and lam: "p_ext ''lamtha'' = Some lam" and th: "p_ext ''threshold'' = Some th"
    and ne: "celltype c \<noteq> ''lamtha''" "celltype c \<noteq> ''threshold''"
  shows "\<forall>w. parreceive_ext ''extgauss'' g gid_dict pos_dict
               (p_ext(celltype c \<mapsto> PTuple (ws[1 := w]))) c =
     Inr (c\<lparr>ncfrom_extgauss := ncfrom_extgauss c @
            [\<lparr>feed_loc = PStr ''proximal'', receptor = ''ampa'', gid_src = g + hd gs,
              nc = \<lparr>pos_src = p, A_weight = PNum (ws ! 0), A_delay = PNum (ws ! 2),
                    lamtha = lam, threshold = th, type_src = ''extgauss''\<rparr>\<rparr>]\<rparr>)"
proof
  fix w
  let ?ws = "ws[1 := w]"
  let ?p = "p_ext(celltype c \<mapsto> PTuple ?ws)"
  have i0: "item (PTuple ?ws) 0 = Inr (PNum (ws ! 0))"
    and i2: "item (PTuple ?ws) 2 = Inr (PNum (ws ! 2))"
    using len by (auto simp: py_index_def Let_def)
  have sg: "src_gid g gid_dict ''extgauss'' = Inr (g + hd gs)"
    using gd gs by (simp add: src_gid_def lookup_Some py_index_0)
  have nd: "ext_nc_dict ''extgauss'' g pos_dict ?p (celltype c) 0 ''lamtha'' =
      Inr \<lparr>pos_src = p, A_weight = PNum (ws ! 0), A_delay = PNum (ws ! 2),
               lamtha = lam, threshold = th, type_src = ''extgauss''\<rparr>"
    using pd g lam th i0 i2 ne by (simp add: ext_nc_dict_def lookup_Some)
  show "parreceive_ext ''extgauss'' g gid_dict pos_dict ?p c =
     Inr (c\<lparr>ncfrom_extgauss := ncfrom_extgauss c @
            [\<lparr>feed_loc = PStr ''proximal'', receptor = ''ampa'', gid_src = g + hd gs,
              nc = \<lparr>pos_src = p, A_weight = PNum (ws ! 0), A_delay = PNum (ws ! 2),
                    lamtha = lam, threshold = th, type_src = ''extgauss''\<rparr>\<rparr>]\<rparr>)"
    using sg nd by (simp add: parreceive_ext_def connect_feed_at_loc_def Let_def)
qed

theorem parreceive_ext_extgauss_witness:
  "ex_p_ext 0 (celltype ex_cell) = Some (PTuple [4 / 10, 0, 1])
   \<and> 3 \<le> length [4 / 10, 0, 1 :: real]
   \<and> ex_gid_dict ''extgauss'' = Some [200, 201] \<and> [200, 201 :: int] \<noteq> []
   \<and> ex_pos_dict ''extgauss'' = Some [[0, 0], [1, 0]]
   \<and> py_index [[0, 0], [1, 0 :: real]] 1 = Inr [1, 0]
   \<and> ex_p_ext 0 ''lamtha'' = Some (PNum 100) \<and> ex_p_ext 0 ''threshold'' = Some (PNum 0)
   \<and> celltype ex_cell \<noteq> ''lamtha'' \<and> celltype ex_cell \<noteq> ''threshold''
   \<and> (\<forall>w. parreceive_ext ''extgauss'' 1 ex_gid_dict ex_pos_dict
              ((ex_p_ext 0)(celltype ex_cell \<mapsto> PTuple ([4 / 10, 0, 1][1 := w]))) ex_cell =
            Inr (ex_cell\<lparr>ncfrom_extgauss :=
              [\<lparr>feed_loc = PStr ''proximal'', receptor = ''ampa'', gid_src = 201,
                nc = \<lparr>pos_src = [1, 0], A_weight = PNum (4 / 10), A_delay = PNum 1,
                      lamtha = PNum 100, threshold = PNum 0, type_src = ''extgauss''\<rparr>\<rparr>]\<rparr>))"
  using parreceive_ext_extgauss [of "ex_p_ext 0" ex_cell "[4 / 10, 0, 1]" ex_gid_dict
      "[200, 201]" ex_pos_dict "[[0, 0], [1, 0]]" 1 "[1, 0]" "PNum 100" "PNum 0"]
  by (simp add: ex_cell_fields ex_p_ext_def ex_gid_dict_def ex_pos_dict_def py_index_def Let_def)

section \<open>Common inputs\<close>

lemma connect_feed_name [simp]: "name (connect_feed_at_loc loc r g d l c) = name c"
  by (cases l) (simp_all add: connect_feed_at_loc_def Let_def)

lemma connect_feed_common [simp]:
  "ncfrom_common (connect_feed_at_loc loc r g d Ncfrom_common c) =
     ncfrom_common c @ [\<lparr>feed_loc = loc, receptor = r, gid_src = g, nc = d\<rparr>]"
  by (simp add: connect_feed_at_loc_def Let_def)

lemma connect_feed_twice:
  "connect_feed_at_loc l2 r2 g2 d2 Ncfrom_common (connect_feed_at_loc l1 r1 g1 d1 Ncfrom_common c)
   = c\<lparr>ncfrom_common := ncfrom_common c @
        [\<lparr>feed_loc = l1, receptor = r1, gid_src = g1, nc = d1\<rparr>,
         \<lparr>feed_loc = l2, receptor = r2, gid_src = g2, nc = d2\<rparr>]\<rparr>"
  by (simp add: connect_feed_at_loc_def)

lemma parreceive_receptor_Inr:
  assumes "parreceive_receptor g p_src pos r (nco, c) = Inr (nco', c')"
  shows "\<exists>loc d. c' = connect_feed_at_loc loc r g d Ncfrom_common c"
  using assms
  by (auto simp: parreceive_receptor_def bind_e_eq_Inr split: option.splits if_splits)

lemma receptor_reuse:
  assumes "p_src (name c @ ''_'' @ r) = None" and "p_src ''loc'' = Some loc"
  shows "parreceive_receptor g p_src pos r (Some d, c) =
           Inr (Some d, connect_feed_at_loc loc r g d Ncfrom_common c)"
  using assms by (simp add: parreceive_receptor_def lookup_Some)

lemma receptor_unbound:
  assumes "p_src (name c @ ''_'' @ r) = None" and "p_src ''loc'' = Some loc"
  shows "parreceive_receptor g p_src pos r (None, c) = Inl (UnboundLocalError ''nc_dict'')"
  using assms by (simp add: parreceive_receptor_def lookup_Some)

lemma receptor_built:
  assumes "p_src (name c @ ''_'' @ r) = Some e"
    and "common_nc_dict (name c @ ''_'' @ r) p_src pos = Inr d" and "p_src ''loc'' = Some loc"
  shows "parreceive_receptor g p_src pos r (nco, c) =
           Inr (Some d, connect_feed_at_loc loc r g d Ncfrom_common c)"
  using assms by (simp add: parreceive_receptor_def lookup_Some)

lemma parreceive_source_Inr:
  assumes "parreceive_source src (nco, c) = Inr (nco', c')"
  shows "\<exists>new. ncfrom_common c' = ncfrom_common c @ new \<and> map receptor new = [''ampa'', ''nmda'']"
proof -
  obtain g p_src pos where src: "src = (g, p_src, pos)" by (cases src) auto
  from assms obtain n1 c1 where
    a: "parreceive_receptor g p_src pos ''ampa'' (nco, c) = Inr (n1, c1)"
    and b: "parreceive_receptor g p_src pos ''nmda'' (n1, c1) = Inr (nco', c')"
    by (auto simp: parreceive_source_def src seq_e_eq_Inr simp del: seq_e.simps(2))
  from parreceive_receptor_Inr [OF a] parreceive_receptor_Inr [OF b]
  show ?thesis by auto
qed

lemma parreceive_sources_Inr:
  "seq_e (map parreceive_source srcs) (nco, c) = Inr (nco', c')
   \<Longrightarrow> \<exists>new. ncfrom_common c' = ncfrom_common c @ new
         \<and> map receptor new = concat (replicate (length srcs) [''ampa'', ''nmda''])"
proof (induction srcs arbitrary: nco c)
  case Nil
  then show ?case by simp
next
  case (Cons src srcs)
  then obtain n1 c1 where a: "parreceive_source src (nco, c) = Inr (n1, c1)"
    and b: "seq_e (map parreceive_source srcs) (n1, c1) = Inr (nco', c')"
    by (auto simp: seq_e_eq_Inr simp del: seq_e.simps(2))
  from parreceive_source_Inr [OF a] obtain new1 where
    n1: "ncfrom_common c1 = ncfrom_common c @ new1" "map receptor new1 = [''ampa'', ''nmda'']"
    by auto
  from Cons.IH [OF b] obtain new2 where
    n2: "ncfrom_common c' = ncfrom_common c1 @ new2"
      "map receptor new2 = concat (replicate (length srcs) [''ampa'', ''nmda''])"
    by auto
  show ?case
    by (rule exI [of _ "new1 @ new2"]) (simp add: n1 n2)
qed

lemma parreceive_all_receptors:
  assumes r: "parreceive g gid_dict pos_dict p_ext c = Inr c'"
    and gd: "gid_dict ''common'' = Some gids" and pd: "pos_dict ''common'' = Some poss"
  shows "\<exists>new. ncfrom_common c' = ncfrom_common c @ new
         \<and> map receptor new =
             concat (replicate (min (length gids) (min (length p_ext) (length poss)))
                       [''ampa'', ''nmda''])"
proof -
  from r gd pd obtain st where
    st: "seq_e (map parreceive_source (zip gids (zip p_ext poss))) (None, c) = Inr st"
    and c': "c' = snd st"
    by (auto simp: parreceive_def lookup_Some bind_e_eq_Inr)
  from st c' have "seq_e (map parreceive_source (zip gids (zip p_ext poss))) (None, c)
      = Inr (fst st, c')" by simp
  from parreceive_sources_Inr [OF this]
  show ?thesis by simp
qed

lemma parreceive_reuse:
  assumes gd: "gid_dict ''common'' = Some [gs]" and pd: "pos_dict ''common'' = Some [pos]"
    and a: "p_src (name c @ ''_ampa'') = Some (PTuple ws)" and len: "2 \<le> length ws"
    and n: "p_src (name c @ ''_nmda'') = None"
    and l: "p_src ''lamtha'' = Some lam" and t: "p_src ''threshold'' = Some th"
    and loc: "p_src ''loc'' = Some loc"
  shows "parreceive g gid_dict pos_dict [p_src] c =
        (let d = \<lparr>pos_src = pos, A_weight = PNum (ws ! 0), A_delay = PNum (ws ! 1),
                  lamtha = lam, threshold = th, type_src = ''ext''\<rparr>
         in Inr (c\<lparr>ncfrom_common := ncfrom_common c @
                   [\<lparr>feed_loc = loc, receptor = ''ampa'', gid_src = gs, nc = d\<rparr>,
                    \<lparr>feed_loc = loc, receptor = ''nmda'', gid_src = gs, nc = d\<rparr>]\<rparr>))"
proof -
  define d where "d = \<lparr>pos_src = pos, A_weight = PNum (ws ! 0), A_delay = PNum (ws ! 1),
                  lamtha = lam, threshold = th, type_src = ''ext''\<rparr>"
  define c1 where "c1 = connect_feed_at_loc loc ''ampa'' gs d Ncfrom_common c"
  have i0: "item (PTuple ws) 0 = Inr (PNum (ws ! 0))"
    and i1: "item (PTuple ws) 1 = Inr (PNum (ws ! 1))"
    using len by (auto simp: py_index_def Let_def)
  have dd: "common_nc_dict (name c @ ''_ampa'') p_src pos = Inr d"
    using a l t i0 i1 by (simp add: common_nc_dict_def lookup_Some d_def)
  have s1: "parreceive_receptor gs p_src pos ''ampa'' (None, c) = Inr (Some d, c1)"
    using receptor_built [of p_src c "''ampa''" "PTuple ws" pos d loc gs None] a dd loc
    by (simp add: c1_def)
  have "name c1 = name c" by (simp add: c1_def)
  then have s2: "parreceive_receptor gs p_src pos ''nmda'' (Some d, c1) =
      Inr (Some d, connect_feed_at_loc loc ''nmda'' gs d Ncfrom_common c1)"
    using receptor_reuse [of p_src c1 "''nmda''" loc gs pos d] n loc by simp
  have "parreceive g gid_dict pos_dict [p_src] c =
      Inr (connect_feed_at_loc loc ''nmda'' gs d Ncfrom_common c1)"
    using gd pd s1 s2 by (simp add: parreceive_def parreceive_source_def lookup_Some)
  then show ?thesis
    unfolding c1_def connect_feed_twice d_def Let_def .
qed

lemma parreceive_unbound:
  assumes gd: "gid_dict ''common'' = Some (gs # gids')"
    and pd: "pos_dict ''common'' = Some (pos # poss')"
    and a: "q_src (name c @ ''_ampa'') = None" and loc: "q_src ''loc'' = Some loc"
  shows "parreceive g gid_dict pos_dict (q_src # rest) c = Inl (UnboundLocalError ''nc_dict'')"
proof -
  have "parreceive_receptor gs q_src pos ''ampa'' (None, c) = Inl (UnboundLocalError ''nc_dict'')"
    using receptor_unbound [of q_src c "''ampa''" loc gs pos] a loc by simp
  then show ?thesis
    using gd pd by (simp add: parreceive_def parreceive_source_def lookup_Some)
qed

text \<open>
  Claim C10. In \<^verbatim>\<open>Pyr.parreceive\<close> the connecting call runs for both receptors of every
  source, whether or not the source has the key \<^verbatim>\<open>{name}_{receptor}\<close>: a run that
  returns has added one \<^verbatim>\<open>ampa\<close> and one \<^verbatim>\<open>nmda\<close> connection per source. Where the key of
  a receptor is absent the connection reuses the dictionary built last (here: a source with
  the \<^verbatim>\<open>ampa\<close> key only gets its \<^verbatim>\<open>nmda\<close> connection with the \<^verbatim>\<open>ampa\<close> weight and
  delay); and where no dictionary has been built yet (the first source has no \<^verbatim>\<open>ampa\<close>
  key) the run fails with an unbound local variable instead of skipping the receptor.
\<close>

theorem parreceive_nc_dict:
  "(parreceive g gid_dict pos_dict p_ext c = Inr c' \<longrightarrow>
      gid_dict ''common'' = Some gids \<longrightarrow> pos_dict ''common'' = Some poss \<longrightarrow>
      (\<exists>new. ncfrom_common c' = ncfrom_common c @ new
         \<and> map receptor new =
             concat (replicate (min (length gids) (min (length p_ext) (length poss)))
                       [''ampa'', ''nmda''])))
   \<and> (gid_dict ''common'' = Some [gs] \<longrightarrow> pos_dict ''common'' = Some [pos] \<longrightarrow>
      p_src (name c @ ''_ampa'') = Some (PTuple ws) \<longrightarrow> 2 \<le> length ws \<longrightarrow>
      p_src (name c @ ''_nmda'') = None \<longrightarrow>
      p_src ''lamtha'' = Some lam \<longrightarrow> p_src ''threshold'' = Some th \<longrightarrow>
      p_src ''loc'' = Some loc \<longrightarrow>
      parreceive g gid_dict pos_dict [p_src] c =
        (let d = \<lparr>pos_src = pos, A_weight = PNum (ws ! 0), A_delay = PNum (ws ! 1),
                  lamtha = lam, threshold = th, type_src = ''ext''\<rparr>
         in Inr (c\<lparr>ncfrom_common := ncfrom_common c @
                   [\<lparr>feed_loc = loc, receptor = ''ampa'', gid_src = gs, nc = d\<rparr>,
                    \<lparr>feed_loc = loc, receptor = ''nmda'', gid_src = gs, nc = d\<rparr>]\<rparr>)))
   \<and> (gid_dict ''common'' = Some (hs # gids') \<longrightarrow> pos_dict ''common'' = Some (qos # poss') \<longrightarrow>
      q_src (name c @ ''_ampa'') = None \<longrightarrow> q_src ''loc'' = Some qloc \<longrightarrow>
      parreceive g gid_dict pos_dict (q_src # rest) c = Inl (UnboundLocalError ''nc_dict''))"
  using parreceive_all_receptors [of g gid_dict pos_dict p_ext c c' gids poss]
    parreceive_reuse [of gid_dict gs pos_dict pos p_src c ws lam th loc g]
    parreceive_unbound [of gid_dict hs gids' pos_dict qos poss' q_src c qloc g rest]
  by blast

theorem parreceive_nc_dict_witness:
  "ex_gid_dict ''common'' = Some [300] \<and> ex_pos_dict ''common'' = Some [[5, 5]]
   \<and> ex_p_src (name ex_cell @ ''_ampa'') = Some (PTuple [5 / 10, 1 / 10])
   \<and> 2 \<le> length [5 / 10, 1 / 10 :: real]
   \<and> ex_p_src (name ex_cell @ ''_nmda'') = None
   \<and> ex_p_src ''lamtha'' = Some (PNum 100) \<and> ex_p_src ''threshold'' = Some (PNum 0)
   \<and> ex_p_src ''loc'' = Some (PStr ''proximal'')
   \<and> parreceive 0 ex_gid_dict ex_pos_dict [ex_p_src] ex_cell =
       Inr (ex_cell\<lparr>ncfrom_common :=
         [\<lparr>feed_loc = PStr ''proximal'', receptor = ''ampa'', gid_src = 300,
           nc = \<lparr>pos_src = [5, 5], A_weight = PNum (5 / 10), A_delay = PNum (1 / 10),
                 lamtha = PNum 100, threshold = PNum 0, type_src = ''ext''\<rparr>\<rparr>,
          \<lparr>feed_loc = PStr ''proximal'', receptor = ''nmda'', gid_src = 300,
           nc = \<lparr>pos_src = [5, 5], A_weight = PNum (5 / 10), A_delay = PNum (1 / 10),
                 lamtha = PNum 100, threshold = PNum 0, type_src = ''ext''\<rparr>\<rparr>]\<rparr>)
   \<and> ex_q_src (name ex_cell @ ''_ampa'') = None \<and> ex_q_src ''loc'' = Some (PStr ''distal'')
   \<and> parreceive 0 ex_gid_dict ex_pos_dict [ex_q_src, ex_p_src] ex_cell =
       Inl (UnboundLocalError ''nc_dict'')"
proof -
  have h: "ex_gid_dict ''common'' = Some [300]" "ex_pos_dict ''common'' = Some [[5, 5]]"
    "ex_p_src (name ex_cell @ ''_ampa'') = Some (PTuple [5 / 10, 1 / 10])"
    "2 \<le> length [5 / 10, 1 / 10 :: real]"
    "ex_p_src (name ex_cell @ ''_nmda'') = None"
    "ex_p_src ''lamtha'' = Some (PNum 100)" "ex_p_src ''threshold'' = Some (PNum 0)"
    "ex_p_src ''loc'' = Some (PStr ''proximal'')"
    "ex_q_src (name ex_cell @ ''_ampa'') = None" "ex_q_src ''loc'' = Some (PStr ''distal'')"
    by (simp_all add: ex_cell_fields ex_gid_dict_def ex_pos_dict_def ex_p_src_def ex_q_src_def)
  note T = parreceive_nc_dict [where g = 0 and gid_dict = ex_gid_dict and pos_dict = ex_pos_dict
      and c = ex_cell and gs = 300 and pos = "[5, 5]" and p_src = ex_p_src
      and ws = "[5 / 10, 1 / 10]" and lam = "PNum 100" and th = "PNum 0"
      and loc = "PStr ''proximal''" and hs = 300 and gids' = "[]" and qos = "[5, 5]"
      and poss' = "[]" and q_src = ex_q_src and qloc = "PStr ''distal''" and rest = "[ex_p_src]"]
  from T h have reuse: "parreceive 0 ex_gid_dict ex_pos_dict [ex_p_src] ex_cell =
       Inr (ex_cell\<lparr>ncfrom_common :=
         [\<lparr>feed_loc = PStr ''proximal'', receptor = ''ampa'', gid_src = 300,
           nc = \<lparr>pos_src = [5, 5], A_weight = PNum (5 / 10), A_delay = PNum (1 / 10),
                 lamtha = PNum 100, threshold = PNum 0, type_src = ''ext''\<rparr>\<rparr>,
          \<lparr>feed_loc = PStr ''proximal'', receptor = ''nmda'', gid_src = 300,
           nc = \<lparr>pos_src = [5, 5], A_weight = PNum (5 / 10), A_delay = PNum (1 / 10),
                 lamtha = PNum 100, threshold = PNum 0, type_src = ''ext''\<rparr>\<rparr>]\<rparr>)"
    by (simp add: ex_cell_fields Let_def)
  from T h have unbound: "parreceive 0 ex_gid_dict ex_pos_dict [ex_q_src, ex_p_src] ex_cell =
       Inl (UnboundLocalError ''nc_dict'')"
    by blast
  from h reuse unbound show ?thesis by blast
qed

section \<open>Statements that keep a view\<close>

lemma getitem_eq_Inr: "getitem d k = Inr v \<longleftrightarrow> map_of d k = Some v"
  by (simp add: getitem_def split: option.splits)

lemma map_update_proj:
  "map_of al k = Some s \<Longrightarrow> \<pi> v = \<pi> s \<Longrightarrow>
   map (\<lambda>(k, s). (k, \<pi> s)) (AList.update k v al) = map (\<lambda>(k, s). (k, \<pi> s)) al"
  by (induction al) (auto split: if_splits)

lemma presI: "(\<And>c c'. op c = Inr c' \<Longrightarrow> view \<pi> c' = view \<pi> c) \<Longrightarrow> pres \<pi> op"
  by (simp add: pres_def)

lemma presD: "pres \<pi> op \<Longrightarrow> op c = Inr c' \<Longrightarrow> view \<pi> c' = view \<pi> c"
  by (simp add: pres_def)

lemma pres_upd_sec:
  assumes "\<And>s. \<pi> (f s) = \<pi> s"
  shows "pres \<pi> (upd_sec r f)"
proof (rule presI)
  fix c c'
  assume a: "upd_sec r f c = Inr c'"
  show "view \<pi> c' = view \<pi> c"
  proof (cases r)
    case Soma
    with a assms show ?thesis by (auto simp: view_def frame_def)
  next
    case (Dend k)
    with a obtain s where s: "map_of (dends c) k = Some s"
      and c': "c' = c\<lparr>dends := AList.update k (f s) (dends c)\<rparr>"
      by (auto simp: getitem_def split: option.splits)
    from map_update_proj [OF s, of \<pi> "f s"] assms c' show ?thesis
      by (simp add: view_def frame_def)
  qed
qed

lemma pres_seq_e:
  assumes "\<And>f. f \<in> set fs \<Longrightarrow> pres \<pi> f"
  shows "pres \<pi> (seq_e fs)"
proof (rule presI)
  fix c c'
  assume "seq_e fs c = Inr c'"
  with assms show "view \<pi> c' = view \<pi> c"
  proof (induction fs arbitrary: c)
    case Nil
    then show ?case by simp
  next
    case (Cons f fs)
    from Cons.prems(2) obtain c1 where a: "f c = Inr c1" and b: "seq_e fs c1 = Inr c'"
      by (auto simp: seq_e_eq_Inr simp del: seq_e.simps(2))
    have "view \<pi> c1 = view \<pi> c" using Cons.prems(1) a by (auto dest: presD)
    moreover have "view \<pi> c' = view \<pi> c1" using Cons.IH [OF _ b] Cons.prems(1) by simp
    ultimately show ?case by simp
  qed
qed

lemma pres_bind:
  assumes "\<And>x. pres \<pi> (g x)"
  shows "pres \<pi> (\<lambda>c. bind_e (m c) (\<lambda>x. g x c))"
  using assms by (auto simp: pres_def bind_e_eq_Inr)

lemma pres_connect:
  assumes "\<And>s x. \<pi> (s\<lparr>parent := x\<rparr>) = \<pi> s"
  shows "pres \<pi> (connect a b pe cs)"
  unfolding connect_def
  by (intro pres_bind pres_upd_sec) (simp add: assms)

lemma pres_dend_upd:
  assumes "\<And>s. \<pi> (f s) = \<pi> s"
  shows "pres \<pi> (dend_upd i f)"
  unfolding dend_upd_def
  by (intro pres_bind pres_upd_sec) (simp add: assms)

lemma pres_basic_shape: "pres \<pi> (basic_shape idx)"
  unfolding basic_shape_def
  by (rule pres_seq_e) (auto simp: pres_def bind_e_eq_Inr)

lemma pres_insert_mech:
  assumes "\<And>s x. \<pi> (s\<lparr>inserted := x\<rparr>) = \<pi> s"
  shows "pres \<pi> (insert_mech r m)"
  unfolding insert_mech_def by (rule pres_upd_sec) (simp add: assms)

lemma pres_set_var:
  assumes "\<And>s x. \<pi> (s\<lparr>rangevar := x\<rparr>) = \<pi> s"
  shows "pres \<pi> (set_var r v k)"
  unfolding set_var_def
  by (intro pres_bind pres_upd_sec) (simp add: assms)

lemma pres_set_gbar_ar:
  assumes "\<And>s x. \<pi> (s\<lparr>gbar_ar := x\<rparr>) = \<pi> s"
  shows "pres \<pi> (set_gbar_ar dst k)"
  unfolding set_gbar_ar_def by (rule pres_upd_sec) (simp add: assms)

lemma pres_set_dend_props:
  assumes "\<And>s p. \<pi> (set_props p s) = \<pi> s"
  shows "pres \<pi> (set_dend_props P)"
  unfolding set_dend_props_def
  by (rule pres_seq_e) (auto intro: pres_upd_sec assms)

section \<open>Loops over the dendrites\<close>

lemma upd_sec_Dend_Inr:
  "upd_sec (Dend k) f c = Inr c' \<longleftrightarrow>
     (\<exists>s. map_of (dends c) k = Some s \<and> c' = c\<lparr>dends := AList.update k (f s) (dends c)\<rparr>)"
  by (auto simp: getitem_def split: option.splits)

lemma seq_upd_other:
  "seq_e (map (\<lambda>x. upd_sec (Dend (F x)) (G x)) xs) c = Inr c' \<Longrightarrow> k \<notin> F ` set xs
   \<Longrightarrow> map_of (dends c') k = map_of (dends c) k"
proof (induction xs arbitrary: c)
  case Nil
  then show ?case by simp
next
  case (Cons x xs)
  from Cons.prems(1) obtain c1 where a: "upd_sec (Dend (F x)) (G x) c = Inr c1"
    and b: "seq_e (map (\<lambda>x. upd_sec (Dend (F x)) (G x)) xs) c1 = Inr c'"
    by (auto simp: seq_e_eq_Inr simp del: seq_e.simps(2) upd_sec.simps)
  from a Cons.prems(2) have "map_of (dends c1) k = map_of (dends c) k"
    by (auto simp: upd_sec_Dend_Inr AList.update_conv' simp del: upd_sec.simps)
  with Cons.IH [OF b] Cons.prems(2) show ?case by simp
qed

lemma seq_upd_map_of:
  "seq_e (map (\<lambda>x. upd_sec (Dend (F x)) (G x)) xs) c = Inr c' \<Longrightarrow> distinct (map F xs)
   \<Longrightarrow> x \<in> set xs
   \<Longrightarrow> \<exists>s. map_of (dends c) (F x) = Some s \<and> map_of (dends c') (F x) = Some (G x s)"
proof (induction xs arbitrary: c)
  case Nil
  then show ?case by simp
next
  case (Cons y xs)
  from Cons.prems(1) obtain c1 where a: "upd_sec (Dend (F y)) (G y) c = Inr c1"
    and b: "seq_e (map (\<lambda>x. upd_sec (Dend (F x)) (G x)) xs) c1 = Inr c'"
    by (auto simp: seq_e_eq_Inr simp del: seq_e.simps(2) upd_sec.simps)
  from a obtain s0 where s0: "map_of (dends c) (F y) = Some s0"
    and c1: "map_of (dends c1) = (map_of (dends c))(F y \<mapsto> G y s0)"
    by (auto simp: upd_sec_Dend_Inr AList.update_conv' simp del: upd_sec.simps)
  show ?case
  proof (cases "x = y")
    case True
    from Cons.prems(2) have "F y \<notin> F ` set xs" by simp
    from seq_upd_other [OF b this] c1 s0 True show ?thesis by simp
  next
    case False
    with Cons.prems(2,3) have x: "x \<in> set xs" and d: "distinct (map F xs)"
      by auto
    from x have "F x \<in> F ` set xs" by (rule imageI)
    with Cons.prems(2) have ne: "F x \<noteq> F y" by auto
    from Cons.IH [OF b d x] c1 ne show ?thesis by simp
  qed
qed

lemma set_dend_props_effect:
  assumes "set_dend_props P c = Inr c'" and "distinct (map fst P)" and "(key, p) \<in> set P"
  shows "\<exists>s. map_of (dends c) key = Some s \<and> map_of (dends c') key = Some (set_props p s)"
proof -
  have "seq_e (map (\<lambda>x. upd_sec (Dend (fst x)) (set_props (snd x))) P) c = Inr c'"
    using assms(1) by (simp add: set_dend_props_def split_def)
  from seq_upd_map_of [OF this assms(2,3)] show ?thesis by simp
qed

lemma seq_e_append: "seq_e (fs @ gs) c = bind_e (seq_e fs c) (seq_e gs)"
  by (induction fs arbitrary: c) (auto split: sum.splits)

lemma view_keys: "view \<pi> c' = view \<pi> c \<Longrightarrow> map fst (dends c') = map fst (dends c)"
proof -
  assume "view \<pi> c' = view \<pi> c"
  then have "map (\<lambda>(k, s). (k, \<pi> s)) (dends c') = map (\<lambda>(k, s). (k, \<pi> s)) (dends c)"
    by (simp add: view_def)
  then have "map fst (map (\<lambda>(k, s). (k, \<pi> s)) (dends c')) =
      map fst (map (\<lambda>(k, s). (k, \<pi> s)) (dends c))" by simp
  then show ?thesis by (simp add: case_prod_beta comp_def)
qed

lemma view_frame: "view \<pi> c' = view \<pi> c \<Longrightarrow> frame c' = frame c"
  by (simp add: view_def)

lemma frame_fields:
  assumes "frame c' = frame c"
  shows "name c' = name c" and "p_all c' = p_all c" and "list_dend c' = list_dend c"
    and "synapses c' = synapses c" and "celltype c' = celltype c" and "yscale c' = yscale c"
proof -
  have "name (frame c') = name (frame c)" "p_all (frame c') = p_all (frame c)"
    "list_dend (frame c') = list_dend (frame c)" "synapses (frame c') = synapses (frame c)"
    "celltype (frame c') = celltype (frame c)" "yscale (frame c') = yscale (frame c)"
    using assms by simp_all
  then show "name c' = name c" and "p_all c' = p_all c" and "list_dend c' = list_dend c"
    and "synapses c' = synapses c" and "celltype c' = celltype c" and "yscale c' = yscale c"
    by (simp_all add: frame_def)
qed


lemma pres_L5_dend_biophys:
  assumes "\<And>s x. \<pi> (s\<lparr>inserted := x\<rparr>) = \<pi> s" and "\<And>s x. \<pi> (s\<lparr>rangevar := x\<rparr>) = \<pi> s"
    and "f \<in> set (L5_dend_biophys key)"
  shows "pres \<pi> f"
proof -
  have "list_all (pres \<pi>) (L5_dend_biophys key)"
    unfolding L5_dend_biophys_def list.pred_inject(2)
    by (intro conjI pres_insert_mech pres_set_var assms(1,2) list.pred_inject(1))
  with assms(3) show ?thesis by (simp add: list_all_iff)
qed

section \<open>The stages of the constructors keep what they do not assign\<close>

lemma pres_seq_e_all: "list_all (pres \<pi>) fs \<Longrightarrow> pres \<pi> (seq_e fs)"
  by (rule pres_seq_e) (simp add: list_all_iff)

lemma pres_L2_topol:
  assumes par: "\<And>s x. \<pi> (s\<lparr>parent := x\<rparr>) = \<pi> s"
  shows "pres \<pi> L2_topol"
  unfolding L2_topol_def
  by (rule pres_seq_e_all, unfold list.pred_inject(2))
    (intro conjI pres_connect pres_basic_shape par list.pred_inject(1))

lemma pres_L5_topol:
  assumes par: "\<And>s x. \<pi> (s\<lparr>parent := x\<rparr>) = \<pi> s"
  shows "pres \<pi> L5_topol"
  unfolding L5_topol_def
  by (rule pres_seq_e_all, unfold list.pred_inject(2))
    (intro conjI pres_connect pres_basic_shape par list.pred_inject(1))

lemma pres_L2_geom_defaults:
  assumes "\<And>s x. \<pi> (s\<lparr>L := x\<rparr>) = \<pi> s" and "\<And>s x. \<pi> (s\<lparr>diam := x\<rparr>) = \<pi> s"
  shows "list_all (pres \<pi>) L2_geom_defaults"
  unfolding L2_geom_defaults_def list.pred_inject(2)
  by (intro conjI pres_upd_sec pres_dend_upd assms list.pred_inject(1))

lemma pres_L5_geom_defaults:
  assumes "\<And>s x. \<pi> (s\<lparr>L := x\<rparr>) = \<pi> s" and "\<And>s x. \<pi> (s\<lparr>diam := x\<rparr>) = \<pi> s"
  shows "list_all (pres \<pi>) L5_geom_defaults"
  unfolding L5_geom_defaults_def list.pred_inject(2)
  by (intro conjI pres_upd_sec pres_dend_upd assms list.pred_inject(1))

lemma pres_L2_geom:
  assumes "\<And>s x. \<pi> (s\<lparr>L := x\<rparr>) = \<pi> s" and "\<And>s x. \<pi> (s\<lparr>diam := x\<rparr>) = \<pi> s"
    and "\<And>s p. \<pi> (set_props p s) = \<pi> s"
  shows "pres \<pi> (L2_geom P)"
  unfolding L2_geom_def
  by (rule pres_seq_e_all)
    (simp add: pres_L2_geom_defaults assms(1,2) pres_set_dend_props assms(3))

lemma pres_L5_geom:
  assumes "\<And>s x. \<pi> (s\<lparr>L := x\<rparr>) = \<pi> s" and "\<And>s x. \<pi> (s\<lparr>diam := x\<rparr>) = \<pi> s"
    and "\<And>s p. \<pi> (set_props p s) = \<pi> s"
  shows "pres \<pi> (L5_geom P)"
  unfolding L5_geom_def
  by (rule pres_seq_e_all)
    (simp add: pres_L5_geom_defaults assms(1,2) pres_set_dend_props assms(3))

lemma pres_L2_biophys_soma:
  assumes "\<And>s x. \<pi> (s\<lparr>inserted := x\<rparr>) = \<pi> s" and "\<And>s x. \<pi> (s\<lparr>rangevar := x\<rparr>) = \<pi> s"
  shows "pres \<pi> L2_biophys_soma"
  unfolding L2_biophys_soma_def
  by (rule pres_seq_e_all, unfold list.pred_inject(2))
    (intro conjI pres_insert_mech pres_set_var assms list.pred_inject(1))

lemma pres_L5_biophys_soma:
  assumes "\<And>s x. \<pi> (s\<lparr>inserted := x\<rparr>) = \<pi> s" and "\<And>s x. \<pi> (s\<lparr>rangevar := x\<rparr>) = \<pi> s"
  shows "pres \<pi> L5_biophys_soma"
  unfolding L5_biophys_soma_def
  by (rule pres_seq_e_all, unfold list.pred_inject(2))
    (intro conjI pres_insert_mech pres_set_var assms list.pred_inject(1))

lemma pres_L2_dend_biophys:
  assumes "\<And>s x. \<pi> (s\<lparr>inserted := x\<rparr>) = \<pi> s" and "\<And>s x. \<pi> (s\<lparr>rangevar := x\<rparr>) = \<pi> s"
    and "f \<in> set (L2_dend_biophys key)"
  shows "pres \<pi> f"
proof -
  have "list_all (pres \<pi>) (L2_dend_biophys key)"
    unfolding L2_dend_biophys_def list.pred_inject(2)
    by (intro conjI pres_insert_mech pres_set_var assms(1,2) list.pred_inject(1))
  with assms(3) show ?thesis by (simp add: list_all_iff)
qed

lemma pres_L2_biophys_dends:
  assumes "\<And>s x. \<pi> (s\<lparr>inserted := x\<rparr>) = \<pi> s" and "\<And>s x. \<pi> (s\<lparr>rangevar := x\<rparr>) = \<pi> s"
  shows "pres \<pi> L2_biophys_dends"
proof (rule presI)
  fix c c'
  assume "L2_biophys_dends c = Inr c'"
  then have a: "seq_e (concat (map L2_dend_biophys (map fst (dends c)))) c = Inr c'"
    by (simp add: L2_biophys_dends_def)
  have "pres \<pi> (seq_e (concat (map L2_dend_biophys (map fst (dends c)))))"
    by (rule pres_seq_e) (auto intro: pres_L2_dend_biophys assms)
  from presD [OF this a] show "view \<pi> c' = view \<pi> c" .
qed

lemma pres_L5_biophys_dends:
  assumes "\<And>s x. \<pi> (s\<lparr>inserted := x\<rparr>) = \<pi> s" and "\<And>s x. \<pi> (s\<lparr>rangevar := x\<rparr>) = \<pi> s"
    and "\<And>s x. \<pi> (s\<lparr>gbar_ar := x\<rparr>) = \<pi> s"
  shows "pres \<pi> (L5_biophys_dends distance)"
proof (rule presI)
  fix c c' :: cell
  let ?ops = "concat (map L5_dend_biophys (map fst (dends c)))
              @ map (set_gbar_ar distance) (map fst (dends c))"
  assume "L5_biophys_dends distance c = Inr c'"
  then have a: "seq_e ?ops c = Inr c'"
    by (simp add: L5_biophys_dends_def)
  have "pres \<pi> (seq_e ?ops)"
    by (rule pres_seq_e) (auto intro: pres_L5_dend_biophys pres_set_gbar_ar assms)
  from presD [OF this a] show "view \<pi> c' = view \<pi> c" .
qed

lemma L5_biophys_dends_split:
  assumes r: "L5_biophys_dends distance c = Inr c'"
  shows "\<exists>c1. seq_e (concat (map L5_dend_biophys (map fst (dends c)))) c = Inr c1
           \<and> seq_e (map (set_gbar_ar distance) (map fst (dends c))) c1 = Inr c'"
proof -
  from r have "bind_e (seq_e (concat (map L5_dend_biophys (map fst (dends c)))) c)
      (seq_e (map (set_gbar_ar distance) (map fst (dends c)))) = Inr c'"
    unfolding L5_biophys_dends_def seq_e_append .
  then show ?thesis unfolding bind_e_eq_Inr .
qed

lemma mem_keys: "(key, s) \<in> set al \<Longrightarrow> key \<in> set (map fst al)"
  by force

lemma L5_biophys_dends_gbar_ar:
  assumes r: "L5_biophys_dends distance c = Inr c'" and d: "distinct (map fst (dends c))"
    and k: "(key, s') \<in> set (dends c')"
  shows "gbar_ar s' = map (\<lambda>x. gbar_ar_at (distance key x)) (seg_x (nseg s'))"
proof -
  let ?ks = "map fst (dends c)"
  from L5_biophys_dends_split [OF r] obtain c1 where
    a: "seq_e (concat (map L5_dend_biophys ?ks)) c = Inr c1"
    and b: "seq_e (map (set_gbar_ar distance) ?ks) c1 = Inr c'"
    by blast
  have "pres (\<lambda>_. ()) (L5_biophys_dends distance)"
    by (rule pres_L5_biophys_dends) simp_all
  from presD [OF this r] have k2: "map fst (dends c') = ?ks" by (rule view_keys)
  from mem_keys [OF k] k2 have key: "key \<in> set ?ks" by simp
  from d k2 have "distinct (map fst (dends c'))" by simp
  with k have m: "map_of (dends c') key = Some s'" by simp
  let ?G = "\<lambda>k s. s\<lparr>gbar_ar := map (\<lambda>x. gbar_ar_at (distance k x)) (seg_x (nseg s))\<rparr>"
  have e: "map (set_gbar_ar distance) ?ks = map (\<lambda>k. upd_sec (Dend (id k)) (?G k)) ?ks"
    by (simp add: set_gbar_ar_def)
  have d': "distinct (map id ?ks)" using d by simp
  from b have "seq_e (map (\<lambda>k. upd_sec (Dend (id k)) (?G k)) ?ks) c1 = Inr c'"
    unfolding e .
  from seq_upd_map_of [OF this d' key] obtain s where
    "map_of (dends c') (id key) = Some (?G key s)"
    by blast
  with m have "s' = ?G key s" by simp
  then show ?thesis by simp
qed

section \<open>Statements that return\<close>

lemma runsI:
  "(\<And>c. shaped K LD p c \<Longrightarrow> \<exists>c'. op c = Inr c' \<and> shaped K LD p c') \<Longrightarrow> runs K LD p op"
  by (simp add: runs_def)

lemma runsD: "runs K LD p op \<Longrightarrow> shaped K LD p c \<Longrightarrow> \<exists>c'. op c = Inr c' \<and> shaped K LD p c'"
  by (simp add: runs_def)

lemma runs_seq_e: "list_all (runs K LD p) fs \<Longrightarrow> runs K LD p (seq_e fs)"
proof (induction fs)
  case Nil
  show ?case by (rule runsI) simp
next
  case (Cons f fs)
  then have f: "runs K LD p f" and fs: "runs K LD p (seq_e fs)" by simp_all
  show ?case
  proof (rule runsI)
    fix c assume "shaped K LD p c"
    from runsD [OF f this] obtain c1 where c1: "f c = Inr c1" "shaped K LD p c1" by blast
    from runsD [OF fs c1(2)] obtain c' where "seq_e fs c1 = Inr c'" "shaped K LD p c'" by blast
    with c1 show "\<exists>c'. seq_e (f # fs) c = Inr c' \<and> shaped K LD p c'" by simp
  qed
qed

lemma runs_upd_sec_Soma: "runs K LD p (upd_sec Soma f)"
  by (rule runsI) (simp add: shaped_def)

lemma map_of_key: "k \<in> set (map fst al) \<Longrightarrow> \<exists>v. map_of al k = Some v"
  by (induction al) auto

lemma runs_upd_sec_Dend:
  assumes "k \<in> set K"
  shows "runs K LD p (upd_sec (Dend k) f)"
proof (rule runsI)
  fix c assume s: "shaped K LD p c"
  with assms have "k \<in> set (map fst (dends c))" by (simp add: shaped_def)
  from map_of_key [OF this] obtain v where v: "map_of (dends c) k = Some v" by blast
  have "map fst (AList.update k (f v) (dends c)) = map fst (dends c)"
    using \<open>k \<in> set (map fst (dends c))\<close> by (simp add: AList.update_keys)
  with s v show "\<exists>c'. upd_sec (Dend k) f c = Inr c' \<and> shaped K LD p c'"
    by (simp add: getitem_def shaped_def)
qed

lemma runs_upd_sec:
  assumes "r = Soma \<or> (\<exists>k \<in> set K. r = Dend k)"
  shows "runs K LD p (upd_sec r f)"
  using assms by (auto intro: runs_upd_sec_Soma runs_upd_sec_Dend)

lemma runs_connect:
  assumes "child \<in> set K" and "par = Soma \<or> (\<exists>k \<in> set K. par = Dend k)"
  shows "runs K LD p (connect child par pe cs)"
proof (rule runsI)
  fix c assume s: "shaped K LD p c"
  with assms(1) have "child \<in> set (map fst (dends c))" by (simp add: shaped_def)
  from map_of_key [OF this] obtain v where v: "getitem (dends c) child = Inr v"
    by (auto simp: getitem_def)
  have "\<exists>w. (case par of Soma \<Rightarrow> Inr (soma c) | Dend k \<Rightarrow> getitem (dends c) k) = Inr w"
  proof (cases par)
    case Soma
    then show ?thesis by simp
  next
    case (Dend k)
    with assms(2) s have "k \<in> set (map fst (dends c))" by (simp add: shaped_def)
    from map_of_key [OF this] Dend show ?thesis by (auto simp: getitem_def)
  qed
  then obtain w where w: "(case par of Soma \<Rightarrow> Inr (soma c) | Dend k \<Rightarrow> getitem (dends c) k) = Inr w"
    by blast
  from runsD [OF runs_upd_sec_Dend [OF assms(1)] s]
  show "\<exists>c'. connect child par pe cs c = Inr c' \<and> shaped K LD p c'"
    unfolding connect_def v w bind_e_Inr .
qed

lemma runs_dend_upd:
  assumes "0 \<le> i" and "nat i < length LD" and "LD ! nat i \<in> set K"
  shows "runs K LD p (dend_upd i f)"
proof (rule runsI)
  fix c assume s: "shaped K LD p c"
  then have "list_dend c = LD" by (simp add: shaped_def)
  with assms(1,2) have ix: "py_index (list_dend c) i = Inr (LD ! nat i)"
    by (simp add: py_index_def)
  from runsD [OF runs_upd_sec_Dend [OF assms(3)] s]
  show "\<exists>c'. dend_upd i f c = Inr c' \<and> shaped K LD p c'"
    unfolding dend_upd_def ix bind_e_Inr .
qed

lemma runs_basic_shape:
  assumes "\<And>i. i \<in> set idx \<Longrightarrow> 0 \<le> i \<and> nat i < length LD"
  shows "runs K LD p (basic_shape idx)"
  unfolding basic_shape_def
proof (rule runs_seq_e)
  show "list_all (runs K LD p)
          (map (\<lambda>i (c::cell). bind_e (py_index (list_dend c) i) (\<lambda>_. Inr c)) idx)"
    unfolding list_all_iff
  proof
    fix f :: "cell \<Rightarrow> error + cell"
    assume "f \<in> set (map (\<lambda>i c. bind_e (py_index (list_dend c) i) (\<lambda>_. Inr c)) idx)"
    then obtain i where i: "i \<in> set idx"
      and f: "f = (\<lambda>c. bind_e (py_index (list_dend c) i) (\<lambda>_. Inr c))"
      by auto
    from assms [OF i] show "runs K LD p f"
      unfolding f by (auto intro!: runsI simp: shaped_def py_index_def)
  qed
qed

lemma runs_insert_mech:
  assumes "r = Soma \<or> (\<exists>k \<in> set K. r = Dend k)"
  shows "runs K LD p (insert_mech r m)"
  unfolding insert_mech_def by (rule runs_upd_sec [OF assms])

lemma runs_set_var:
  assumes "r = Soma \<or> (\<exists>k \<in> set K. r = Dend k)" and "key \<in> dom p"
  shows "runs K LD p (set_var r v key)"
proof (rule runsI)
  fix c assume s: "shaped K LD p c"
  with assms(2) obtain x where x: "lookup (p_all c) key = Inr x"
    by (auto simp: shaped_def lookup_def)
  from runsD [OF runs_upd_sec [OF assms(1)] s]
  show "\<exists>c'. set_var r v key c = Inr c' \<and> shaped K LD p c'"
    unfolding set_var_def x bind_e_Inr .
qed

lemma runs_set_gbar_ar:
  assumes "k \<in> set K"
  shows "runs K LD p (set_gbar_ar dst k)"
  unfolding set_gbar_ar_def by (rule runs_upd_sec_Dend [OF assms])

lemma runs_set_dend_props:
  assumes "set (map fst P) \<subseteq> set K"
  shows "runs K LD p (set_dend_props P)"
  unfolding set_dend_props_def
proof (rule runs_seq_e)
  show "list_all (runs K LD p) (map (\<lambda>(key, p). upd_sec (Dend key) (set_props p)) P)"
    unfolding list_all_iff using assms by (auto intro!: runs_upd_sec_Dend)
qed

section \<open>Dendrites, topology and projection factors\<close>

lemma lookup_dom: "k \<in> dom p \<Longrightarrow> lookup p k = Inr (the (p k))"
  by (auto simp: lookup_def)

lemma get_dend_props_keys:
  assumes "get_dend_props c = Inr P"
  shows "map fst P = (if name c = ''L5Pyr'' then L5_keys else L2_keys)"
  using assms unfolding get_dend_props_def bind_e_eq_Inr Let_def
  by (auto simp: L5_keys_def L2_keys_def bind_e_eq_Inr split: if_splits)

lemma fold_update_fresh:
  "distinct (map fst P) \<Longrightarrow> set (map fst P) \<inter> set (map fst acc) = {} \<Longrightarrow>
   fold (\<lambda>(key, _) d. AList.update key (F key) d) P acc = acc @ map (\<lambda>(key, _). (key, F key)) P"
proof (induction P arbitrary: acc)
  case Nil
  then show ?case by simp
next
  case (Cons a P)
  obtain k v where a: "a = (k, v)" by (cases a)
  from Cons.prems have k: "k \<notin> set (map fst acc)" by (auto simp: a)
  then have u: "AList.update k (F k) acc = acc @ [(k, F k)]"
    by (induction acc) auto
  from Cons.prems have "distinct (map fst P)"
    and "set (map fst P) \<inter> set (map fst (acc @ [(k, F k)])) = {}"
    by (auto simp: a)
  from Cons.IH [OF this] show ?case by (simp add: a u)
qed

lemma create_dends_dends:
  assumes "dends c = []" and "distinct (map fst P)"
  shows "dends (create_dends c P) = map (\<lambda>k. (k, h_Section (name c @ ''_'' @ k))) (map fst P)"
proof -
  have "fold (\<lambda>(key, _) d. AList.update key (h_Section (name c @ ''_'' @ key)) d) P []
      = [] @ map (\<lambda>(key, _). (key, h_Section (name c @ ''_'' @ key))) P"
    by (rule fold_update_fresh) (simp_all add: assms(2))
  then show ?thesis
    by (simp add: create_dends_def assms(1) Let_def comp_def case_prod_beta)
qed

lemma create_dends_list_dend:
  assumes "dends c = []" and "distinct (map fst P)"
  shows "list_dend (create_dends c P) =
     filter (\<lambda>key. key \<in> set (map fst P))
       [''apical_trunk'', ''apical_oblique'', ''apical_1'', ''apical_2'',
        ''apical_tuft'', ''basal_1'', ''basal_2'', ''basal_3'']"
proof -
  let ?ds = "fold (\<lambda>(key, _) d. AList.update key (h_Section (name c @ ''_'' @ key)) d) P (dends c)"
  have ds: "?ds = map (\<lambda>k. (k, h_Section (name c @ ''_'' @ k))) (map fst P)"
    using create_dends_dends [OF assms] by (simp add: create_dends_def Let_def)
  have "\<And>key. (map_of ?ds key \<noteq> None) = (key \<in> set (map fst P))"
    unfolding ds by (simp add: map_of_eq_None_iff image_iff comp_def)
  then show ?thesis by (simp add: create_dends_def Let_def)
qed

lemma create_dends_frame:
  "name (create_dends c P) = name c" "p_all (create_dends c P) = p_all c"
  "soma (create_dends c P) = soma c" "synapses (create_dends c P) = synapses c"
  by (simp_all add: create_dends_def Let_def)

lemma L2_topol_result:
  assumes "dends c = map (\<lambda>k. (k, S k)) L2_keys" and "list_dend c = L2_list_dend"
  shows "L2_topol c = Inr (c\<lparr>dends := map (\<lambda>(k, par). (k, (S k)\<lparr>parent := Some par\<rparr>))
     [(''apical_trunk'', Soma, 1, 0), (''apical_1'', Dend ''apical_trunk'', 1, 0),
      (''apical_tuft'', Dend ''apical_1'', 1, 0), (''apical_oblique'', Dend ''apical_trunk'', 1, 0),
      (''basal_1'', Soma, 0, 0), (''basal_2'', Dend ''basal_1'', 1, 0),
      (''basal_3'', Dend ''basal_1'', 1, 0)]\<rparr>)"
  by (simp add: L2_topol_def connect_def getitem_def basic_shape_def py_index_def assms
      L2_keys_def L2_list_dend_def)

lemma L5_topol_result:
  assumes "dends c = map (\<lambda>k. (k, S k)) L5_keys" and "list_dend c = L5_list_dend"
  shows "L5_topol c = Inr (c\<lparr>dends := map (\<lambda>(k, par). (k, (S k)\<lparr>parent := Some par\<rparr>))
     [(''apical_trunk'', Soma, 1, 0), (''apical_1'', Dend ''apical_trunk'', 1, 0),
      (''apical_tuft'', Dend ''apical_2'', 1, 0), (''apical_oblique'', Dend ''apical_trunk'', 1, 0),
      (''basal_1'', Soma, 0, 0), (''basal_2'', Dend ''basal_1'', 1, 0),
      (''basal_3'', Dend ''basal_1'', 1, 0), (''apical_2'', Dend ''apical_1'', 1, 0)]\<rparr>)"
  by (simp add: L5_topol_def connect_def getitem_def basic_shape_def py_index_def assms
      L5_keys_def L5_list_dend_def)

lemma view_dends:
  "view \<pi> c' = view \<pi> c \<Longrightarrow>
   map (\<lambda>(k, s). (k, \<pi> s)) (dends c') = map (\<lambda>(k, s). (k, \<pi> s)) (dends c)"
  by (simp add: view_def)

lemma view_soma: "view \<pi> c' = view \<pi> c \<Longrightarrow> \<pi> (soma c') = \<pi> (soma c)"
  by (simp add: view_def)

lemma get_sectnames_L2:
  assumes sh: "map (\<lambda>(k, s). (k, sec_name s, parent s)) (dends c) =
     [(''apical_trunk'', ''L2Pyr_apical_trunk'', Some (Soma, 1, 0)),
      (''apical_1'', ''L2Pyr_apical_1'', Some (Dend ''apical_trunk'', 1, 0)),
      (''apical_tuft'', ''L2Pyr_apical_tuft'', Some (Dend ''apical_1'', 1, 0)),
      (''apical_oblique'', ''L2Pyr_apical_oblique'', Some (Dend ''apical_trunk'', 1, 0)),
      (''basal_1'', ''L2Pyr_basal_1'', Some (Soma, 0, 0)),
      (''basal_2'', ''L2Pyr_basal_2'', Some (Dend ''basal_1'', 1, 0)),
      (''basal_3'', ''L2Pyr_basal_3'', Some (Dend ''basal_1'', 1, 0))]"
    and so: "sec_name (soma c) = ''L2Pyr_soma''"
  shows "get_sectnames c =
     [(''L2Pyr_soma'', 1), (''L2Pyr_apical_trunk'', 1), (''L2Pyr_apical_1'', 1),
      (''L2Pyr_apical_tuft'', 1), (''L2Pyr_apical_oblique'', 0), (''L2Pyr_basal_1'', - 1),
      (''L2Pyr_basal_2'', - (sqrt 2 / 2)), (''L2Pyr_basal_3'', - (sqrt 2 / 2))]"
proof -
  from sh obtain t1 t2 t3 t4 t5 t6 t7 where
    d: "dends c = [(''apical_trunk'', t1), (''apical_1'', t2), (''apical_tuft'', t3),
      (''apical_oblique'', t4), (''basal_1'', t5), (''basal_2'', t6), (''basal_3'', t7)]"
    and n: "sec_name t1 = ''L2Pyr_apical_trunk''" "sec_name t2 = ''L2Pyr_apical_1''"
      "sec_name t3 = ''L2Pyr_apical_tuft''" "sec_name t4 = ''L2Pyr_apical_oblique''"
      "sec_name t5 = ''L2Pyr_basal_1''" "sec_name t6 = ''L2Pyr_basal_2''"
      "sec_name t7 = ''L2Pyr_basal_3''"
    and p: "parent t1 = Some (Soma, 1, 0)" "parent t2 = Some (Dend ''apical_trunk'', 1, 0)"
      "parent t3 = Some (Dend ''apical_1'', 1, 0)" "parent t4 = Some (Dend ''apical_trunk'', 1, 0)"
      "parent t5 = Some (Soma, 0, 0)" "parent t6 = Some (Dend ''basal_1'', 1, 0)"
      "parent t7 = Some (Dend ''basal_1'', 1, 0)"
    by (auto simp: map_eq_Cons_conv)
  have w: "wholetree c = [soma c, t1, t2, t3, t4, t5, t6, t7]"
    by (simp add: wholetree_def d p)
  have d0: "fold (\<lambda>sect d. AList.update (sec_name sect) (1::real) d) (wholetree c) [] =
     [(''L2Pyr_soma'', 1), (''L2Pyr_apical_trunk'', 1), (''L2Pyr_apical_1'', 1),
      (''L2Pyr_apical_tuft'', 1), (''L2Pyr_apical_oblique'', 1), (''L2Pyr_basal_1'', 1),
      (''L2Pyr_basal_2'', 1), (''L2Pyr_basal_3'', 1)]"
    by (simp add: w n so)
  show ?thesis
    unfolding get_sectnames_def d0 Let_def
    by (simp add: scale_key_def)
qed

lemma get_sectnames_L5:
  assumes sh: "map (\<lambda>(k, s). (k, sec_name s, parent s)) (dends c) =
     [(''apical_trunk'', ''L5Pyr_apical_trunk'', Some (Soma, 1, 0)),
      (''apical_1'', ''L5Pyr_apical_1'', Some (Dend ''apical_trunk'', 1, 0)),
      (''apical_tuft'', ''L5Pyr_apical_tuft'', Some (Dend ''apical_2'', 1, 0)),
      (''apical_oblique'', ''L5Pyr_apical_oblique'', Some (Dend ''apical_trunk'', 1, 0)),
      (''basal_1'', ''L5Pyr_basal_1'', Some (Soma, 0, 0)),
      (''basal_2'', ''L5Pyr_basal_2'', Some (Dend ''basal_1'', 1, 0)),
      (''basal_3'', ''L5Pyr_basal_3'', Some (Dend ''basal_1'', 1, 0)),
      (''apical_2'', ''L5Pyr_apical_2'', Some (Dend ''apical_1'', 1, 0))]"
    and so: "sec_name (soma c) = ''L5Pyr_soma''"
  shows "get_sectnames c =
     [(''L5Pyr_soma'', 1), (''L5Pyr_apical_trunk'', 1), (''L5Pyr_apical_1'', 1),
      (''L5Pyr_apical_tuft'', 1), (''L5Pyr_apical_oblique'', 0), (''L5Pyr_basal_1'', - 1),
      (''L5Pyr_basal_2'', - (sqrt 2 / 2)), (''L5Pyr_basal_3'', - (sqrt 2 / 2)),
      (''L5Pyr_apical_2'', 1)]"
proof -
  from sh obtain t1 t2 t3 t4 t5 t6 t7 t8 where
    d: "dends c = [(''apical_trunk'', t1), (''apical_1'', t2), (''apical_tuft'', t3),
      (''apical_oblique'', t4), (''basal_1'', t5), (''basal_2'', t6), (''basal_3'', t7),
      (''apical_2'', t8)]"
    and n: "sec_name t1 = ''L5Pyr_apical_trunk''" "sec_name t2 = ''L5Pyr_apical_1''"
      "sec_name t3 = ''L5Pyr_apical_tuft''" "sec_name t4 = ''L5Pyr_apical_oblique''"
      "sec_name t5 = ''L5Pyr_basal_1''" "sec_name t6 = ''L5Pyr_basal_2''"
      "sec_name t7 = ''L5Pyr_basal_3''" "sec_name t8 = ''L5Pyr_apical_2''"
    and p: "parent t1 = Some (Soma, 1, 0)" "parent t2 = Some (Dend ''apical_trunk'', 1, 0)"
      "parent t3 = Some (Dend ''apical_2'', 1, 0)" "parent t4 = Some (Dend ''apical_trunk'', 1, 0)"
      "parent t5 = Some (Soma, 0, 0)" "parent t6 = Some (Dend ''basal_1'', 1, 0)"
      "parent t7 = Some (Dend ''basal_1'', 1, 0)" "parent t8 = Some (Dend ''apical_1'', 1, 0)"
    by (auto simp: map_eq_Cons_conv)
  have w: "wholetree c = [soma c, t1, t2, t3, t4, t5, t6, t7, t8]"
    by (simp add: wholetree_def d p)
  have d0: "fold (\<lambda>sect d. AList.update (sec_name sect) (1::real) d) (wholetree c) [] =
     [(''L5Pyr_soma'', 1), (''L5Pyr_apical_trunk'', 1), (''L5Pyr_apical_1'', 1),
      (''L5Pyr_apical_tuft'', 1), (''L5Pyr_apical_oblique'', 1), (''L5Pyr_basal_1'', 1),
      (''L5Pyr_basal_2'', 1), (''L5Pyr_basal_3'', 1), (''L5Pyr_apical_2'', 1)]"
    by (simp add: w n so)
  show ?thesis
    unfolding get_sectnames_def d0 Let_def
    by (simp add: scale_key_def)
qed

lemma add_synapse_Soma:
  "add_synapse key Soma r p_syn c =
     (case p_syn r of None \<Rightarrow> Inl (KeyError r)
      | Some p \<Rightarrow> Inr (c\<lparr>synapses := (synapses c)(key \<mapsto> syn_create Soma 0.5 p)\<rparr>))"
  by (simp add: add_synapse_def lookup_def split: option.splits)

lemma add_synapse_Dend:
  "add_synapse key (Dend k) r p_syn c =
     (case map_of (dends c) k of None \<Rightarrow> Inl (KeyError k)
      | Some _ \<Rightarrow>
        (case p_syn r of None \<Rightarrow> Inl (KeyError r)
         | Some p \<Rightarrow> Inr (c\<lparr>synapses := (synapses c)(key \<mapsto> syn_create (Dend k) 0.5 p)\<rparr>)))"
  by (simp add: add_synapse_def lookup_def getitem_def split: option.splits)

lemma synapse_create_result:
  assumes r: "synapse_create p_syn c = Inr c'"
  shows "\<exists>ampa nmda gabaa gabab.
     p_syn ''ampa'' = Some ampa \<and> p_syn ''nmda'' = Some nmda \<and> p_syn ''gabaa'' = Some gabaa
     \<and> p_syn ''gabab'' = Some gabab
     \<and> c' = c\<lparr>synapses :=
         (if name c = ''L5Pyr''
          then (synapses c)
            (''soma_gabaa'' \<mapsto> syn_create Soma 0.5 gabaa,
             ''soma_gabab'' \<mapsto> syn_create Soma 0.5 gabab,
             ''apicaloblique_ampa'' \<mapsto> syn_create (Dend ''apical_oblique'') 0.5 ampa,
             ''apicaloblique_nmda'' \<mapsto> syn_create (Dend ''apical_oblique'') 0.5 nmda,
             ''basal2_ampa'' \<mapsto> syn_create (Dend ''basal_2'') 0.5 ampa,
             ''basal2_nmda'' \<mapsto> syn_create (Dend ''basal_2'') 0.5 nmda,
             ''basal3_ampa'' \<mapsto> syn_create (Dend ''basal_3'') 0.5 ampa,
             ''basal3_nmda'' \<mapsto> syn_create (Dend ''basal_3'') 0.5 nmda,
             ''apicaltuft_ampa'' \<mapsto> syn_create (Dend ''apical_tuft'') 0.5 ampa,
             ''apicaltuft_nmda'' \<mapsto> syn_create (Dend ''apical_tuft'') 0.5 nmda,
             ''apicaltuft_gabaa'' \<mapsto> syn_create (Dend ''apical_tuft'') 0.5 gabaa)
          else (synapses c)
            (''soma_gabaa'' \<mapsto> syn_create Soma 0.5 gabaa,
             ''soma_gabab'' \<mapsto> syn_create Soma 0.5 gabab,
             ''apicaloblique_ampa'' \<mapsto> syn_create (Dend ''apical_oblique'') 0.5 ampa,
             ''apicaloblique_nmda'' \<mapsto> syn_create (Dend ''apical_oblique'') 0.5 nmda,
             ''basal2_ampa'' \<mapsto> syn_create (Dend ''basal_2'') 0.5 ampa,
             ''basal2_nmda'' \<mapsto> syn_create (Dend ''basal_2'') 0.5 nmda,
             ''basal3_ampa'' \<mapsto> syn_create (Dend ''basal_3'') 0.5 ampa,
             ''basal3_nmda'' \<mapsto> syn_create (Dend ''basal_3'') 0.5 nmda,
             ''apicaltuft_ampa'' \<mapsto> syn_create (Dend ''apical_tuft'') 0.5 ampa,
             ''apicaltuft_nmda'' \<mapsto> syn_create (Dend ''apical_tuft'') 0.5 nmda))\<rparr>"
  using r
  by (cases "name c = ''L5Pyr''")
    (auto simp: synapse_create_def add_synapse_Soma add_synapse_Dend
      split: option.splits sum.splits)

section \<open>The stages of a constructor that returns\<close>

lemma L2_get_soma_props_name: "L2_get_soma_props ps p = Inr sp \<Longrightarrow> sp_name sp = ''L2Pyr''"
  by (auto simp: L2_get_soma_props_def bind_e_eq_Inr)

lemma L5_get_soma_props_name: "L5_get_soma_props ps p = Inr sp \<Longrightarrow> sp_name sp = ''L5Pyr''"
  by (auto simp: L5_get_soma_props_def bind_e_eq_Inr)

lemma Pyr_init_fields:
  "name ((Pyr_init g sp p)\<lparr>celltype := ct\<rparr>) = sp_name sp"
  "dends ((Pyr_init g sp p)\<lparr>celltype := ct\<rparr>) = []"
  "synapses ((Pyr_init g sp p)\<lparr>celltype := ct\<rparr>) = Map.empty"
  "p_all ((Pyr_init g sp p)\<lparr>celltype := ct\<rparr>) = p"
  "sec_name (soma ((Pyr_init g sp p)\<lparr>celltype := ct\<rparr>)) = sp_name sp @ ''_soma''"
  "parent (soma ((Pyr_init g sp p)\<lparr>celltype := ct\<rparr>)) = None"
  "name (Pyr_init g sp p) = sp_name sp"
  "p_all (Pyr_init g sp p) = p"
  "dends (Pyr_init g sp p) = []"
  "synapses (Pyr_init g sp p) = Map.empty"
  "sec_name (soma (Pyr_init g sp p)) = sp_name sp @ ''_soma''"
  "parent (soma (Pyr_init g sp p)) = None"
  by (simp_all add: Pyr_init_def Cell_init_def h_Section_def)

lemma seq_e_single: "seq_e [f] c = f c"
  by (cases "f c") simp_all

lemma seq_e_snoc:
  "seq_e (fs @ [f]) c = Inr c' \<longleftrightarrow> (\<exists>c1. seq_e fs c = Inr c1 \<and> f c1 = Inr c')"
  by (simp add: seq_e_append bind_e_eq_Inr seq_e_single del: seq_e.simps(2))

lemma dend_entry_L: "dend_entry p nm part = Inr e \<Longrightarrow> p_L e \<in> ran p"
  by (auto simp: dend_entry_def bind_e_eq_Inr lookup_def ran_def split: option.splits)

lemma get_dend_props_L:
  assumes "get_dend_props c = Inr P" and "(key, pr) \<in> set P"
  shows "p_L pr \<in> ran (p_all c)"
  using assms unfolding get_dend_props_def bind_e_eq_Inr Let_def
  by (auto simp: bind_e_eq_Inr split: if_splits dest: dend_entry_L)

lemma L2Pyr_init_stages:
  assumes r: "L2Pyr_init g ps p = Inr c"
  obtains P p_syn c0 c1 cm c2 c3 c4 where
    "map fst P = L2_keys"
    and "dends c0 = map (\<lambda>k. (k, h_Section (''L2Pyr'' @ ''_'' @ k))) L2_keys"
    and "list_dend c0 = L2_list_dend" and "name c0 = ''L2Pyr''" and "synapses c0 = Map.empty"
    and "sec_name (soma c0) = ''L2Pyr_soma''" and "parent (soma c0) = None" and "p_all c0 = p"
    and "L2_topol c0 = Inr c1" and "seq_e L2_geom_defaults c1 = Inr cm"
    and "set_dend_props P cm = Inr c2" and "L2_biophys_soma c2 = Inr c3"
    and "L2_biophys_dends c3 = Inr c4"
    and "synapse_create p_syn (c4\<lparr>yscale := get_sectnames c4\<rparr>) = Inr c"
    and "\<forall>pr \<in> snd ` set P. p_L pr \<in> ran p"
proof -
  from r obtain sp P p_syn c1 c2 c3 c4 where
    sp: "L2_get_soma_props ps p = Inr sp"
    and P: "get_dend_props (Pyr_init g sp p) = Inr P"
    and t: "L2_topol (create_dends ((Pyr_init g sp p)\<lparr>celltype := ''L2_pyramidal''\<rparr>) P) = Inr c1"
    and ge: "L2_geom P c1 = Inr c2" and bs: "L2_biophys_soma c2 = Inr c3"
    and bd: "L2_biophys_dends c3 = Inr c4"
    and sy: "synapse_create p_syn (c4\<lparr>yscale := get_sectnames c4\<rparr>) = Inr c"
    unfolding L2Pyr_init_def Let_def bind_e_eq_Inr seq_e_eq_Inr set_yscale_def seq_e.simps(1)
    by blast
  let ?base = "(Pyr_init g sp p)\<lparr>celltype := ''L2_pyramidal''\<rparr>"
  let ?made = "create_dends ?base P"
  have nm: "sp_name sp = ''L2Pyr''" by (rule L2_get_soma_props_name [OF sp])
  have keys: "map fst P = L2_keys"
    using get_dend_props_keys [OF P] by (simp add: Pyr_init_fields nm)
  then have dist: "distinct (map fst P)" by (simp add: L2_keys_def)
  have d0: "dends ?made = map (\<lambda>k. (k, h_Section (''L2Pyr'' @ ''_'' @ k))) L2_keys"
    using create_dends_dends [of ?base P] dist by (simp add: Pyr_init_fields nm keys)
  have l0: "list_dend ?made = L2_list_dend"
    using create_dends_list_dend [of ?base P] dist
    by (simp add: Pyr_init_fields keys L2_keys_def L2_list_dend_def)
  have f0: "name ?made = ''L2Pyr''" "synapses ?made = Map.empty"
    "sec_name (soma ?made) = ''L2Pyr_soma''" "parent (soma ?made) = None" "p_all ?made = p"
    by (simp_all add: create_dends_frame Pyr_init_fields nm)
  from ge obtain cm where cm: "seq_e L2_geom_defaults c1 = Inr cm"
    and sd: "set_dend_props P cm = Inr c2"
    unfolding L2_geom_def seq_e_snoc by blast
  have pl: "\<forall>pr \<in> snd ` set P. p_L pr \<in> ran p"
    using get_dend_props_L [OF P] by (auto simp: Pyr_init_fields)
  from keys d0 l0 f0 t cm sd bs bd sy pl show thesis by (rule that)
qed

lemma L5Pyr_init_stages:
  assumes r: "L5Pyr_init distance g ps p = Inr c"
  obtains P p_syn c0 c1 cm c2 c3 c4 where
    "map fst P = L5_keys"
    and "dends c0 = map (\<lambda>k. (k, h_Section (''L5Pyr'' @ ''_'' @ k))) L5_keys"
    and "list_dend c0 = L5_list_dend" and "name c0 = ''L5Pyr''" and "synapses c0 = Map.empty"
    and "sec_name (soma c0) = ''L5Pyr_soma''" and "parent (soma c0) = None" and "p_all c0 = p"
    and "L5_topol c0 = Inr c1" and "seq_e L5_geom_defaults c1 = Inr cm"
    and "set_dend_props P cm = Inr c2" and "L5_biophys_soma c2 = Inr c3"
    and "L5_biophys_dends distance c3 = Inr c4"
    and "synapse_create p_syn (c4\<lparr>yscale := get_sectnames c4\<rparr>) = Inr c"
    and "\<forall>pr \<in> snd ` set P. p_L pr \<in> ran p"
proof -
  from r obtain sp P p_syn c1 c2 c3 c4 where
    sp: "L5_get_soma_props ps p = Inr sp"
    and P: "get_dend_props (Pyr_init g sp p) = Inr P"
    and t: "L5_topol (create_dends ((Pyr_init g sp p)\<lparr>celltype := ''L5Pyr''\<rparr>) P) = Inr c1"
    and ge: "L5_geom P c1 = Inr c2" and bs: "L5_biophys_soma c2 = Inr c3"
    and bd: "L5_biophys_dends distance c3 = Inr c4"
    and sy: "synapse_create p_syn (c4\<lparr>yscale := get_sectnames c4\<rparr>) = Inr c"
    unfolding L5Pyr_init_def Let_def bind_e_eq_Inr seq_e_eq_Inr set_yscale_def seq_e.simps(1)
    by blast
  let ?base = "(Pyr_init g sp p)\<lparr>celltype := ''L5Pyr''\<rparr>"
  let ?made = "create_dends ?base P"
  have nm: "sp_name sp = ''L5Pyr''" by (rule L5_get_soma_props_name [OF sp])
  have keys: "map fst P = L5_keys"
    using get_dend_props_keys [OF P] by (simp add: Pyr_init_fields nm)
  then have dist: "distinct (map fst P)" by (simp add: L5_keys_def)
  have d0: "dends ?made = map (\<lambda>k. (k, h_Section (''L5Pyr'' @ ''_'' @ k))) L5_keys"
    using create_dends_dends [of ?base P] dist by (simp add: Pyr_init_fields nm keys)
  have l0: "list_dend ?made = L5_list_dend"
    using create_dends_list_dend [of ?base P] dist
    by (simp add: Pyr_init_fields keys L5_keys_def L5_list_dend_def)
  have f0: "name ?made = ''L5Pyr''" "synapses ?made = Map.empty"
    "sec_name (soma ?made) = ''L5Pyr_soma''" "parent (soma ?made) = None" "p_all ?made = p"
    by (simp_all add: create_dends_frame Pyr_init_fields nm)
  from ge obtain cm where cm: "seq_e L5_geom_defaults c1 = Inr cm"
    and sd: "set_dend_props P cm = Inr c2"
    unfolding L5_geom_def seq_e_snoc by blast
  have pl: "\<forall>pr \<in> snd ` set P. p_L pr \<in> ran p"
    using get_dend_props_L [OF P] by (auto simp: Pyr_init_fields)
  from keys d0 l0 f0 t cm sd bs bd sy pl show thesis by (rule that)
qed

lemma synapse_create_keeps:
  assumes "synapse_create p_syn c = Inr c'"
  shows "dends c' = dends c" and "soma c' = soma c" and "yscale c' = yscale c"
    and "name c' = name c"
proof -
  from synapse_create_result [OF assms] obtain m where "c' = c\<lparr>synapses := m\<rparr>" by blast
  then show "dends c' = dends c" and "soma c' = soma c" and "yscale c' = yscale c"
    and "name c' = name c" by simp_all
qed

lemma L2_shape_after_topol:
  assumes d: "dends c0 = map (\<lambda>k. (k, h_Section (''L2Pyr'' @ ''_'' @ k))) L2_keys"
    and l: "list_dend c0 = L2_list_dend" and t: "L2_topol c0 = Inr c1"
  shows "map (\<lambda>(k, s). (k, sec_name s, parent s)) (dends c1) =
     [(''apical_trunk'', ''L2Pyr_apical_trunk'', Some (Soma, 1, 0)),
      (''apical_1'', ''L2Pyr_apical_1'', Some (Dend ''apical_trunk'', 1, 0)),
      (''apical_tuft'', ''L2Pyr_apical_tuft'', Some (Dend ''apical_1'', 1, 0)),
      (''apical_oblique'', ''L2Pyr_apical_oblique'', Some (Dend ''apical_trunk'', 1, 0)),
      (''basal_1'', ''L2Pyr_basal_1'', Some (Soma, 0, 0)),
      (''basal_2'', ''L2Pyr_basal_2'', Some (Dend ''basal_1'', 1, 0)),
      (''basal_3'', ''L2Pyr_basal_3'', Some (Dend ''basal_1'', 1, 0))]"
    and "soma c1 = soma c0"
proof -
  from L2_topol_result [OF d l] t
  have c1: "c1 = c0\<lparr>dends := map (\<lambda>(k, par). (k, (h_Section (''L2Pyr'' @ ''_'' @ k))\<lparr>parent := Some par\<rparr>))
     [(''apical_trunk'', Soma, 1, 0), (''apical_1'', Dend ''apical_trunk'', 1, 0),
      (''apical_tuft'', Dend ''apical_1'', 1, 0), (''apical_oblique'', Dend ''apical_trunk'', 1, 0),
      (''basal_1'', Soma, 0, 0), (''basal_2'', Dend ''basal_1'', 1, 0),
      (''basal_3'', Dend ''basal_1'', 1, 0)]\<rparr>"
    by simp
  show "map (\<lambda>(k, s). (k, sec_name s, parent s)) (dends c1) =
     [(''apical_trunk'', ''L2Pyr_apical_trunk'', Some (Soma, 1, 0)),
      (''apical_1'', ''L2Pyr_apical_1'', Some (Dend ''apical_trunk'', 1, 0)),
      (''apical_tuft'', ''L2Pyr_apical_tuft'', Some (Dend ''apical_1'', 1, 0)),
      (''apical_oblique'', ''L2Pyr_apical_oblique'', Some (Dend ''apical_trunk'', 1, 0)),
      (''basal_1'', ''L2Pyr_basal_1'', Some (Soma, 0, 0)),
      (''basal_2'', ''L2Pyr_basal_2'', Some (Dend ''basal_1'', 1, 0)),
      (''basal_3'', ''L2Pyr_basal_3'', Some (Dend ''basal_1'', 1, 0))]"
    unfolding c1 by (simp add: h_Section_def)
  show "soma c1 = soma c0" unfolding c1 by simp
qed

lemma L5_shape_after_topol:
  assumes d: "dends c0 = map (\<lambda>k. (k, h_Section (''L5Pyr'' @ ''_'' @ k))) L5_keys"
    and l: "list_dend c0 = L5_list_dend" and t: "L5_topol c0 = Inr c1"
  shows "map (\<lambda>(k, s). (k, sec_name s, parent s)) (dends c1) =
     [(''apical_trunk'', ''L5Pyr_apical_trunk'', Some (Soma, 1, 0)),
      (''apical_1'', ''L5Pyr_apical_1'', Some (Dend ''apical_trunk'', 1, 0)),
      (''apical_tuft'', ''L5Pyr_apical_tuft'', Some (Dend ''apical_2'', 1, 0)),
      (''apical_oblique'', ''L5Pyr_apical_oblique'', Some (Dend ''apical_trunk'', 1, 0)),
      (''basal_1'', ''L5Pyr_basal_1'', Some (Soma, 0, 0)),
      (''basal_2'', ''L5Pyr_basal_2'', Some (Dend ''basal_1'', 1, 0)),
      (''basal_3'', ''L5Pyr_basal_3'', Some (Dend ''basal_1'', 1, 0)),
      (''apical_2'', ''L5Pyr_apical_2'', Some (Dend ''apical_1'', 1, 0))]"
    and "soma c1 = soma c0"
proof -
  from L5_topol_result [OF d l] t
  have c1: "c1 = c0\<lparr>dends := map (\<lambda>(k, par). (k, (h_Section (''L5Pyr'' @ ''_'' @ k))\<lparr>parent := Some par\<rparr>))
     [(''apical_trunk'', Soma, 1, 0), (''apical_1'', Dend ''apical_trunk'', 1, 0),
      (''apical_tuft'', Dend ''apical_2'', 1, 0), (''apical_oblique'', Dend ''apical_trunk'', 1, 0),
      (''basal_1'', Soma, 0, 0), (''basal_2'', Dend ''basal_1'', 1, 0),
      (''basal_3'', Dend ''basal_1'', 1, 0), (''apical_2'', Dend ''apical_1'', 1, 0)]\<rparr>"
    by simp
  show "map (\<lambda>(k, s). (k, sec_name s, parent s)) (dends c1) =
     [(''apical_trunk'', ''L5Pyr_apical_trunk'', Some (Soma, 1, 0)),
      (''apical_1'', ''L5Pyr_apical_1'', Some (Dend ''apical_trunk'', 1, 0)),
      (''apical_tuft'', ''L5Pyr_apical_tuft'', Some (Dend ''apical_2'', 1, 0)),
      (''apical_oblique'', ''L5Pyr_apical_oblique'', Some (Dend ''apical_trunk'', 1, 0)),
      (''basal_1'', ''L5Pyr_basal_1'', Some (Soma, 0, 0)),
      (''basal_2'', ''L5Pyr_basal_2'', Some (Dend ''basal_1'', 1, 0)),
      (''basal_3'', ''L5Pyr_basal_3'', Some (Dend ''basal_1'', 1, 0)),
      (''apical_2'', ''L5Pyr_apical_2'', Some (Dend ''apical_1'', 1, 0))]"
    unfolding c1 by (simp add: h_Section_def)
  show "soma c1 = soma c0" unfolding c1 by simp
qed

text \<open>What the stages after the topology keep of every section: its name and its parent.\<close>

lemma L2_later_stages_keep:
  assumes cg: "seq_e L2_geom_defaults c1 = Inr cg" and sd: "set_dend_props P cg = Inr c2"
    and bs: "L2_biophys_soma c2 = Inr c3" and bd: "L2_biophys_dends c3 = Inr c4"
  shows "view (\<lambda>s. (sec_name s, parent s)) c4 = view (\<lambda>s. (sec_name s, parent s)) c1"
proof -
  let ?v = "view (\<lambda>s. (sec_name s, parent s))"
  have "?v cg = ?v c1"
    by (rule presD [OF pres_seq_e_all cg]) (rule pres_L2_geom_defaults; simp)
  moreover have "?v c2 = ?v cg"
    by (rule presD [OF pres_set_dend_props sd]) (simp add: set_props_def Let_def)
  moreover have "?v c3 = ?v c2"
    by (rule presD [OF pres_L2_biophys_soma bs]) simp_all
  moreover have "?v c4 = ?v c3"
    by (rule presD [OF pres_L2_biophys_dends bd]) simp_all
  ultimately show ?thesis by simp
qed

lemma L5_later_stages_keep:
  assumes cg: "seq_e L5_geom_defaults c1 = Inr cg" and sd: "set_dend_props P cg = Inr c2"
    and bs: "L5_biophys_soma c2 = Inr c3" and bd: "L5_biophys_dends distance c3 = Inr c4"
  shows "view (\<lambda>s. (sec_name s, parent s)) c4 = view (\<lambda>s. (sec_name s, parent s)) c1"
proof -
  let ?v = "view (\<lambda>s. (sec_name s, parent s))"
  have "?v cg = ?v c1"
    by (rule presD [OF pres_seq_e_all cg]) (rule pres_L5_geom_defaults; simp)
  moreover have "?v c2 = ?v cg"
    by (rule presD [OF pres_set_dend_props sd]) (simp add: set_props_def Let_def)
  moreover have "?v c3 = ?v c2"
    by (rule presD [OF pres_L5_biophys_soma bs]) simp_all
  moreover have "?v c4 = ?v c3"
    by (rule presD [OF pres_L5_biophys_dends bd]) simp_all
  ultimately show ?thesis by simp
qed

section \<open>What a built cell looks like\<close>

lemma topol_frame:
  "L2_topol c0 = Inr c1 \<Longrightarrow> frame c1 = frame c0"
  "L5_topol c0 = Inr c1 \<Longrightarrow> frame c1 = frame c0"
proof -
  have a: "pres (\<lambda>_. ()) L2_topol" by (rule pres_L2_topol) simp
  have b: "pres (\<lambda>_. ()) L5_topol" by (rule pres_L5_topol) simp
  show "L2_topol c0 = Inr c1 \<Longrightarrow> frame c1 = frame c0"
    by (rule view_frame [OF presD [OF a]])
  show "L5_topol c0 = Inr c1 \<Longrightarrow> frame c1 = frame c0"
    by (rule view_frame [OF presD [OF b]])
qed

lemma in_tree_L2:
  assumes sh: "map (\<lambda>(k, s). (k, sec_name s, parent s)) (dends c) =
     [(''apical_trunk'', n1, Some (Soma, 1, 0)),
      (''apical_1'', n2, Some (Dend ''apical_trunk'', 1, 0)),
      (''apical_tuft'', n3, Some (Dend ''apical_1'', 1, 0)),
      (''apical_oblique'', n4, Some (Dend ''apical_trunk'', 1, 0)),
      (''basal_1'', n5, Some (Soma, 0, 0)),
      (''basal_2'', n6, Some (Dend ''basal_1'', 1, 0)),
      (''basal_3'', n7, Some (Dend ''basal_1'', 1, 0))]"
  shows "list_all (\<lambda>(k, s). in_tree (length (dends c)) (dends c) (Dend k)) (dends c)"
proof -
  from sh obtain t1 t2 t3 t4 t5 t6 t7 where
    d: "dends c = [(''apical_trunk'', t1), (''apical_1'', t2), (''apical_tuft'', t3),
      (''apical_oblique'', t4), (''basal_1'', t5), (''basal_2'', t6), (''basal_3'', t7)]"
    and p: "parent t1 = Some (Soma, 1, 0)" "parent t2 = Some (Dend ''apical_trunk'', 1, 0)"
      "parent t3 = Some (Dend ''apical_1'', 1, 0)" "parent t4 = Some (Dend ''apical_trunk'', 1, 0)"
      "parent t5 = Some (Soma, 0, 0)" "parent t6 = Some (Dend ''basal_1'', 1, 0)"
      "parent t7 = Some (Dend ''basal_1'', 1, 0)"
    by (auto simp: map_eq_Cons_conv)
  show ?thesis by (simp add: d p)
qed

lemma in_tree_L5:
  assumes sh: "map (\<lambda>(k, s). (k, sec_name s, parent s)) (dends c) =
     [(''apical_trunk'', n1, Some (Soma, 1, 0)),
      (''apical_1'', n2, Some (Dend ''apical_trunk'', 1, 0)),
      (''apical_tuft'', n3, Some (Dend ''apical_2'', 1, 0)),
      (''apical_oblique'', n4, Some (Dend ''apical_trunk'', 1, 0)),
      (''basal_1'', n5, Some (Soma, 0, 0)),
      (''basal_2'', n6, Some (Dend ''basal_1'', 1, 0)),
      (''basal_3'', n7, Some (Dend ''basal_1'', 1, 0)),
      (''apical_2'', n8, Some (Dend ''apical_1'', 1, 0))]"
  shows "list_all (\<lambda>(k, s). in_tree (length (dends c)) (dends c) (Dend k)) (dends c)"
proof -
  from sh obtain t1 t2 t3 t4 t5 t6 t7 t8 where
    d: "dends c = [(''apical_trunk'', t1), (''apical_1'', t2), (''apical_tuft'', t3),
      (''apical_oblique'', t4), (''basal_1'', t5), (''basal_2'', t6), (''basal_3'', t7),
      (''apical_2'', t8)]"
    and p: "parent t1 = Some (Soma, 1, 0)" "parent t2 = Some (Dend ''apical_trunk'', 1, 0)"
      "parent t3 = Some (Dend ''apical_2'', 1, 0)" "parent t4 = Some (Dend ''apical_trunk'', 1, 0)"
      "parent t5 = Some (Soma, 0, 0)" "parent t6 = Some (Dend ''basal_1'', 1, 0)"
      "parent t7 = Some (Dend ''basal_1'', 1, 0)" "parent t8 = Some (Dend ''apical_1'', 1, 0)"
    by (auto simp: map_eq_Cons_conv)
  show ?thesis by (simp add: d p)
qed

lemma L2Pyr_built:
  assumes r: "L2Pyr_init g ps p = Inr c"
  shows "map (\<lambda>(k, s). (k, sec_name s, parent s)) (dends c) =
     [(''apical_trunk'', ''L2Pyr_apical_trunk'', Some (Soma, 1, 0)),
      (''apical_1'', ''L2Pyr_apical_1'', Some (Dend ''apical_trunk'', 1, 0)),
      (''apical_tuft'', ''L2Pyr_apical_tuft'', Some (Dend ''apical_1'', 1, 0)),
      (''apical_oblique'', ''L2Pyr_apical_oblique'', Some (Dend ''apical_trunk'', 1, 0)),
      (''basal_1'', ''L2Pyr_basal_1'', Some (Soma, 0, 0)),
      (''basal_2'', ''L2Pyr_basal_2'', Some (Dend ''basal_1'', 1, 0)),
      (''basal_3'', ''L2Pyr_basal_3'', Some (Dend ''basal_1'', 1, 0))]"
    and "sec_name (soma c) = ''L2Pyr_soma''" and "parent (soma c) = None"
    and "yscale c =
     [(''L2Pyr_soma'', 1), (''L2Pyr_apical_trunk'', 1), (''L2Pyr_apical_1'', 1),
      (''L2Pyr_apical_tuft'', 1), (''L2Pyr_apical_oblique'', 0), (''L2Pyr_basal_1'', - 1),
      (''L2Pyr_basal_2'', - (sqrt 2 / 2)), (''L2Pyr_basal_3'', - (sqrt 2 / 2))]"
    and "\<exists>ampa nmda gabaa gabab. synapses c =
       [''soma_gabaa'' \<mapsto> syn_create Soma 0.5 gabaa,
        ''soma_gabab'' \<mapsto> syn_create Soma 0.5 gabab,
        ''apicaloblique_ampa'' \<mapsto> syn_create (Dend ''apical_oblique'') 0.5 ampa,
        ''apicaloblique_nmda'' \<mapsto> syn_create (Dend ''apical_oblique'') 0.5 nmda,
        ''basal2_ampa'' \<mapsto> syn_create (Dend ''basal_2'') 0.5 ampa,
        ''basal2_nmda'' \<mapsto> syn_create (Dend ''basal_2'') 0.5 nmda,
        ''basal3_ampa'' \<mapsto> syn_create (Dend ''basal_3'') 0.5 ampa,
        ''basal3_nmda'' \<mapsto> syn_create (Dend ''basal_3'') 0.5 nmda,
        ''apicaltuft_ampa'' \<mapsto> syn_create (Dend ''apical_tuft'') 0.5 ampa,
        ''apicaltuft_nmda'' \<mapsto> syn_create (Dend ''apical_tuft'') 0.5 nmda]"
proof -
  from r obtain P p_syn c0 c1 cg c2 c3 c4 where
    d0: "dends c0 = map (\<lambda>k. (k, h_Section (''L2Pyr'' @ ''_'' @ k))) L2_keys"
    and l0: "list_dend c0 = L2_list_dend" and n0: "name c0 = ''L2Pyr''"
    and s0: "synapses c0 = Map.empty"
    and so0: "sec_name (soma c0) = ''L2Pyr_soma''" "parent (soma c0) = None"
    and t: "L2_topol c0 = Inr c1" and cg: "seq_e L2_geom_defaults c1 = Inr cg"
    and sd: "set_dend_props P cg = Inr c2" and bs: "L2_biophys_soma c2 = Inr c3"
    and bd: "L2_biophys_dends c3 = Inr c4"
    and sy: "synapse_create p_syn (c4\<lparr>yscale := get_sectnames c4\<rparr>) = Inr c"
    by (rule L2Pyr_init_stages)
  note sh1 = L2_shape_after_topol [OF d0 l0 t]
  note v = L2_later_stages_keep [OF cg sd bs bd]
  from view_dends [OF v] sh1(1)
  have sh4: "map (\<lambda>(k, s). (k, sec_name s, parent s)) (dends c4) =
     [(''apical_trunk'', ''L2Pyr_apical_trunk'', Some (Soma, 1, 0)),
      (''apical_1'', ''L2Pyr_apical_1'', Some (Dend ''apical_trunk'', 1, 0)),
      (''apical_tuft'', ''L2Pyr_apical_tuft'', Some (Dend ''apical_1'', 1, 0)),
      (''apical_oblique'', ''L2Pyr_apical_oblique'', Some (Dend ''apical_trunk'', 1, 0)),
      (''basal_1'', ''L2Pyr_basal_1'', Some (Soma, 0, 0)),
      (''basal_2'', ''L2Pyr_basal_2'', Some (Dend ''basal_1'', 1, 0)),
      (''basal_3'', ''L2Pyr_basal_3'', Some (Dend ''basal_1'', 1, 0))]"
    by simp
  from view_soma [OF v] sh1(2) so0
  have so4: "sec_name (soma c4) = ''L2Pyr_soma''" "parent (soma c4) = None" by simp_all
  have fr: "frame c4 = frame c0"
    using view_frame [OF v] topol_frame(1) [OF t] by simp
  note k = synapse_create_keeps [OF sy]
  from k(1) sh4 show "map (\<lambda>(k, s). (k, sec_name s, parent s)) (dends c) =
     [(''apical_trunk'', ''L2Pyr_apical_trunk'', Some (Soma, 1, 0)),
      (''apical_1'', ''L2Pyr_apical_1'', Some (Dend ''apical_trunk'', 1, 0)),
      (''apical_tuft'', ''L2Pyr_apical_tuft'', Some (Dend ''apical_1'', 1, 0)),
      (''apical_oblique'', ''L2Pyr_apical_oblique'', Some (Dend ''apical_trunk'', 1, 0)),
      (''basal_1'', ''L2Pyr_basal_1'', Some (Soma, 0, 0)),
      (''basal_2'', ''L2Pyr_basal_2'', Some (Dend ''basal_1'', 1, 0)),
      (''basal_3'', ''L2Pyr_basal_3'', Some (Dend ''basal_1'', 1, 0))]"
    by simp
  from k(2) so4 show "sec_name (soma c) = ''L2Pyr_soma''" and "parent (soma c) = None"
    by simp_all
  from k(3) get_sectnames_L2 [OF sh4 so4(1)] show "yscale c =
     [(''L2Pyr_soma'', 1), (''L2Pyr_apical_trunk'', 1), (''L2Pyr_apical_1'', 1),
      (''L2Pyr_apical_tuft'', 1), (''L2Pyr_apical_oblique'', 0), (''L2Pyr_basal_1'', - 1),
      (''L2Pyr_basal_2'', - (sqrt 2 / 2)), (''L2Pyr_basal_3'', - (sqrt 2 / 2))]"
    by simp
  have n4: "name c4 = ''L2Pyr''" and s4: "synapses c4 = Map.empty"
    using frame_fields(1,4) [OF fr] n0 s0 by simp_all
  show "\<exists>ampa nmda gabaa gabab. synapses c =
       [''soma_gabaa'' \<mapsto> syn_create Soma 0.5 gabaa,
        ''soma_gabab'' \<mapsto> syn_create Soma 0.5 gabab,
        ''apicaloblique_ampa'' \<mapsto> syn_create (Dend ''apical_oblique'') 0.5 ampa,
        ''apicaloblique_nmda'' \<mapsto> syn_create (Dend ''apical_oblique'') 0.5 nmda,
        ''basal2_ampa'' \<mapsto> syn_create (Dend ''basal_2'') 0.5 ampa,
        ''basal2_nmda'' \<mapsto> syn_create (Dend ''basal_2'') 0.5 nmda,
        ''basal3_ampa'' \<mapsto> syn_create (Dend ''basal_3'') 0.5 ampa,
        ''basal3_nmda'' \<mapsto> syn_create (Dend ''basal_3'') 0.5 nmda,
        ''apicaltuft_ampa'' \<mapsto> syn_create (Dend ''apical_tuft'') 0.5 ampa,
        ''apicaltuft_nmda'' \<mapsto> syn_create (Dend ''apical_tuft'') 0.5 nmda]"
    apply (insert synapse_create_result [OF sy])
    apply (elim exE conjE)
    subgoal for ampa nmda gabaa gabab
      apply (rule exI [of _ ampa], rule exI [of _ nmda], rule exI [of _ gabaa],
          rule exI [of _ gabab])
      apply (simp add: n4 s4)
      done
    done
qed

lemma L5Pyr_built:
  assumes r: "L5Pyr_init distance g ps p = Inr c"
  shows "map (\<lambda>(k, s). (k, sec_name s, parent s)) (dends c) =
     [(''apical_trunk'', ''L5Pyr_apical_trunk'', Some (Soma, 1, 0)),
      (''apical_1'', ''L5Pyr_apical_1'', Some (Dend ''apical_trunk'', 1, 0)),
      (''apical_tuft'', ''L5Pyr_apical_tuft'', Some (Dend ''apical_2'', 1, 0)),
      (''apical_oblique'', ''L5Pyr_apical_oblique'', Some (Dend ''apical_trunk'', 1, 0)),
      (''basal_1'', ''L5Pyr_basal_1'', Some (Soma, 0, 0)),
      (''basal_2'', ''L5Pyr_basal_2'', Some (Dend ''basal_1'', 1, 0)),
      (''basal_3'', ''L5Pyr_basal_3'', Some (Dend ''basal_1'', 1, 0)),
      (''apical_2'', ''L5Pyr_apical_2'', Some (Dend ''apical_1'', 1, 0))]"
    and "sec_name (soma c) = ''L5Pyr_soma''" and "parent (soma c) = None"
    and "yscale c =
     [(''L5Pyr_soma'', 1), (''L5Pyr_apical_trunk'', 1), (''L5Pyr_apical_1'', 1),
      (''L5Pyr_apical_tuft'', 1), (''L5Pyr_apical_oblique'', 0), (''L5Pyr_basal_1'', - 1),
      (''L5Pyr_basal_2'', - (sqrt 2 / 2)), (''L5Pyr_basal_3'', - (sqrt 2 / 2)),
      (''L5Pyr_apical_2'', 1)]"
    and "\<exists>ampa nmda gabaa gabab. synapses c =
       [''soma_gabaa'' \<mapsto> syn_create Soma 0.5 gabaa,
        ''soma_gabab'' \<mapsto> syn_create Soma 0.5 gabab,
        ''apicaloblique_ampa'' \<mapsto> syn_create (Dend ''apical_oblique'') 0.5 ampa,
        ''apicaloblique_nmda'' \<mapsto> syn_create (Dend ''apical_oblique'') 0.5 nmda,
        ''basal2_ampa'' \<mapsto> syn_create (Dend ''basal_2'') 0.5 ampa,
        ''basal2_nmda'' \<mapsto> syn_create (Dend ''basal_2'') 0.5 nmda,
        ''basal3_ampa'' \<mapsto> syn_create (Dend ''basal_3'') 0.5 ampa,
        ''basal3_nmda'' \<mapsto> syn_create (Dend ''basal_3'') 0.5 nmda,
        ''apicaltuft_ampa'' \<mapsto> syn_create (Dend ''apical_tuft'') 0.5 ampa,
        ''apicaltuft_nmda'' \<mapsto> syn_create (Dend ''apical_tuft'') 0.5 nmda,
        ''apicaltuft_gabaa'' \<mapsto> syn_create (Dend ''apical_tuft'') 0.5 gabaa]"
proof -
  from r obtain P p_syn c0 c1 cg c2 c3 c4 where
    d0: "dends c0 = map (\<lambda>k. (k, h_Section (''L5Pyr'' @ ''_'' @ k))) L5_keys"
    and l0: "list_dend c0 = L5_list_dend" and n0: "name c0 = ''L5Pyr''"
    and s0: "synapses c0 = Map.empty"
    and so0: "sec_name (soma c0) = ''L5Pyr_soma''" "parent (soma c0) = None"
    and t: "L5_topol c0 = Inr c1" and cg: "seq_e L5_geom_defaults c1 = Inr cg"
    and sd: "set_dend_props P cg = Inr c2" and bs: "L5_biophys_soma c2 = Inr c3"
    and bd: "L5_biophys_dends distance c3 = Inr c4"
    and sy: "synapse_create p_syn (c4\<lparr>yscale := get_sectnames c4\<rparr>) = Inr c"
    by (rule L5Pyr_init_stages)
  note sh1 = L5_shape_after_topol [OF d0 l0 t]
  note v = L5_later_stages_keep [OF cg sd bs bd]
  from view_dends [OF v] sh1(1)
  have sh4: "map (\<lambda>(k, s). (k, sec_name s, parent s)) (dends c4) =
     [(''apical_trunk'', ''L5Pyr_apical_trunk'', Some (Soma, 1, 0)),
      (''apical_1'', ''L5Pyr_apical_1'', Some (Dend ''apical_trunk'', 1, 0)),
      (''apical_tuft'', ''L5Pyr_apical_tuft'', Some (Dend ''apical_2'', 1, 0)),
      (''apical_oblique'', ''L5Pyr_apical_oblique'', Some (Dend ''apical_trunk'', 1, 0)),
      (''basal_1'', ''L5Pyr_basal_1'', Some (Soma, 0, 0)),
      (''basal_2'', ''L5Pyr_basal_2'', Some (Dend ''basal_1'', 1, 0)),
      (''basal_3'', ''L5Pyr_basal_3'', Some (Dend ''basal_1'', 1, 0)),
      (''apical_2'', ''L5Pyr_apical_2'', Some (Dend ''apical_1'', 1, 0))]"
    by simp
  from view_soma [OF v] sh1(2) so0
  have so4: "sec_name (soma c4) = ''L5Pyr_soma''" "parent (soma c4) = None" by simp_all
  have fr: "frame c4 = frame c0"
    using view_frame [OF v] topol_frame(2) [OF t] by simp
  note k = synapse_create_keeps [OF sy]
  from k(1) sh4 show "map (\<lambda>(k, s). (k, sec_name s, parent s)) (dends c) =
     [(''apical_trunk'', ''L5Pyr_apical_trunk'', Some (Soma, 1, 0)),
      (''apical_1'', ''L5Pyr_apical_1'', Some (Dend ''apical_trunk'', 1, 0)),
      (''apical_tuft'', ''L5Pyr_apical_tuft'', Some (Dend ''apical_2'', 1, 0)),
      (''apical_oblique'', ''L5Pyr_apical_oblique'', Some (Dend ''apical_trunk'', 1, 0)),
      (''basal_1'', ''L5Pyr_basal_1'', Some (Soma, 0, 0)),
      (''basal_2'', ''L5Pyr_basal_2'', Some (Dend ''basal_1'', 1, 0)),
      (''basal_3'', ''L5Pyr_basal_3'', Some (Dend ''basal_1'', 1, 0)),
      (''apical_2'', ''L5Pyr_apical_2'', Some (Dend ''apical_1'', 1, 0))]"
    by simp
  from k(2) so4 show "sec_name (soma c) = ''L5Pyr_soma''" and "parent (soma c) = None"
    by simp_all
  from k(3) get_sectnames_L5 [OF sh4 so4(1)] show "yscale c =
     [(''L5Pyr_soma'', 1), (''L5Pyr_apical_trunk'', 1), (''L5Pyr_apical_1'', 1),
      (''L5Pyr_apical_tuft'', 1), (''L5Pyr_apical_oblique'', 0), (''L5Pyr_basal_1'', - 1),
      (''L5Pyr_basal_2'', - (sqrt 2 / 2)), (''L5Pyr_basal_3'', - (sqrt 2 / 2)),
      (''L5Pyr_apical_2'', 1)]"
    by simp
  have n4: "name c4 = ''L5Pyr''" and s4: "synapses c4 = Map.empty"
    using frame_fields(1,4) [OF fr] n0 s0 by simp_all
  show "\<exists>ampa nmda gabaa gabab. synapses c =
       [''soma_gabaa'' \<mapsto> syn_create Soma 0.5 gabaa,
        ''soma_gabab'' \<mapsto> syn_create Soma 0.5 gabab,
        ''apicaloblique_ampa'' \<mapsto> syn_create (Dend ''apical_oblique'') 0.5 ampa,
        ''apicaloblique_nmda'' \<mapsto> syn_create (Dend ''apical_oblique'') 0.5 nmda,
        ''basal2_ampa'' \<mapsto> syn_create (Dend ''basal_2'') 0.5 ampa,
        ''basal2_nmda'' \<mapsto> syn_create (Dend ''basal_2'') 0.5 nmda,
        ''basal3_ampa'' \<mapsto> syn_create (Dend ''basal_3'') 0.5 ampa,
        ''basal3_nmda'' \<mapsto> syn_create (Dend ''basal_3'') 0.5 nmda,
        ''apicaltuft_ampa'' \<mapsto> syn_create (Dend ''apical_tuft'') 0.5 ampa,
        ''apicaltuft_nmda'' \<mapsto> syn_create (Dend ''apical_tuft'') 0.5 nmda,
        ''apicaltuft_gabaa'' \<mapsto> syn_create (Dend ''apical_tuft'') 0.5 gabaa]"
    apply (insert synapse_create_result [OF sy])
    apply (elim exE conjE)
    subgoal for ampa nmda gabaa gabab
      apply (rule exI [of _ ampa], rule exI [of _ nmda], rule exI [of _ gabaa],
          rule exI [of _ gabab])
      apply (simp add: n4 s4)
      done
    done
qed

lemma set_props_nseg:
  "L (set_props p s) = p_L p"
  "nseg (set_props p s) =
     (if 100 < p_L p
      then (if \<lfloor>p_L p / 50\<rfloor> mod 2 = 0 then \<lfloor>p_L p / 50\<rfloor> + 1 else \<lfloor>p_L p / 50\<rfloor>)
      else nseg s)"
  by (simp_all add: set_props_def Let_def py_int_def)

lemma view_map_of:
  assumes "view \<pi> c' = view \<pi> c"
  shows "map_option \<pi> (map_of (dends c') k) = map_option \<pi> (map_of (dends c) k)"
proof -
  have "map_of (map (\<lambda>(k, s). (k, \<pi> s)) al) k = map_option \<pi> (map_of al k)" for al
    by (induction al) auto
  with view_dends [OF assms] show ?thesis by metis
qed

lemma mem_dends_key:
  assumes "(key, s) \<in> set (dends c)" and "map fst (dends c) = K" and "distinct K"
  shows "key \<in> set K" and "map_of (dends c) key = Some s"
proof -
  from mem_keys [OF assms(1)] assms(2) show "key \<in> set K" by simp
  from assms show "map_of (dends c) key = Some s" by simp
qed

lemma built_nseg:
  assumes keys: "map fst P = K" and dist: "distinct K"
    and d0: "dends c0 = map (\<lambda>k. (k, h_Section (nm @ ''_'' @ k))) K"
    and v1: "view nseg cg = view nseg c0"
    and sd: "set_dend_props P cg = Inr c2"
    and v4: "view (\<lambda>s. (L s, nseg s)) c4 = view (\<lambda>s. (L s, nseg s)) c2"
    and mem: "(key, s) \<in> set (dends c4)"
  shows "nseg s =
     (if 100 < L s
      then (if \<lfloor>L s / 50\<rfloor> mod 2 = 0 then \<lfloor>L s / 50\<rfloor> + 1 else \<lfloor>L s / 50\<rfloor>)
      else 1)"
    and "\<exists>pr. (key, pr) \<in> set P \<and> L s = p_L pr"
proof -
  have k0: "map fst (dends c0) = K" by (simp add: d0 comp_def)
  have kg: "map fst (dends cg) = K" using view_keys [OF v1] k0 by simp
  have "pres (\<lambda>_. ()) (set_dend_props P)" by (rule pres_set_dend_props) simp
  from view_keys [OF presD [OF this sd]] kg have k2: "map fst (dends c2) = K" by simp
  from view_keys [OF v4] k2 have k4: "map fst (dends c4) = K" by simp
  note m4 = mem_dends_key [OF mem k4 dist]
  from m4(1) keys obtain pr where pr: "(key, pr) \<in> set P" by force
  from keys dist have "distinct (map fst P)" by simp
  from set_dend_props_effect [OF sd this pr] obtain sg where
    sg: "map_of (dends cg) key = Some sg" and s2: "map_of (dends c2) key = Some (set_props pr sg)"
    by blast
  have "map_of (dends c0) key = Some (h_Section (nm @ ''_'' @ key))"
    using m4(1) by (simp add: d0 map_of_map_restrict)
  with view_map_of [OF v1, of key] sg have n1: "nseg sg = 1" by (simp add: h_Section_def)
  from view_map_of [OF v4, of key] m4(2) s2
  have e: "(L s, nseg s) = (L (set_props pr sg), nseg (set_props pr sg))" by simp
  then show "nseg s =
     (if 100 < L s
      then (if \<lfloor>L s / 50\<rfloor> mod 2 = 0 then \<lfloor>L s / 50\<rfloor> + 1 else \<lfloor>L s / 50\<rfloor>)
      else 1)"
    by (simp add: set_props_nseg n1)
  from e pr show "\<exists>pr. (key, pr) \<in> set P \<and> L s = p_L pr"
    by (auto simp: set_props_nseg)
qed

lemma L2Pyr_nseg:
  assumes r: "L2Pyr_init g ps p = Inr c" and mem: "(key, s) \<in> set (dends c)"
  shows "nseg s =
     (if 100 < L s
      then (if \<lfloor>L s / 50\<rfloor> mod 2 = 0 then \<lfloor>L s / 50\<rfloor> + 1 else \<lfloor>L s / 50\<rfloor>)
      else 1)"
    and "L s \<in> ran p"
proof -
  from r obtain P p_syn c0 c1 cg c2 c3 c4 where
    keys: "map fst P = L2_keys"
    and pl: "\<forall>pr \<in> snd ` set P. p_L pr \<in> ran p"
    and d0: "dends c0 = map (\<lambda>k. (k, h_Section (''L2Pyr'' @ ''_'' @ k))) L2_keys"
    and t: "L2_topol c0 = Inr c1" and cg: "seq_e L2_geom_defaults c1 = Inr cg"
    and sd: "set_dend_props P cg = Inr c2" and bs: "L2_biophys_soma c2 = Inr c3"
    and bd: "L2_biophys_dends c3 = Inr c4"
    and sy: "synapse_create p_syn (c4\<lparr>yscale := get_sectnames c4\<rparr>) = Inr c"
    by (rule L2Pyr_init_stages)
  have "view nseg c1 = view nseg c0"
    by (rule presD [OF pres_L2_topol t]) simp
  moreover have "view nseg cg = view nseg c1"
    by (rule presD [OF pres_seq_e_all cg]) (rule pres_L2_geom_defaults; simp)
  ultimately have v1: "view nseg cg = view nseg c0" by simp
  let ?v = "view (\<lambda>s. (L s, nseg s))"
  have "?v c3 = ?v c2" by (rule presD [OF pres_L2_biophys_soma bs]) simp_all
  moreover have "?v c4 = ?v c3" by (rule presD [OF pres_L2_biophys_dends bd]) simp_all
  ultimately have v4: "?v c4 = ?v c2" by simp
  from synapse_create_keeps(1) [OF sy] mem have m4: "(key, s) \<in> set (dends c4)" by simp
  have dist: "distinct L2_keys" by (simp add: L2_keys_def)
  note b = built_nseg [OF keys dist d0 v1 sd v4 m4]
  from b(1) show "nseg s =
     (if 100 < L s
      then (if \<lfloor>L s / 50\<rfloor> mod 2 = 0 then \<lfloor>L s / 50\<rfloor> + 1 else \<lfloor>L s / 50\<rfloor>)
      else 1)" .
  from b(2) pl show "L s \<in> ran p" by force
qed

lemma L5Pyr_nseg:
  assumes r: "L5Pyr_init distance g ps p = Inr c" and mem: "(key, s) \<in> set (dends c)"
  shows "nseg s =
     (if 100 < L s
      then (if \<lfloor>L s / 50\<rfloor> mod 2 = 0 then \<lfloor>L s / 50\<rfloor> + 1 else \<lfloor>L s / 50\<rfloor>)
      else 1)"
    and "L s \<in> ran p"
proof -
  from r obtain P p_syn c0 c1 cg c2 c3 c4 where
    keys: "map fst P = L5_keys"
    and pl: "\<forall>pr \<in> snd ` set P. p_L pr \<in> ran p"
    and d0: "dends c0 = map (\<lambda>k. (k, h_Section (''L5Pyr'' @ ''_'' @ k))) L5_keys"
    and t: "L5_topol c0 = Inr c1" and cg: "seq_e L5_geom_defaults c1 = Inr cg"
    and sd: "set_dend_props P cg = Inr c2" and bs: "L5_biophys_soma c2 = Inr c3"
    and bd: "L5_biophys_dends distance c3 = Inr c4"
    and sy: "synapse_create p_syn (c4\<lparr>yscale := get_sectnames c4\<rparr>) = Inr c"
    by (rule L5Pyr_init_stages)
  have "view nseg c1 = view nseg c0"
    by (rule presD [OF pres_L5_topol t]) simp
  moreover have "view nseg cg = view nseg c1"
    by (rule presD [OF pres_seq_e_all cg]) (rule pres_L5_geom_defaults; simp)
  ultimately have v1: "view nseg cg = view nseg c0" by simp
  let ?v = "view (\<lambda>s. (L s, nseg s))"
  have "?v c3 = ?v c2" by (rule presD [OF pres_L5_biophys_soma bs]) simp_all
  moreover have "?v c4 = ?v c3" by (rule presD [OF pres_L5_biophys_dends bd]) simp_all
  ultimately have v4: "?v c4 = ?v c2" by simp
  from synapse_create_keeps(1) [OF sy] mem have m4: "(key, s) \<in> set (dends c4)" by simp
  have dist: "distinct L5_keys" by (simp add: L5_keys_def)
  note b = built_nseg [OF keys dist d0 v1 sd v4 m4]
  from b(1) show "nseg s =
     (if 100 < L s
      then (if \<lfloor>L s / 50\<rfloor> mod 2 = 0 then \<lfloor>L s / 50\<rfloor> + 1 else \<lfloor>L s / 50\<rfloor>)
      else 1)" .
  from b(2) pl show "L s \<in> ran p" by force
qed

lemma L5Pyr_gbar_ar:
  assumes r: "L5Pyr_init distance g ps p = Inr c" and mem: "(key, s) \<in> set (dends c)"
  shows "gbar_ar s = map (\<lambda>x. gbar_ar_at (distance key x)) (seg_x (nseg s))"
proof -
  from r obtain P p_syn c0 c1 cg c2 c3 c4 where
    d0: "dends c0 = map (\<lambda>k. (k, h_Section (''L5Pyr'' @ ''_'' @ k))) L5_keys"
    and t: "L5_topol c0 = Inr c1" and cg: "seq_e L5_geom_defaults c1 = Inr cg"
    and sd: "set_dend_props P cg = Inr c2" and bs: "L5_biophys_soma c2 = Inr c3"
    and bd: "L5_biophys_dends distance c3 = Inr c4"
    and sy: "synapse_create p_syn (c4\<lparr>yscale := get_sectnames c4\<rparr>) = Inr c"
    by (rule L5Pyr_init_stages)
  let ?v = "view (\<lambda>_. ())"
  have "?v c1 = ?v c0" by (rule presD [OF pres_L5_topol t]) simp
  moreover have "?v cg = ?v c1"
    by (rule presD [OF pres_seq_e_all cg]) (rule pres_L5_geom_defaults; simp)
  moreover have "?v c2 = ?v cg" by (rule presD [OF pres_set_dend_props sd]) simp
  moreover have "?v c3 = ?v c2" by (rule presD [OF pres_L5_biophys_soma bs]) simp_all
  ultimately have "?v c3 = ?v c0" by simp
  from view_keys [OF this] have "map fst (dends c3) = L5_keys" by (simp add: d0 comp_def)
  then have dist: "distinct (map fst (dends c3))" by (simp add: L5_keys_def)
  from synapse_create_keeps(1) [OF sy] mem have m4: "(key, s) \<in> set (dends c4)" by simp
  from L5_biophys_dends_gbar_ar [OF bd dist m4] show ?thesis .
qed

section \<open>The constructors return on a complete parameter table\<close>

lemma runs_L2_topol: "runs L2_keys L2_list_dend p L2_topol"
  unfolding L2_topol_def
  by (rule runs_seq_e, unfold list.pred_inject(2),
      intro conjI runs_connect runs_basic_shape list.pred_inject(1))
    (auto simp: L2_keys_def L2_list_dend_def)

lemma runs_L2_geom:
  assumes "map fst P = L2_keys"
  shows "runs L2_keys L2_list_dend p (L2_geom P)"
proof -
  have "list_all (runs L2_keys L2_list_dend p) L2_geom_defaults"
    unfolding L2_geom_defaults_def list.pred_inject(2)
    by (intro conjI runs_upd_sec_Soma runs_dend_upd list.pred_inject(1))
      (simp_all add: L2_keys_def L2_list_dend_def)
  moreover have "runs L2_keys L2_list_dend p (set_dend_props P)"
    by (rule runs_set_dend_props) (simp add: assms)
  ultimately show ?thesis
    unfolding L2_geom_def by (intro runs_seq_e) simp
qed

lemma runs_L2_biophys_soma:
  assumes "set L2_param_names \<subseteq> dom p"
  shows "runs K LD p L2_biophys_soma"
  unfolding L2_biophys_soma_def
  by (rule runs_seq_e, unfold list.pred_inject(2),
      intro conjI runs_insert_mech runs_set_var list.pred_inject(1) disjI1 refl)
    (use assms in \<open>auto simp: L2_param_names_def\<close>)

lemma runs_L2_dend_biophys:
  assumes "set L2_param_names \<subseteq> dom p" and "key \<in> set K"
  shows "list_all (runs K LD p) (L2_dend_biophys key)"
proof -
  have r: "Dend key = Soma \<or> (\<exists>k\<in>set K. Dend key = Dend k)" using assms(2) by simp
  have d: "''L2Pyr_dend_gkbar_hh2'' \<in> dom p" "''L2Pyr_dend_gl_hh2'' \<in> dom p"
    "''L2Pyr_dend_gnabar_hh2'' \<in> dom p" "''L2Pyr_dend_el_hh2'' \<in> dom p"
    "''L2Pyr_dend_gbar_km'' \<in> dom p"
    using assms(1) by (auto simp: L2_param_names_def)
  show ?thesis
    unfolding L2_dend_biophys_def list.pred_inject(2)
    by (intro conjI runs_insert_mech runs_set_var list.pred_inject(1) r d)
qed

lemma runs_L2_biophys_dends:
  assumes "set L2_param_names \<subseteq> dom p"
  shows "runs K LD p L2_biophys_dends"
proof (rule runsI)
  fix c assume s: "shaped K LD p c"
  then have k: "map fst (dends c) = K" by (simp add: shaped_def)
  have "runs K LD p (seq_e (concat (map L2_dend_biophys K)))"
  proof (rule runs_seq_e, unfold list_all_iff, rule ballI)
    fix f assume "f \<in> set (concat (map L2_dend_biophys K))"
    then obtain key where "key \<in> set K" and f: "f \<in> set (L2_dend_biophys key)" by auto
    from runs_L2_dend_biophys [OF assms this(1)] f show "runs K LD p f"
      by (simp add: list_all_iff)
  qed
  from runsD [OF this s] show "\<exists>c'. L2_biophys_dends c = Inr c' \<and> shaped K LD p c'"
    by (simp add: L2_biophys_dends_def k)
qed

lemma runs_L5_topol: "runs L5_keys L5_list_dend p L5_topol"
  unfolding L5_topol_def
  by (rule runs_seq_e, unfold list.pred_inject(2),
      intro conjI runs_connect runs_basic_shape list.pred_inject(1))
    (auto simp: L5_keys_def L5_list_dend_def)

lemma runs_L5_geom:
  assumes "map fst P = L5_keys"
  shows "runs L5_keys L5_list_dend p (L5_geom P)"
proof -
  have "list_all (runs L5_keys L5_list_dend p) L5_geom_defaults"
    unfolding L5_geom_defaults_def list.pred_inject(2)
    by (intro conjI runs_upd_sec_Soma runs_dend_upd list.pred_inject(1))
      (simp_all add: L5_keys_def L5_list_dend_def)
  moreover have "runs L5_keys L5_list_dend p (set_dend_props P)"
    by (rule runs_set_dend_props) (simp add: assms)
  ultimately show ?thesis
    unfolding L5_geom_def by (intro runs_seq_e) simp
qed

lemma runs_L5_biophys_soma:
  assumes "set L5_param_names \<subseteq> dom p"
  shows "runs K LD p L5_biophys_soma"
  unfolding L5_biophys_soma_def
  by (rule runs_seq_e, unfold list.pred_inject(2),
      intro conjI runs_insert_mech runs_set_var list.pred_inject(1) disjI1 refl)
    (use assms in \<open>auto simp: L5_param_names_def\<close>)

lemma runs_L5_dend_biophys:
  assumes "set L5_param_names \<subseteq> dom p" and "key \<in> set K"
  shows "list_all (runs K LD p) (L5_dend_biophys key)"
proof -
  have r: "Dend key = Soma \<or> (\<exists>k\<in>set K. Dend key = Dend k)" using assms(2) by simp
  have d: "''L5Pyr_dend_gkbar_hh2'' \<in> dom p" "''L5Pyr_dend_gl_hh2'' \<in> dom p"
    "''L5Pyr_dend_gnabar_hh2'' \<in> dom p" "''L5Pyr_dend_el_hh2'' \<in> dom p"
    "''L5Pyr_dend_gbar_ca'' \<in> dom p" "''L5Pyr_dend_taur_cad'' \<in> dom p"
    "''L5Pyr_dend_gbar_kca'' \<in> dom p" "''L5Pyr_dend_gbar_km'' \<in> dom p"
    "''L5Pyr_dend_gbar_cat'' \<in> dom p"
    using assms(1) by (auto simp: L5_param_names_def)
  show ?thesis
    unfolding L5_dend_biophys_def list.pred_inject(2)
    by (intro conjI runs_insert_mech runs_set_var list.pred_inject(1) r d)
qed

lemma runs_L5_biophys_dends:
  assumes "set L5_param_names \<subseteq> dom p"
  shows "runs K LD p (L5_biophys_dends distance)"
proof (rule runsI)
  fix c assume s: "shaped K LD p c"
  then have k: "map fst (dends c) = K" by (simp add: shaped_def)
  have "runs K LD p (seq_e (concat (map L5_dend_biophys K) @ map (set_gbar_ar distance) K))"
  proof (rule runs_seq_e, unfold list_all_iff, rule ballI)
    fix f assume "f \<in> set (concat (map L5_dend_biophys K) @ map (set_gbar_ar distance) K)"
    then consider key where "key \<in> set K" and "f \<in> set (L5_dend_biophys key)"
      | key where "key \<in> set K" and "f = set_gbar_ar distance key"
      by auto
    then show "runs K LD p f"
    proof cases
      case 1
      from runs_L5_dend_biophys [OF assms 1(1)] 1(2) show ?thesis
        by (simp add: list_all_iff)
    next
      case 2
      then show ?thesis by (simp add: runs_set_gbar_ar)
    qed
  qed
  from runsD [OF this s] show "\<exists>c'. L5_biophys_dends distance c = Inr c' \<and> shaped K LD p c'"
    by (simp add: L5_biophys_dends_def k)
qed

lemma synapse_create_returns:
  assumes "map_of (dends c) ''apical_oblique'' \<noteq> None" and "map_of (dends c) ''basal_2'' \<noteq> None"
    and "map_of (dends c) ''basal_3'' \<noteq> None" and "map_of (dends c) ''apical_tuft'' \<noteq> None"
    and "p_syn ''ampa'' \<noteq> None" and "p_syn ''nmda'' \<noteq> None" and "p_syn ''gabaa'' \<noteq> None"
    and "p_syn ''gabab'' \<noteq> None"
  shows "\<exists>c'. synapse_create p_syn c = Inr c'"
  using assms
  by (cases "name c = ''L5Pyr''")
    (auto simp: synapse_create_def add_synapse_Soma add_synapse_Dend)

lemma get_syn_props_returns:
  assumes "\<And>k. k \<in> set [nm @ ''_ampa_e'', nm @ ''_ampa_tau1'', nm @ ''_ampa_tau2'',
      nm @ ''_nmda_e'', nm @ ''_nmda_tau1'', nm @ ''_nmda_tau2'',
      nm @ ''_gabaa_e'', nm @ ''_gabaa_tau1'', nm @ ''_gabaa_tau2'',
      nm @ ''_gabab_e'', nm @ ''_gabab_tau1'', nm @ ''_gabab_tau2''] \<Longrightarrow> k \<in> dom (p_all c)"
    and "name c = nm"
  shows "\<exists>p_syn. get_syn_props c = Inr p_syn \<and> p_syn ''ampa'' \<noteq> None \<and> p_syn ''nmda'' \<noteq> None
           \<and> p_syn ''gabaa'' \<noteq> None \<and> p_syn ''gabab'' \<noteq> None"
  using assms(1) unfolding get_syn_props_def syn_entry_def assms(2)
  by (simp add: lookup_dom)

lemma shaped_has_key:
  "shaped K LD p c \<Longrightarrow> k \<in> set K \<Longrightarrow> map_of (dends c) k \<noteq> None"
  using map_of_key [of k "dends c"] by (auto simp: shaped_def)

lemma L2Pyr_init_returns:
  assumes sub: "set L2_param_names \<subseteq> dom p"
  shows "\<exists>c. L2Pyr_init g ps p = Inr c"
proof -
  have F: "lookup p k = Inr (the (p k))" if "k \<in> set L2_param_names" for k
    using that sub by (auto intro: lookup_dom)
  obtain sp where sp: "L2_get_soma_props ps p = Inr sp"
    by (simp add: L2_get_soma_props_def F L2_param_names_def)
  have nm: "sp_name sp = ''L2Pyr''" by (rule L2_get_soma_props_name [OF sp])
  let ?base = "Pyr_init g sp p"
  obtain P where P: "get_dend_props ?base = Inr P"
    by (simp add: get_dend_props_def dend_entry_def Pyr_init_fields nm F L2_param_names_def)
  have "\<exists>p_syn. get_syn_props ?base = Inr p_syn \<and> p_syn ''ampa'' \<noteq> None
      \<and> p_syn ''nmda'' \<noteq> None \<and> p_syn ''gabaa'' \<noteq> None \<and> p_syn ''gabab'' \<noteq> None"
    by (rule get_syn_props_returns [where nm = "''L2Pyr''"])
      (use sub in \<open>auto simp: Pyr_init_fields nm L2_param_names_def\<close>)
  then obtain p_syn where ps: "get_syn_props ?base = Inr p_syn"
    and rec: "p_syn ''ampa'' \<noteq> None" "p_syn ''nmda'' \<noteq> None" "p_syn ''gabaa'' \<noteq> None"
      "p_syn ''gabab'' \<noteq> None"
    by blast
  let ?made = "create_dends (?base\<lparr>celltype := ''L2_pyramidal''\<rparr>) P"
  have keys: "map fst P = L2_keys"
    using get_dend_props_keys [OF P] by (simp add: Pyr_init_fields nm)
  then have dist: "distinct (map fst P)" by (simp add: L2_keys_def)
  have d0: "map fst (dends ?made) = L2_keys"
    using create_dends_dends [of "?base\<lparr>celltype := ''L2_pyramidal''\<rparr>" P] dist
    by (simp add: Pyr_init_fields keys comp_def)
  have l0: "list_dend ?made = L2_list_dend"
    using create_dends_list_dend [of "?base\<lparr>celltype := ''L2_pyramidal''\<rparr>" P] dist
    by (simp add: Pyr_init_fields keys L2_keys_def L2_list_dend_def)
  have sh0: "shaped L2_keys L2_list_dend p ?made"
    by (simp add: shaped_def d0 l0 create_dends_frame Pyr_init_fields)
  from runsD [OF runs_L2_topol sh0] obtain c1 where
    c1: "L2_topol ?made = Inr c1" "shaped L2_keys L2_list_dend p c1" by blast
  from runsD [OF runs_L2_geom [OF keys] c1(2)] obtain c2 where
    c2: "L2_geom P c1 = Inr c2" "shaped L2_keys L2_list_dend p c2" by blast
  from runsD [OF runs_L2_biophys_soma [OF sub] c2(2)] obtain c3 where
    c3: "L2_biophys_soma c2 = Inr c3" "shaped L2_keys L2_list_dend p c3" by blast
  from runsD [OF runs_L2_biophys_dends [OF sub] c3(2)] obtain c4 where
    c4: "L2_biophys_dends c3 = Inr c4" "shaped L2_keys L2_list_dend p c4" by blast
  have "\<exists>c. synapse_create p_syn (c4\<lparr>yscale := get_sectnames c4\<rparr>) = Inr c"
    by (rule synapse_create_returns)
      (simp_all add: rec shaped_has_key [OF c4(2)] L2_keys_def)
  then obtain c where c: "synapse_create p_syn (c4\<lparr>yscale := get_sectnames c4\<rparr>) = Inr c"
    by blast
  have "L2Pyr_init g ps p = Inr c"
    by (simp add: L2Pyr_init_def sp P ps Let_def c1(1) c2(1) c3(1) c4(1) set_yscale_def c)
  then show ?thesis by blast
qed

lemma L5Pyr_init_returns:
  assumes sub: "set L5_param_names \<subseteq> dom p"
  shows "\<exists>c. L5Pyr_init distance g ps p = Inr c"
proof -
  have F: "lookup p k = Inr (the (p k))" if "k \<in> set L5_param_names" for k
    using that sub by (auto intro: lookup_dom)
  obtain sp where sp: "L5_get_soma_props ps p = Inr sp"
    by (simp add: L5_get_soma_props_def F L5_param_names_def)
  have nm: "sp_name sp = ''L5Pyr''" by (rule L5_get_soma_props_name [OF sp])
  let ?base = "Pyr_init g sp p"
  obtain P where P: "get_dend_props ?base = Inr P"
    by (simp add: get_dend_props_def dend_entry_def Pyr_init_fields nm F L5_param_names_def)
  have "\<exists>p_syn. get_syn_props ?base = Inr p_syn \<and> p_syn ''ampa'' \<noteq> None
      \<and> p_syn ''nmda'' \<noteq> None \<and> p_syn ''gabaa'' \<noteq> None \<and> p_syn ''gabab'' \<noteq> None"
    by (rule get_syn_props_returns [where nm = "''L5Pyr''"])
      (use sub in \<open>auto simp: Pyr_init_fields nm L5_param_names_def\<close>)
  then obtain p_syn where ps: "get_syn_props ?base = Inr p_syn"
    and rec: "p_syn ''ampa'' \<noteq> None" "p_syn ''nmda'' \<noteq> None" "p_syn ''gabaa'' \<noteq> None"
      "p_syn ''gabab'' \<noteq> None"
    by blast
  let ?made = "create_dends (?base\<lparr>celltype := ''L5Pyr''\<rparr>) P"
  have keys: "map fst P = L5_keys"
    using get_dend_props_keys [OF P] by (simp add: Pyr_init_fields nm)
  then have dist: "distinct (map fst P)" by (simp add: L5_keys_def)
  have d0: "map fst (dends ?made) = L5_keys"
    using create_dends_dends [of "?base\<lparr>celltype := ''L5Pyr''\<rparr>" P] dist
    by (simp add: Pyr_init_fields keys comp_def)
  have l0: "list_dend ?made = L5_list_dend"
    using create_dends_list_dend [of "?base\<lparr>celltype := ''L5Pyr''\<rparr>" P] dist
    by (simp add: Pyr_init_fields keys L5_keys_def L5_list_dend_def)
  have sh0: "shaped L5_keys L5_list_dend p ?made"
    by (simp add: shaped_def d0 l0 create_dends_frame Pyr_init_fields)
  from runsD [OF runs_L5_topol sh0] obtain c1 where
    c1: "L5_topol ?made = Inr c1" "shaped L5_keys L5_list_dend p c1" by blast
  from runsD [OF runs_L5_geom [OF keys] c1(2)] obtain c2 where
    c2: "L5_geom P c1 = Inr c2" "shaped L5_keys L5_list_dend p c2" by blast
  from runsD [OF runs_L5_biophys_soma [OF sub] c2(2)] obtain c3 where
    c3: "L5_biophys_soma c2 = Inr c3" "shaped L5_keys L5_list_dend p c3" by blast
  from runsD [OF runs_L5_biophys_dends [OF sub, of _ _ distance] c3(2)] obtain c4 where
    c4: "L5_biophys_dends distance c3 = Inr c4" "shaped L5_keys L5_list_dend p c4" by blast
  have "\<exists>c. synapse_create p_syn (c4\<lparr>yscale := get_sectnames c4\<rparr>) = Inr c"
    by (rule synapse_create_returns)
      (simp_all add: rec shaped_has_key [OF c4(2)] L5_keys_def)
  then obtain c where c: "synapse_create p_syn (c4\<lparr>yscale := get_sectnames c4\<rparr>) = Inr c"
    by blast
  have "L5Pyr_init distance g ps p = Inr c"
    by (simp add: L5Pyr_init_def sp P ps Let_def c1(1) c2(1) c3(1) c4(1) set_yscale_def c)
  then show ?thesis by blast
qed

section \<open>Synapses\<close>

lemma const_table_dom: "set names \<subseteq> dom (const_table names v)"
  by (auto simp: const_table_def dom_map_of_conv_image_fst image_iff)

lemma const_table_ran: "x \<in> ran (const_table names v) \<Longrightarrow> x = v"
  by (auto simp: const_table_def ran_def dest!: map_of_SomeD)

lemma shape_member:
  "map (\<lambda>(k, s). (k, f s)) ds = (k0, a) # rest \<Longrightarrow> \<exists>s. (k0, s) \<in> set ds"
  by (auto simp: map_eq_Cons_conv)













section \<open>The tree of a built cell\<close>

lemma shape_parents:
  "map (\<lambda>(k, s). (k, parent s)) ds =
   map (\<lambda>(k, n, par). (k, par)) (map (\<lambda>(k, s). (k, sec_name s, parent s)) ds)"
  by (simp add: split_def)

lemma shape_names:
  "map (\<lambda>(k, s). sec_name s) ds =
   map (\<lambda>(k, n, par). n) (map (\<lambda>(k, s). (k, sec_name s, parent s)) ds)"
  by (simp add: split_def)

text \<open>
  Claim C7. A built cell has exactly seven dendrites for the layer-2 subtype and eight for the
  layer-5 subtype (the eighth is \<^verbatim>\<open>apical_2\<close>), besides the soma. The soma has no parent, and
  following the parents from any dendrite reaches the soma in at most as many steps as
  there are dendrites, so the tree has no cycle and the soma is its only root. The parents
  are: the apical trunk at end 1 of the soma; the apical sections one after the other, each
  at end 1 of the one before; the oblique branch at end 1 of the trunk; \<^verbatim>\<open>basal_1\<close> at end 0
  of the soma; \<^verbatim>\<open>basal_2\<close> and \<^verbatim>\<open>basal_3\<close> at end 1 of \<^verbatim>\<open>basal_1\<close>.
\<close>

theorem built_tree:
  "(L2Pyr_init g ps p = Inr c \<longrightarrow>
      map (\<lambda>(k, s). (k, parent s)) (dends c) =
        [(''apical_trunk'', Some (Soma, 1, 0)),
         (''apical_1'', Some (Dend ''apical_trunk'', 1, 0)),
         (''apical_tuft'', Some (Dend ''apical_1'', 1, 0)),
         (''apical_oblique'', Some (Dend ''apical_trunk'', 1, 0)),
         (''basal_1'', Some (Soma, 0, 0)),
         (''basal_2'', Some (Dend ''basal_1'', 1, 0)),
         (''basal_3'', Some (Dend ''basal_1'', 1, 0))]
      \<and> length (dends c) = 7 \<and> parent (soma c) = None
      \<and> list_all (\<lambda>(k, s). in_tree (length (dends c)) (dends c) (Dend k)) (dends c))
   \<and> (L5Pyr_init distance g' ps' p' = Inr c' \<longrightarrow>
      map (\<lambda>(k, s). (k, parent s)) (dends c') =
        [(''apical_trunk'', Some (Soma, 1, 0)),
         (''apical_1'', Some (Dend ''apical_trunk'', 1, 0)),
         (''apical_tuft'', Some (Dend ''apical_2'', 1, 0)),
         (''apical_oblique'', Some (Dend ''apical_trunk'', 1, 0)),
         (''basal_1'', Some (Soma, 0, 0)),
         (''basal_2'', Some (Dend ''basal_1'', 1, 0)),
         (''basal_3'', Some (Dend ''basal_1'', 1, 0)),
         (''apical_2'', Some (Dend ''apical_1'', 1, 0))]
      \<and> length (dends c') = 8 \<and> parent (soma c') = None
      \<and> list_all (\<lambda>(k, s). in_tree (length (dends c')) (dends c') (Dend k)) (dends c'))"
proof (intro conjI impI)
  assume r: "L2Pyr_init g ps p = Inr c"
  note b = L2Pyr_built [OF r]
  show "map (\<lambda>(k, s). (k, parent s)) (dends c) =
        [(''apical_trunk'', Some (Soma, 1, 0)),
         (''apical_1'', Some (Dend ''apical_trunk'', 1, 0)),
         (''apical_tuft'', Some (Dend ''apical_1'', 1, 0)),
         (''apical_oblique'', Some (Dend ''apical_trunk'', 1, 0)),
         (''basal_1'', Some (Soma, 0, 0)),
         (''basal_2'', Some (Dend ''basal_1'', 1, 0)),
         (''basal_3'', Some (Dend ''basal_1'', 1, 0))]"
    unfolding shape_parents b(1) by simp
  have "length (map (\<lambda>(k, s). (k, sec_name s, parent s)) (dends c)) = 7"
    unfolding b(1) by simp
  then show "length (dends c) = 7" by simp
  show "parent (soma c) = None" by (rule b(3))
  show "list_all (\<lambda>(k, s). in_tree (length (dends c)) (dends c) (Dend k)) (dends c)"
    by (rule in_tree_L2 [OF b(1)])
next
  assume r: "L5Pyr_init distance g' ps' p' = Inr c'"
  note b = L5Pyr_built [OF r]
  show "map (\<lambda>(k, s). (k, parent s)) (dends c') =
        [(''apical_trunk'', Some (Soma, 1, 0)),
         (''apical_1'', Some (Dend ''apical_trunk'', 1, 0)),
         (''apical_tuft'', Some (Dend ''apical_2'', 1, 0)),
         (''apical_oblique'', Some (Dend ''apical_trunk'', 1, 0)),
         (''basal_1'', Some (Soma, 0, 0)),
         (''basal_2'', Some (Dend ''basal_1'', 1, 0)),
         (''basal_3'', Some (Dend ''basal_1'', 1, 0)),
         (''apical_2'', Some (Dend ''apical_1'', 1, 0))]"
    unfolding shape_parents b(1) by simp
  have "length (map (\<lambda>(k, s). (k, sec_name s, parent s)) (dends c')) = 8"
    unfolding b(1) by simp
  then show "length (dends c') = 8" by simp
  show "parent (soma c') = None" by (rule b(3))
  show "list_all (\<lambda>(k, s). in_tree (length (dends c')) (dends c') (Dend k)) (dends c')"
    by (rule in_tree_L5 [OF b(1)])
qed

theorem built_tree_witness:
  "(\<exists>c. L2Pyr_init 0 [0, 0] (const_table L2_param_names 150) = Inr c
      \<and> map fst (dends c) = L2_keys \<and> parent (soma c) = None
      \<and> list_all (\<lambda>(k, s). in_tree (length (dends c)) (dends c) (Dend k)) (dends c))
   \<and> (\<exists>c'. L5Pyr_init ex_distance 0 [0, 0] (const_table L5_param_names 150) = Inr c'
      \<and> map fst (dends c') = L5_keys \<and> parent (soma c') = None
      \<and> list_all (\<lambda>(k, s). in_tree (length (dends c')) (dends c') (Dend k)) (dends c'))"
proof -
  obtain c where c: "L2Pyr_init 0 [0, 0] (const_table L2_param_names 150) = Inr c"
    using L2Pyr_init_returns [OF const_table_dom] by blast
  obtain c' where c': "L5Pyr_init ex_distance 0 [0, 0] (const_table L5_param_names 150) = Inr c'"
    using L5Pyr_init_returns [OF const_table_dom] by blast
  note t = built_tree [of 0 "[0, 0]" "const_table L2_param_names 150" c ex_distance 0 "[0, 0]"
      "const_table L5_param_names 150" c']
  have f: "map fst (map (\<lambda>(k, s). (k, parent s)) ds) = map fst ds" for ds :: "(string \<times> Section) list"
    by (simp add: split_def comp_def)
  from t c have "map fst (dends c) = L2_keys"
    using f [of "dends c"] by (simp add: L2_keys_def)
  moreover from t c' have "map fst (dends c') = L5_keys"
    using f [of "dends c'"] by (simp add: L5_keys_def)
  ultimately show ?thesis using t c c' by blast
qed

section \<open>Projection factors of a built cell\<close>

lemma L2_yscale_map:
  "map_of [(''L2Pyr_soma'', 1), (''L2Pyr_apical_trunk'', 1), (''L2Pyr_apical_1'', 1),
      (''L2Pyr_apical_tuft'', 1), (''L2Pyr_apical_oblique'', 0), (''L2Pyr_basal_1'', - 1),
      (''L2Pyr_basal_2'', - (sqrt 2 / 2)), (''L2Pyr_basal_3'', - (sqrt 2 / 2))] =
   [''L2Pyr_soma'' \<mapsto> 1, ''L2Pyr_apical_trunk'' \<mapsto> 1, ''L2Pyr_apical_1'' \<mapsto> 1,
    ''L2Pyr_apical_tuft'' \<mapsto> 1, ''L2Pyr_apical_oblique'' \<mapsto> 0, ''L2Pyr_basal_1'' \<mapsto> - 1,
    ''L2Pyr_basal_2'' \<mapsto> - (sqrt 2 / 2), ''L2Pyr_basal_3'' \<mapsto> - (sqrt 2 / 2 :: real)]"
  by (rule ext) simp

lemma L5_yscale_map:
  "map_of [(''L5Pyr_soma'', 1), (''L5Pyr_apical_trunk'', 1), (''L5Pyr_apical_1'', 1),
      (''L5Pyr_apical_tuft'', 1), (''L5Pyr_apical_oblique'', 0), (''L5Pyr_basal_1'', - 1),
      (''L5Pyr_basal_2'', - (sqrt 2 / 2)), (''L5Pyr_basal_3'', - (sqrt 2 / 2)),
      (''L5Pyr_apical_2'', 1)] =
   [''L5Pyr_soma'' \<mapsto> 1, ''L5Pyr_apical_trunk'' \<mapsto> 1, ''L5Pyr_apical_1'' \<mapsto> 1,
    ''L5Pyr_apical_2'' \<mapsto> 1, ''L5Pyr_apical_tuft'' \<mapsto> 1, ''L5Pyr_apical_oblique'' \<mapsto> 0,
    ''L5Pyr_basal_1'' \<mapsto> - 1, ''L5Pyr_basal_2'' \<mapsto> - (sqrt 2 / 2),
    ''L5Pyr_basal_3'' \<mapsto> - (sqrt 2 / 2 :: real)]"
  by (rule ext) simp

text \<open>
  Claim C8. The factors that \<^verbatim>\<open>get_sectnames\<close> gives to the sections of a built cell, stored
  in \<^verbatim>\<open>yscale\<close> under the names of the sections: \<open>- 1\<close> for \<^verbatim>\<open>basal_1\<close>, \<open>- (sqrt 2 / 2)\<close>
  for \<^verbatim>\<open>basal_2\<close> and \<^verbatim>\<open>basal_3\<close> (so every basal factor is negative, and these two have
  the magnitude \<open>cos (pi / 4)\<close>), exactly \<open>0\<close> for \<^verbatim>\<open>apical_oblique\<close>, and \<open>1\<close> for the
  soma and every other apical section. The dictionary is read as a map from names to
  factors: each name occurs once, and the names are those of the soma and of the dendrites
  of the cell.
\<close>

theorem axial_projection_factors:
  "(L2Pyr_init g ps p = Inr c \<longrightarrow>
      map_of (yscale c) =
        [''L2Pyr_soma'' \<mapsto> 1, ''L2Pyr_apical_trunk'' \<mapsto> 1, ''L2Pyr_apical_1'' \<mapsto> 1,
         ''L2Pyr_apical_tuft'' \<mapsto> 1, ''L2Pyr_apical_oblique'' \<mapsto> 0, ''L2Pyr_basal_1'' \<mapsto> - 1,
         ''L2Pyr_basal_2'' \<mapsto> - (sqrt 2 / 2), ''L2Pyr_basal_3'' \<mapsto> - (sqrt 2 / 2)]
      \<and> distinct (map fst (yscale c))
      \<and> set (map fst (yscale c)) =
          insert (sec_name (soma c)) (set (map (\<lambda>(k, s). sec_name s) (dends c))))
   \<and> (L5Pyr_init distance g' ps' p' = Inr c' \<longrightarrow>
      map_of (yscale c') =
        [''L5Pyr_soma'' \<mapsto> 1, ''L5Pyr_apical_trunk'' \<mapsto> 1, ''L5Pyr_apical_1'' \<mapsto> 1,
         ''L5Pyr_apical_2'' \<mapsto> 1, ''L5Pyr_apical_tuft'' \<mapsto> 1, ''L5Pyr_apical_oblique'' \<mapsto> 0,
         ''L5Pyr_basal_1'' \<mapsto> - 1, ''L5Pyr_basal_2'' \<mapsto> - (sqrt 2 / 2),
         ''L5Pyr_basal_3'' \<mapsto> - (sqrt 2 / 2)]
      \<and> distinct (map fst (yscale c'))
      \<and> set (map fst (yscale c')) =
          insert (sec_name (soma c')) (set (map (\<lambda>(k, s). sec_name s) (dends c'))))
   \<and> sqrt 2 / 2 = cos (pi / 4) \<and> - (sqrt 2 / 2) < 0"
proof (intro conjI impI)
  assume r: "L2Pyr_init g ps p = Inr c"
  note b = L2Pyr_built [OF r]
  show "map_of (yscale c) =
        [''L2Pyr_soma'' \<mapsto> 1, ''L2Pyr_apical_trunk'' \<mapsto> 1, ''L2Pyr_apical_1'' \<mapsto> 1,
         ''L2Pyr_apical_tuft'' \<mapsto> 1, ''L2Pyr_apical_oblique'' \<mapsto> 0, ''L2Pyr_basal_1'' \<mapsto> - 1,
         ''L2Pyr_basal_2'' \<mapsto> - (sqrt 2 / 2), ''L2Pyr_basal_3'' \<mapsto> - (sqrt 2 / 2)]"
    unfolding b(4) by (rule L2_yscale_map)
  show "distinct (map fst (yscale c))"
    unfolding b(4) by simp
  show "set (map fst (yscale c)) =
      insert (sec_name (soma c)) (set (map (\<lambda>(k, s). sec_name s) (dends c)))"
    unfolding shape_names b(1) b(2) b(4) by simp
next
  assume r: "L5Pyr_init distance g' ps' p' = Inr c'"
  note b = L5Pyr_built [OF r]
  show "map_of (yscale c') =
        [''L5Pyr_soma'' \<mapsto> 1, ''L5Pyr_apical_trunk'' \<mapsto> 1, ''L5Pyr_apical_1'' \<mapsto> 1,
         ''L5Pyr_apical_2'' \<mapsto> 1, ''L5Pyr_apical_tuft'' \<mapsto> 1, ''L5Pyr_apical_oblique'' \<mapsto> 0,
         ''L5Pyr_basal_1'' \<mapsto> - 1, ''L5Pyr_basal_2'' \<mapsto> - (sqrt 2 / 2),
         ''L5Pyr_basal_3'' \<mapsto> - (sqrt 2 / 2)]"
    unfolding b(4) by (rule L5_yscale_map)
  show "distinct (map fst (yscale c'))"
    unfolding b(4) by simp
  show "set (map fst (yscale c')) =
      insert (sec_name (soma c')) (set (map (\<lambda>(k, s). sec_name s) (dends c')))"
    unfolding shape_names b(1) b(2) b(4) by simp
next
  show "sqrt 2 / 2 = cos (pi / 4)" by (simp add: cos_45)
  show "- (sqrt 2 / 2) < 0" by simp
qed

theorem axial_projection_factors_witness:
  "(\<exists>c. L2Pyr_init 0 [0, 0] (const_table L2_param_names 150) = Inr c
      \<and> map_of (yscale c) ''L2Pyr_basal_1'' = Some (- 1)
      \<and> map_of (yscale c) ''L2Pyr_basal_2'' = Some (- (sqrt 2 / 2))
      \<and> map_of (yscale c) ''L2Pyr_apical_oblique'' = Some 0
      \<and> map_of (yscale c) ''L2Pyr_apical_tuft'' = Some 1)
   \<and> (\<exists>c'. L5Pyr_init ex_distance 0 [0, 0] (const_table L5_param_names 150) = Inr c'
      \<and> map_of (yscale c') ''L5Pyr_basal_3'' = Some (- (sqrt 2 / 2))
      \<and> map_of (yscale c') ''L5Pyr_apical_2'' = Some 1)"
proof -
  obtain c where c: "L2Pyr_init 0 [0, 0] (const_table L2_param_names 150) = Inr c"
    using L2Pyr_init_returns [OF const_table_dom] by blast
  obtain c' where c': "L5Pyr_init ex_distance 0 [0, 0] (const_table L5_param_names 150) = Inr c'"
    using L5Pyr_init_returns [OF const_table_dom] by blast
  note t = axial_projection_factors [of 0 "[0, 0]" "const_table L2_param_names 150" c
      ex_distance 0 "[0, 0]" "const_table L5_param_names 150" c']
  from t c have y: "map_of (yscale c) =
        [''L2Pyr_soma'' \<mapsto> 1, ''L2Pyr_apical_trunk'' \<mapsto> 1, ''L2Pyr_apical_1'' \<mapsto> 1,
         ''L2Pyr_apical_tuft'' \<mapsto> 1, ''L2Pyr_apical_oblique'' \<mapsto> 0, ''L2Pyr_basal_1'' \<mapsto> - 1,
         ''L2Pyr_basal_2'' \<mapsto> - (sqrt 2 / 2), ''L2Pyr_basal_3'' \<mapsto> - (sqrt 2 / 2)]"
    by blast
  from t c' have y': "map_of (yscale c') =
        [''L5Pyr_soma'' \<mapsto> 1, ''L5Pyr_apical_trunk'' \<mapsto> 1, ''L5Pyr_apical_1'' \<mapsto> 1,
         ''L5Pyr_apical_2'' \<mapsto> 1, ''L5Pyr_apical_tuft'' \<mapsto> 1, ''L5Pyr_apical_oblique'' \<mapsto> 0,
         ''L5Pyr_basal_1'' \<mapsto> - 1, ''L5Pyr_basal_2'' \<mapsto> - (sqrt 2 / 2),
         ''L5Pyr_basal_3'' \<mapsto> - (sqrt 2 / 2)]"
    by blast
  have "map_of (yscale c) ''L2Pyr_basal_1'' = Some (- 1)"
    "map_of (yscale c) ''L2Pyr_basal_2'' = Some (- (sqrt 2 / 2))"
    "map_of (yscale c) ''L2Pyr_apical_oblique'' = Some 0"
    "map_of (yscale c) ''L2Pyr_apical_tuft'' = Some 1"
    unfolding y by simp_all
  moreover have "map_of (yscale c') ''L5Pyr_basal_3'' = Some (- (sqrt 2 / 2))"
    "map_of (yscale c') ''L5Pyr_apical_2'' = Some 1"
    unfolding y' by simp_all
  ultimately show ?thesis using c c' by blast
qed

section \<open>Synapses of a built cell\<close>

text \<open>
  Claim C6. After \<^verbatim>\<open>_synapse_create\<close>, at the end of the constructor, the dictionary
  \<^verbatim>\<open>synapses\<close> of a cell has exactly these keys: \<^verbatim>\<open>soma_gabaa\<close> and \<^verbatim>\<open>soma_gabab\<close> on the
  soma; the pairs \<^verbatim>\<open>_ampa\<close>, \<^verbatim>\<open>_nmda\<close> for \<^verbatim>\<open>apicaloblique\<close>, \<^verbatim>\<open>basal2\<close>, \<^verbatim>\<open>basal3\<close> and
  \<^verbatim>\<open>apicaltuft\<close>, each on the dendrite of that name; and, for the layer-5 subtype only,
  \<^verbatim>\<open>apicaltuft_gabaa\<close>. Every synapse sits at the fraction 0.5 of its section.
\<close>

theorem synapse_registry:
  "(L2Pyr_init g ps p = Inr c \<longrightarrow>
      (\<exists>ampa nmda gabaa gabab. synapses c =
         [''soma_gabaa'' \<mapsto> syn_create Soma 0.5 gabaa,
          ''soma_gabab'' \<mapsto> syn_create Soma 0.5 gabab,
          ''apicaloblique_ampa'' \<mapsto> syn_create (Dend ''apical_oblique'') 0.5 ampa,
          ''apicaloblique_nmda'' \<mapsto> syn_create (Dend ''apical_oblique'') 0.5 nmda,
          ''basal2_ampa'' \<mapsto> syn_create (Dend ''basal_2'') 0.5 ampa,
          ''basal2_nmda'' \<mapsto> syn_create (Dend ''basal_2'') 0.5 nmda,
          ''basal3_ampa'' \<mapsto> syn_create (Dend ''basal_3'') 0.5 ampa,
          ''basal3_nmda'' \<mapsto> syn_create (Dend ''basal_3'') 0.5 nmda,
          ''apicaltuft_ampa'' \<mapsto> syn_create (Dend ''apical_tuft'') 0.5 ampa,
          ''apicaltuft_nmda'' \<mapsto> syn_create (Dend ''apical_tuft'') 0.5 nmda])
      \<and> dom (synapses c) =
          {''apicaltuft_nmda'', ''apicaltuft_ampa'', ''basal3_nmda'', ''basal3_ampa'',
           ''basal2_nmda'', ''basal2_ampa'', ''apicaloblique_nmda'', ''apicaloblique_ampa'',
           ''soma_gabab'', ''soma_gabaa''})
   \<and> (L5Pyr_init distance g' ps' p' = Inr c' \<longrightarrow>
      (\<exists>ampa nmda gabaa gabab. synapses c' =
         [''soma_gabaa'' \<mapsto> syn_create Soma 0.5 gabaa,
          ''soma_gabab'' \<mapsto> syn_create Soma 0.5 gabab,
          ''apicaloblique_ampa'' \<mapsto> syn_create (Dend ''apical_oblique'') 0.5 ampa,
          ''apicaloblique_nmda'' \<mapsto> syn_create (Dend ''apical_oblique'') 0.5 nmda,
          ''basal2_ampa'' \<mapsto> syn_create (Dend ''basal_2'') 0.5 ampa,
          ''basal2_nmda'' \<mapsto> syn_create (Dend ''basal_2'') 0.5 nmda,
          ''basal3_ampa'' \<mapsto> syn_create (Dend ''basal_3'') 0.5 ampa,
          ''basal3_nmda'' \<mapsto> syn_create (Dend ''basal_3'') 0.5 nmda,
          ''apicaltuft_ampa'' \<mapsto> syn_create (Dend ''apical_tuft'') 0.5 ampa,
          ''apicaltuft_nmda'' \<mapsto> syn_create (Dend ''apical_tuft'') 0.5 nmda,
          ''apicaltuft_gabaa'' \<mapsto> syn_create (Dend ''apical_tuft'') 0.5 gabaa])
      \<and> dom (synapses c') =
          {''apicaltuft_gabaa'', ''apicaltuft_nmda'', ''apicaltuft_ampa'', ''basal3_nmda'',
           ''basal3_ampa'', ''basal2_nmda'', ''basal2_ampa'', ''apicaloblique_nmda'',
           ''apicaloblique_ampa'', ''soma_gabab'', ''soma_gabaa''})
   \<and> syn_sec (syn_create sec x pr) = sec \<and> syn_x (syn_create sec x pr) = x"
proof (intro conjI impI)
  assume r: "L2Pyr_init g ps p = Inr c"
  note b = L2Pyr_built(5) [OF r]
  show "\<exists>ampa nmda gabaa gabab. synapses c =
         [''soma_gabaa'' \<mapsto> syn_create Soma 0.5 gabaa,
          ''soma_gabab'' \<mapsto> syn_create Soma 0.5 gabab,
          ''apicaloblique_ampa'' \<mapsto> syn_create (Dend ''apical_oblique'') 0.5 ampa,
          ''apicaloblique_nmda'' \<mapsto> syn_create (Dend ''apical_oblique'') 0.5 nmda,
          ''basal2_ampa'' \<mapsto> syn_create (Dend ''basal_2'') 0.5 ampa,
          ''basal2_nmda'' \<mapsto> syn_create (Dend ''basal_2'') 0.5 nmda,
          ''basal3_ampa'' \<mapsto> syn_create (Dend ''basal_3'') 0.5 ampa,
          ''basal3_nmda'' \<mapsto> syn_create (Dend ''basal_3'') 0.5 nmda,
          ''apicaltuft_ampa'' \<mapsto> syn_create (Dend ''apical_tuft'') 0.5 ampa,
          ''apicaltuft_nmda'' \<mapsto> syn_create (Dend ''apical_tuft'') 0.5 nmda]"
    by (rule b)
  from b show "dom (synapses c) =
          {''apicaltuft_nmda'', ''apicaltuft_ampa'', ''basal3_nmda'', ''basal3_ampa'',
           ''basal2_nmda'', ''basal2_ampa'', ''apicaloblique_nmda'', ''apicaloblique_ampa'',
           ''soma_gabab'', ''soma_gabaa''}"
    by (elim exE) simp
next
  assume r: "L5Pyr_init distance g' ps' p' = Inr c'"
  note b = L5Pyr_built(5) [OF r]
  show "\<exists>ampa nmda gabaa gabab. synapses c' =
         [''soma_gabaa'' \<mapsto> syn_create Soma 0.5 gabaa,
          ''soma_gabab'' \<mapsto> syn_create Soma 0.5 gabab,
          ''apicaloblique_ampa'' \<mapsto> syn_create (Dend ''apical_oblique'') 0.5 ampa,
          ''apicaloblique_nmda'' \<mapsto> syn_create (Dend ''apical_oblique'') 0.5 nmda,
          ''basal2_ampa'' \<mapsto> syn_create (Dend ''basal_2'') 0.5 ampa,
          ''basal2_nmda'' \<mapsto> syn_create (Dend ''basal_2'') 0.5 nmda,
          ''basal3_ampa'' \<mapsto> syn_create (Dend ''basal_3'') 0.5 ampa,
          ''basal3_nmda'' \<mapsto> syn_create (Dend ''basal_3'') 0.5 nmda,
          ''apicaltuft_ampa'' \<mapsto> syn_create (Dend ''apical_tuft'') 0.5 ampa,
          ''apicaltuft_nmda'' \<mapsto> syn_create (Dend ''apical_tuft'') 0.5 nmda,
          ''apicaltuft_gabaa'' \<mapsto> syn_create (Dend ''apical_tuft'') 0.5 gabaa]"
    by (rule b)
  from b show "dom (synapses c') =
          {''apicaltuft_gabaa'', ''apicaltuft_nmda'', ''apicaltuft_ampa'', ''basal3_nmda'',
           ''basal3_ampa'', ''basal2_nmda'', ''basal2_ampa'', ''apicaloblique_nmda'',
           ''apicaloblique_ampa'', ''soma_gabab'', ''soma_gabaa''}"
    by (elim exE) simp
next
  show "syn_sec (syn_create sec x pr) = sec" by (simp add: syn_create_def)
  show "syn_x (syn_create sec x pr) = x" by (simp add: syn_create_def)
qed

theorem synapse_registry_witness:
  "(\<exists>c. L2Pyr_init 0 [0, 0] (const_table L2_param_names 150) = Inr c
      \<and> dom (synapses c) =
          {''apicaltuft_nmda'', ''apicaltuft_ampa'', ''basal3_nmda'', ''basal3_ampa'',
           ''basal2_nmda'', ''basal2_ampa'', ''apicaloblique_nmda'', ''apicaloblique_ampa'',
           ''soma_gabab'', ''soma_gabaa''})
   \<and> (\<exists>c'. L5Pyr_init ex_distance 0 [0, 0] (const_table L5_param_names 150) = Inr c'
      \<and> dom (synapses c') =
          {''apicaltuft_gabaa'', ''apicaltuft_nmda'', ''apicaltuft_ampa'', ''basal3_nmda'',
           ''basal3_ampa'', ''basal2_nmda'', ''basal2_ampa'', ''apicaloblique_nmda'',
           ''apicaloblique_ampa'', ''soma_gabab'', ''soma_gabaa''})"
proof -
  obtain c where c: "L2Pyr_init 0 [0, 0] (const_table L2_param_names 150) = Inr c"
    using L2Pyr_init_returns [OF const_table_dom] by blast
  obtain c' where c': "L5Pyr_init ex_distance 0 [0, 0] (const_table L5_param_names 150) = Inr c'"
    using L5Pyr_init_returns [OF const_table_dom] by blast
  note t = synapse_registry [of 0 "[0, 0]" "const_table L2_param_names 150" c
      ex_distance 0 "[0, 0]" "const_table L5_param_names 150" c']
  have d: "dom (synapses c) =
          {''apicaltuft_nmda'', ''apicaltuft_ampa'', ''basal3_nmda'', ''basal3_ampa'',
           ''basal2_nmda'', ''basal2_ampa'', ''apicaloblique_nmda'', ''apicaloblique_ampa'',
           ''soma_gabab'', ''soma_gabaa''}"
    using t [THEN conjunct1, THEN mp, OF c] by (rule conjunct2)
  have d': "dom (synapses c') =
          {''apicaltuft_gabaa'', ''apicaltuft_nmda'', ''apicaltuft_ampa'', ''basal3_nmda'',
           ''basal3_ampa'', ''basal2_nmda'', ''basal2_ampa'', ''apicaloblique_nmda'',
           ''apicaloblique_ampa'', ''soma_gabab'', ''soma_gabaa''}"
    using t [THEN conjunct2, THEN conjunct1, THEN mp, OF c'] by (rule conjunct2)
  show ?thesis
    by (intro conjI exI [of _ c] exI [of _ c'] c c' d d')
qed

section \<open>Segments of a built cell\<close>

lemma odd_after_increment: "odd (if (n::int) mod 2 = 0 then n + 1 else n)"
  by (cases "even n") (auto simp: even_iff_mod_2_eq_zero)

lemma built_dendrite_length:
  assumes c: "L2Pyr_init g ps (const_table L2_param_names v) = Inr c"
  shows "\<exists>s. (''apical_trunk'', s) \<in> set (dends c) \<and> L s = v"
proof -
  from shape_member [OF L2Pyr_built(1) [OF c]] obtain s where
    m: "(''apical_trunk'', s) \<in> set (dends c)" by blast
  have "L s = v" using L2Pyr_nseg(2) [OF c m] by (rule const_table_ran)
  with m show ?thesis by blast
qed

text \<open>
  Claim C1. \<^verbatim>\<open>set_dend_props\<close> writes the length \<open>p_L\<close> of the parameters and, when it
  exceeds 100, the number of segments \<open>\<lfloor>L / 50\<rfloor>\<close>, plus one when that is even; otherwise it
  leaves the number of segments as it is. So on every dendrite of a built cell, whose
  sections start with one segment, the number of segments is that odd number when the
  length exceeds 100, and 1 otherwise: 3 for the length 150, 5 for 200, 1 for 80. The
  length is one of the values of the parameter table. The simulator refuses some values
  that this model accepts (a length that is not positive, more than 32767 segments), so the
  runs of the constructors that return here include every run that returns there.
\<close>

theorem segment_count:
  assumes r: "L2Pyr_init g ps p = Inr c \<or> L5Pyr_init distance g ps p = Inr c"
    and m: "(key, s) \<in> set (dends c)"
  shows "nseg s =
      (if 100 < L s
       then (if \<lfloor>L s / 50\<rfloor> mod 2 = 0 then \<lfloor>L s / 50\<rfloor> + 1 else \<lfloor>L s / 50\<rfloor>)
       else 1)
    \<and> L s \<in> ran p
    \<and> (100 < L s \<longrightarrow> odd (nseg s) \<and> 3 \<le> nseg s)
    \<and> (L s \<le> 100 \<longrightarrow> nseg s = 1)
    \<and> (L s = 150 \<longrightarrow> nseg s = 3) \<and> (L s = 200 \<longrightarrow> nseg s = 5) \<and> (L s = 80 \<longrightarrow> nseg s = 1)
    \<and> L (set_props pr s0) = p_L pr
    \<and> nseg (set_props pr s0) =
        (if 100 < p_L pr
         then (if \<lfloor>p_L pr / 50\<rfloor> mod 2 = 0 then \<lfloor>p_L pr / 50\<rfloor> + 1 else \<lfloor>p_L pr / 50\<rfloor>)
         else nseg s0)"
proof -
  from r have n: "nseg s =
      (if 100 < L s
       then (if \<lfloor>L s / 50\<rfloor> mod 2 = 0 then \<lfloor>L s / 50\<rfloor> + 1 else \<lfloor>L s / 50\<rfloor>)
       else 1)"
    using L2Pyr_nseg(1) [OF _ m] L5Pyr_nseg(1) [OF _ m] by blast
  from r have l: "L s \<in> ran p"
    using L2Pyr_nseg(2) [OF _ m] L5Pyr_nseg(2) [OF _ m] by blast
  have o: "100 < L s \<longrightarrow> odd (nseg s) \<and> 3 \<le> nseg s"
  proof (intro impI conjI)
    assume h: "100 < L s"
    with n have e: "nseg s =
        (if \<lfloor>L s / 50\<rfloor> mod 2 = 0 then \<lfloor>L s / 50\<rfloor> + 1 else \<lfloor>L s / 50\<rfloor>)"
      by simp
    show "odd (nseg s)" unfolding e by (rule odd_after_increment)
    from h have "2 \<le> L s / 50" by simp
    then have f: "2 \<le> \<lfloor>L s / 50\<rfloor>" by (simp add: le_floor_iff)
    have "\<lfloor>L s / 50\<rfloor> mod 2 = 0 \<or> 3 \<le> \<lfloor>L s / 50\<rfloor>" using f by presburger
    with f show "3 \<le> nseg s" unfolding e by auto
  qed
  have s1: "L s \<le> 100 \<longrightarrow> nseg s = 1" unfolding n by simp
  have e1: "L s = 150 \<longrightarrow> nseg s = 3" unfolding n by simp
  have e2: "L s = 200 \<longrightarrow> nseg s = 5" unfolding n by simp
  have e3: "L s = 80 \<longrightarrow> nseg s = 1" unfolding n by simp
  from n l o s1 e1 e2 e3 set_props_nseg [of pr s0] show ?thesis by (intro conjI)
qed

theorem segment_count_witness:
  "(\<exists>c s. L2Pyr_init 0 [0, 0] (const_table L2_param_names 150) = Inr c
      \<and> (''apical_trunk'', s) \<in> set (dends c) \<and> (100::real) < L s \<and> L s = 150 \<and> nseg s = 3
      \<and> odd (nseg s))
   \<and> (\<exists>c s. L2Pyr_init 0 [0, 0] (const_table L2_param_names 200) = Inr c
      \<and> (''apical_trunk'', s) \<in> set (dends c) \<and> L s = 200 \<and> nseg s = 5)
   \<and> (\<exists>c s. L2Pyr_init 0 [0, 0] (const_table L2_param_names 80) = Inr c
      \<and> (''apical_trunk'', s) \<in> set (dends c) \<and> L s \<le> 100 \<and> L s = 80 \<and> nseg s = 1)"
proof (intro conjI)
  obtain c where c: "L2Pyr_init 0 [0, 0] (const_table L2_param_names 150) = Inr c"
    using L2Pyr_init_returns [OF const_table_dom] by blast
  from built_dendrite_length [OF c] obtain s where
    m: "(''apical_trunk'', s) \<in> set (dends c)" and l: "L s = 150" by blast
  note t = segment_count [OF disjI1 [OF c] m]
  from l have h: "(100::real) < L s" by simp
  from t l have a: "nseg s = 3" by simp
  from t h have b: "odd (nseg s)" by blast
  from c m h l a b show "\<exists>c s. L2Pyr_init 0 [0, 0] (const_table L2_param_names 150) = Inr c
      \<and> (''apical_trunk'', s) \<in> set (dends c) \<and> (100::real) < L s \<and> L s = 150 \<and> nseg s = 3
      \<and> odd (nseg s)"
    by blast
next
  obtain c where c: "L2Pyr_init 0 [0, 0] (const_table L2_param_names 200) = Inr c"
    using L2Pyr_init_returns [OF const_table_dom] by blast
  from built_dendrite_length [OF c] obtain s where
    m: "(''apical_trunk'', s) \<in> set (dends c)" and l: "L s = 200" by blast
  note t = segment_count [OF disjI1 [OF c] m]
  from t l have "nseg s = 5" by simp
  with c m l show "\<exists>c s. L2Pyr_init 0 [0, 0] (const_table L2_param_names 200) = Inr c
      \<and> (''apical_trunk'', s) \<in> set (dends c) \<and> L s = 200 \<and> nseg s = 5"
    by blast
next
  obtain c where c: "L2Pyr_init 0 [0, 0] (const_table L2_param_names 80) = Inr c"
    using L2Pyr_init_returns [OF const_table_dom] by blast
  from built_dendrite_length [OF c] obtain s where
    m: "(''apical_trunk'', s) \<in> set (dends c)" and l: "L s = 80" by blast
  note t = segment_count [OF disjI1 [OF c] m]
  from l have h: "L s \<le> 100" by simp
  from t l have "nseg s = 1" by simp
  with c m l h show "\<exists>c s. L2Pyr_init 0 [0, 0] (const_table L2_param_names 80) = Inr c
      \<and> (''apical_trunk'', s) \<in> set (dends c) \<and> L s \<le> 100 \<and> L s = 80 \<and> nseg s = 1"
    by blast
qed

section \<open>The density that grows with the distance from the soma\<close>

lemma seg_x_length: "length (seg_x n) = nat n"
  by (simp add: seg_x_def)

lemma gbar_ar_at_mono: "d1 < d2 \<Longrightarrow> gbar_ar_at d1 < gbar_ar_at d2"
  by (simp add: gbar_ar_at_def)

text \<open>
  Claim C2. On the dendrites of a built layer-5 cell the density \<^verbatim>\<open>gbar_ar\<close> is
  \<open>1e-6 * exp (3e-3 * d)\<close>, where \<open>d\<close> is the path distance from the soma that
  \<^verbatim>\<open>h.distance\<close> returns. It is assigned segment by segment, at the fraction of each
  segment of the section, one value per segment, and it grows strictly with the distance:
  of two segments, of one dendrite or of two, the one farther from the soma has the
  strictly larger density.
\<close>

theorem gbar_ar_gradient:
  assumes r: "L5Pyr_init distance g ps p = Inr c"
    and m1: "(key1, s1) \<in> set (dends c)" and m2: "(key2, s2) \<in> set (dends c)"
  shows "gbar_ar s1 = map (\<lambda>x. 1 / 10 ^ 6 * exp (3 / 10 ^ 3 * distance key1 x)) (seg_x (nseg s1))
    \<and> length (gbar_ar s1) = nat (nseg s1) \<and> 1 \<le> nseg s1
    \<and> (\<forall>d1 d2. d1 < d2 \<longrightarrow> gbar_ar_at d1 < gbar_ar_at d2)
    \<and> (\<forall>i j. i < nat (nseg s1) \<longrightarrow> j < nat (nseg s2) \<longrightarrow>
          distance key1 (seg_x (nseg s1) ! i) < distance key2 (seg_x (nseg s2) ! j) \<longrightarrow>
          gbar_ar s1 ! i < gbar_ar s2 ! j)"
proof -
  have g1: "gbar_ar s1 = map (\<lambda>x. gbar_ar_at (distance key1 x)) (seg_x (nseg s1))"
    by (rule L5Pyr_gbar_ar [OF r m1])
  have g2: "gbar_ar s2 = map (\<lambda>x. gbar_ar_at (distance key2 x)) (seg_x (nseg s2))"
    by (rule L5Pyr_gbar_ar [OF r m2])
  have a: "gbar_ar s1 = map (\<lambda>x. 1 / 10 ^ 6 * exp (3 / 10 ^ 3 * distance key1 x)) (seg_x (nseg s1))"
    unfolding g1 gbar_ar_at_def ..
  have b: "length (gbar_ar s1) = nat (nseg s1)"
    unfolding g1 by (simp add: seg_x_length)
  note n = L5Pyr_nseg(1) [OF r m1]
  have n1: "1 \<le> nseg s1"
  proof (cases "100 < L s1")
    case True
    then have "2 \<le> L s1 / 50" by simp
    then have "2 \<le> \<lfloor>L s1 / 50\<rfloor>" by (simp add: le_floor_iff)
    with True show ?thesis unfolding n by auto
  next
    case False
    then show ?thesis unfolding n by simp
  qed
  have c: "\<forall>d1 d2. d1 < d2 \<longrightarrow> gbar_ar_at d1 < gbar_ar_at d2"
    by (simp add: gbar_ar_at_mono)
  have d: "\<forall>i j. i < nat (nseg s1) \<longrightarrow> j < nat (nseg s2) \<longrightarrow>
          distance key1 (seg_x (nseg s1) ! i) < distance key2 (seg_x (nseg s2) ! j) \<longrightarrow>
          gbar_ar s1 ! i < gbar_ar s2 ! j"
    unfolding g1 g2 by (simp add: seg_x_length gbar_ar_at_mono)
  from a b n1 c d show ?thesis by (intro conjI)
qed

theorem gbar_ar_gradient_witness:
  "\<exists>c s. L5Pyr_init ex_distance 0 [0, 0] (const_table L5_param_names 150) = Inr c
     \<and> (''apical_trunk'', s) \<in> set (dends c) \<and> nseg s = 3
     \<and> (0::nat) < nat (nseg s) \<and> Suc 0 < nat (nseg s)
     \<and> ex_distance ''apical_trunk'' (seg_x (nseg s) ! 0)
         < ex_distance ''apical_trunk'' (seg_x (nseg s) ! Suc 0)
     \<and> gbar_ar s ! 0 < gbar_ar s ! Suc 0 \<and> length (gbar_ar s) = 3
     \<and> (0::real) < 1 \<and> gbar_ar_at 0 < gbar_ar_at 1"
proof -
  obtain c where c: "L5Pyr_init ex_distance 0 [0, 0] (const_table L5_param_names 150) = Inr c"
    using L5Pyr_init_returns [OF const_table_dom] by blast
  from shape_member [OF L5Pyr_built(1) [OF c]] obtain s where
    m: "(''apical_trunk'', s) \<in> set (dends c)" by blast
  have len: "L s = 150" using L5Pyr_nseg(2) [OF c m] by (rule const_table_ran)
  have n: "nseg s = 3" using L5Pyr_nseg(1) [OF c m] by (simp add: len)
  have x: "seg_x 3 ! 0 = 1 / 6" "seg_x 3 ! Suc 0 = 1 / 2"
    by (simp_all add: seg_x_def)
  have h1: "(0::nat) < nat (nseg s)" by (simp add: n)
  have h2: "Suc 0 < nat (nseg s)" by (simp add: n)
  have h3: "ex_distance ''apical_trunk'' (seg_x (nseg s) ! 0)
       < ex_distance ''apical_trunk'' (seg_x (nseg s) ! Suc 0)"
    unfolding n x by (simp add: ex_distance_def)
  note t = gbar_ar_gradient [OF c m m]
  from t have q: "\<forall>i j. i < nat (nseg s) \<longrightarrow> j < nat (nseg s) \<longrightarrow>
      ex_distance ''apical_trunk'' (seg_x (nseg s) ! i)
        < ex_distance ''apical_trunk'' (seg_x (nseg s) ! j) \<longrightarrow>
      gbar_ar s ! i < gbar_ar s ! j"
    by (elim conjE)
  from q h1 h2 h3 have g: "gbar_ar s ! 0 < gbar_ar s ! Suc 0" by blast
  from t have "length (gbar_ar s) = nat (nseg s)" by (elim conjE)
  then have l: "length (gbar_ar s) = 3" by (simp add: n)
  have z: "(0::real) < 1" by simp
  from t have "\<forall>d1 d2. d1 < d2 \<longrightarrow> gbar_ar_at d1 < gbar_ar_at d2" by (elim conjE)
  with z have a: "gbar_ar_at 0 < gbar_ar_at 1" by blast
  from c m n h1 h2 h3 g l z a show ?thesis by blast
qed

end
